theory Spec2Isabelle
  imports Complex_Main "HOL-Library.Log_Nat"
begin

section \<open>Python values used by the datatypes module\<close>

text \<open>
  The exceptions the modelled code can raise.  \<open>XPathError code\<close> is the
  \<open>ElementPathError\<close> built by \<open>xpath_error(code, ...)\<close> in
  \<^verbatim>\<open>xpath2_constructors.py\<close>; the others are Python built-ins
  (\<open>InvalidOperation\<close> and \<open>DivisionByZero\<close> are the ones of the
  \<open>decimal\<close> module; the latter is a subclass of \<open>ZeroDivisionError\<close>).
\<close>

datatype error =
    ValueError
  | TypeError
  | OverflowError
  | ZeroDivisionError
  | DivisionByZero
  | InvalidOperation
  | IndexError
  | XPathError string

subsection \<open>Strings\<close>

text \<open>
  Strings are ASCII character lists.  \<open>py_strip\<close> is \<open>str.strip()\<close>: it removes
  the characters for which \<open>str.isspace()\<close> holds (codes 9-13, 28-32) at both ends.
\<close>

definition is_space :: "char \<Rightarrow> bool" where
  "is_space c =
     (c \<in> set [CHR 0x09, CHR 0x0A, CHR 0x0B, CHR 0x0C, CHR 0x0D,
                CHR 0x1C, CHR 0x1D, CHR 0x1E, CHR 0x1F, CHR 0x20])"

definition py_strip :: "string \<Rightarrow> string" where
  "py_strip s = rev (dropWhile is_space (rev (dropWhile is_space s)))"

definition is_digit :: "char \<Rightarrow> bool" where
  "is_digit c = (c \<in> set ''0123456789'')"

definition digit_val :: "char \<Rightarrow> nat" where
  "digit_val c = length (takeWhile (\<lambda>d. d \<noteq> c) ''0123456789'')"

definition nat_of_digits :: "string \<Rightarrow> nat" where
  "nat_of_digits s = foldl (\<lambda>a c. 10 * a + digit_val c) 0 s"

fun double_underscore :: "string \<Rightarrow> bool" where
  "double_underscore (a # b # cs) =
     ((a = CHR ''_'' \<and> b = CHR ''_'') \<or> double_underscore (b # cs))"
| "double_underscore _ = False"

text \<open>
  The \<open>digitpart\<close> of Python's numeric literals in strings: digits, with single
  underscores allowed between two digits.
\<close>

definition digitpart_ok :: "string \<Rightarrow> bool" where
  "digitpart_ok s =
     (s \<noteq> [] \<and> list_all (\<lambda>c. is_digit c \<or> c = CHR ''_'') s \<and>
      is_digit (hd s) \<and> is_digit (last s) \<and> \<not> double_underscore s)"

definition digitpart_val :: "string \<Rightarrow> nat" where
  "digitpart_val s = nat_of_digits (filter is_digit s)"

fun split_sign :: "string \<Rightarrow> bool \<times> string" where
  "split_sign (c # cs) =
     (if c = CHR ''-'' then (True, cs) else if c = CHR ''+'' then (False, cs) else (False, c # cs))"
| "split_sign [] = (False, [])"

text \<open>\<open>int(s)\<close> for a string \<open>s\<close> (base 10).\<close>

definition py_int_of_string :: "string \<Rightarrow> error + int" where
  "py_int_of_string s =
     (case split_sign (py_strip s) of
        (neg, ds) \<Rightarrow>
          if digitpart_ok ds
          then Inr (if neg then - int (digitpart_val ds) else int (digitpart_val ds))
          else Inl ValueError)"

definition to_lower :: "char \<Rightarrow> char" where
  "to_lower c =
     (case map_of (zip ''ABCDEFGHIJKLMNOPQRSTUVWXYZ'' ''abcdefghijklmnopqrstuvwxyz'') c of
        Some l \<Rightarrow> l
      | None \<Rightarrow> c)"

definition py_lower :: "string \<Rightarrow> string" where
  "py_lower s = map to_lower s"

text \<open>\<open>'%d' % n\<close>: the decimal digits of an integer.\<close>

definition digit_char :: "nat \<Rightarrow> char" where
  "digit_char n = ''0123456789'' ! n"

fun str_nat :: "nat \<Rightarrow> string" where
  "str_nat n =
     (if n < 10 then [digit_char n] else str_nat (n div 10) @ [digit_char (n mod 10)])"

definition str_int :: "int \<Rightarrow> string" where
  "str_int i = (if i < 0 then CHR ''-'' # str_nat (nat (- i)) else str_nat (nat i))"

text \<open>\<open>'{:02d}'.format(n)\<close> for \<open>n\<close> below 100: two digits.\<close>

definition two_digits :: "nat \<Rightarrow> string" where
  "two_digits n = [digit_char (n div 10), digit_char (n mod 10)]"

subsection \<open>Floating point numbers\<close>

text \<open>
  A Python \<open>float\<close> is an IEEE 754 binary64 number.  A finite float is modelled by
  the rational number it denotes (the sign of zero is not kept); \<open>round_b64\<close>
  rounds a rational to the nearest binary64 value, ties to even, with gradual underflow
  and overflow to infinity.
\<close>

datatype pyfloat = Finite rat | Infinity bool | NaN

definition pow2 :: "int \<Rightarrow> rat" where
  "pow2 e = (if 0 \<le> e then 2 ^ nat e else 1 / 2 ^ nat (- e))"

definition round_half_even :: "rat \<Rightarrow> int" where
  "round_half_even x =
     (let f = \<lfloor>x\<rfloor>; r = x - of_int f
      in if r < 1 / 2 then f else if 1 / 2 < r then f + 1 else if even f then f else f + 1)"

text \<open>\<open>ilog2 x\<close> is the integer \<open>e\<close> with \<open>2^e \<le> x < 2^(e+1)\<close>, for \<open>x > 0\<close>.\<close>

definition ilog2 :: "rat \<Rightarrow> int" where
  "ilog2 x =
     (case quotient_of x of
        (p, q) \<Rightarrow> let e = bitlen p - bitlen q in if pow2 e \<le> x then e else e - 1)"

definition round_b64 :: "rat \<Rightarrow> pyfloat" where
  "round_b64 x =
     (if x = 0 then Finite 0
      else let a = \<bar>x\<bar>;
               e = max (ilog2 a) (- 1022);
               q = pow2 (e - 52);
               r = of_int (round_half_even (a / q)) * q
           in if pow2 1024 \<le> r then Infinity (x < 0)
              else Finite (if x < 0 then - r else r))"

text \<open>\<open>a + b\<close> on floats.\<close>

fun float_add :: "pyfloat \<Rightarrow> pyfloat \<Rightarrow> pyfloat" where
  "float_add (Finite a) (Finite b) = round_b64 (a + b)"
| "float_add NaN _ = NaN"
| "float_add _ NaN = NaN"
| "float_add (Infinity s) (Infinity t) = (if s = t then Infinity s else NaN)"
| "float_add (Infinity s) (Finite _) = Infinity s"
| "float_add (Finite _) (Infinity t) = Infinity t"

text \<open>\<open>a * b\<close> and \<open>a / b\<close> on floats, \<open>float(n)\<close> and \<open>n / m\<close> for integers.\<close>

fun float_mul :: "pyfloat \<Rightarrow> pyfloat \<Rightarrow> pyfloat" where
  "float_mul (Finite a) (Finite b) = round_b64 (a * b)"
| "float_mul NaN _ = NaN"
| "float_mul _ NaN = NaN"
| "float_mul (Infinity s) (Infinity t) = Infinity (s \<noteq> t)"
| "float_mul (Infinity s) (Finite b) = (if b = 0 then NaN else Infinity (s \<noteq> (b < 0)))"
| "float_mul (Finite a) (Infinity t) = (if a = 0 then NaN else Infinity (t \<noteq> (a < 0)))"

fun float_div :: "pyfloat \<Rightarrow> pyfloat \<Rightarrow> error + pyfloat" where
  "float_div a (Finite b) =
     (if b = 0 then Inl ZeroDivisionError
      else case a of
             Finite x \<Rightarrow> Inr (round_b64 (x / b))
           | Infinity s \<Rightarrow> Inr (Infinity (s \<noteq> (b < 0)))
           | NaN \<Rightarrow> Inr NaN)"
| "float_div NaN _ = Inr NaN"
| "float_div _ NaN = Inr NaN"
| "float_div (Infinity s) (Infinity t) = Inr NaN"
| "float_div (Finite a) (Infinity t) = Inr (Finite 0)"

definition float_of_int :: "int \<Rightarrow> error + pyfloat" where
  "float_of_int n =
     (case round_b64 (of_int n) of Infinity s \<Rightarrow> Inl OverflowError | f \<Rightarrow> Inr f)"

definition int_truediv :: "int \<Rightarrow> int \<Rightarrow> error + pyfloat" where
  "int_truediv n m =
     (if m = 0 then Inl ZeroDivisionError
      else case round_b64 (of_int n / of_int m) of
             Infinity s \<Rightarrow> Inl OverflowError
           | f \<Rightarrow> Inr f)"

text \<open>Truncation toward zero, as \<open>int()\<close> does on floats and decimals.\<close>

definition trunc :: "rat \<Rightarrow> int" where
  "trunc x = (if 0 \<le> x then \<lfloor>x\<rfloor> else \<lceil>x\<rceil>)"

text \<open>\<open>int(f)\<close> for a float \<open>f\<close>.\<close>

fun py_int_of_float :: "pyfloat \<Rightarrow> error + int" where
  "py_int_of_float (Finite x) = Inr (trunc x)"
| "py_int_of_float (Infinity _) = Inl OverflowError"
| "py_int_of_float NaN = Inl ValueError"

text \<open>
  \<open>float(s)\<close> for a string \<open>s\<close>, after the grammar of the language reference:
  optional sign, then \<open>inf\<close>, \<open>infinity\<close> or \<open>nan\<close> in any case, or a decimal
  number with optional fraction and exponent.
\<close>

definition split_at_char :: "(char \<Rightarrow> bool) \<Rightarrow> string \<Rightarrow> string \<times> string option" where
  "split_at_char P s =
     (case dropWhile (\<lambda>c. \<not> P c) s of
        [] \<Rightarrow> (s, None)
      | _ # rest \<Rightarrow> (takeWhile (\<lambda>c. \<not> P c) s, Some rest))"

definition parse_mantissa :: "string \<Rightarrow> (nat \<times> nat) option" where
  "parse_mantissa m =
     (case split_at_char (\<lambda>c. c = CHR ''.'') m of
        (ip, None) \<Rightarrow> if digitpart_ok ip then Some (digitpart_val ip, 0) else None
      | (ip, Some fp) \<Rightarrow>
          if (ip = [] \<or> digitpart_ok ip) \<and> (fp = [] \<or> digitpart_ok fp) \<and> \<not> (ip = [] \<and> fp = [])
          then Some (digitpart_val (ip @ fp), length (filter is_digit fp))
          else None)"

definition parse_exponent :: "string option \<Rightarrow> int option" where
  "parse_exponent ex =
     (case ex of
        None \<Rightarrow> Some 0
      | Some t \<Rightarrow>
          (case split_sign t of
             (neg, ds) \<Rightarrow>
               if digitpart_ok ds
               then Some (if neg then - int (digitpart_val ds) else int (digitpart_val ds))
               else None))"

definition pow10 :: "int \<Rightarrow> rat" where
  "pow10 e = (if 0 \<le> e then 10 ^ nat e else 1 / 10 ^ nat (- e))"

definition py_float_of_string :: "string \<Rightarrow> error + pyfloat" where
  "py_float_of_string s =
     (case split_sign (py_strip s) of
        (neg, body) \<Rightarrow>
          if py_lower body = ''inf'' \<or> py_lower body = ''infinity'' then Inr (Infinity neg)
          else if py_lower body = ''nan'' then Inr NaN
          else
            (case split_at_char (\<lambda>c. c = CHR ''e'' \<or> c = CHR ''E'') body of
               (m, ex) \<Rightarrow>
                 (case (parse_mantissa m, parse_exponent ex) of
                    (Some (n, k), Some e) \<Rightarrow>
                      Inr (round_b64 ((if neg then - 1 else 1) * of_nat n * pow10 (e - int k)))
                  | _ \<Rightarrow> Inl ValueError)))"

subsection \<open>Decimals\<close>

text \<open>
  A \<open>decimal.Decimal\<close> is modelled by the rational number it denotes.  The
  representation (trailing zeros, the sign of zero), the special values and the
  context's precision of 28 significant digits are not part of the model: the
  arithmetic below is the exact one, which \<open>Decimal\<close> computes whenever the exact
  result has at most 28 significant digits.
\<close>

type_synonym decimal = rat

text \<open>
  Sequencing of computations that may raise: the first error ends the computation.
\<close>

definition ebind :: "error + 'a \<Rightarrow> ('a \<Rightarrow> error + 'b) \<Rightarrow> error + 'b" where
  "ebind m f = (case m of Inl e \<Rightarrow> Inl e | Inr x \<Rightarrow> f x)"

text \<open>\<open>int(d)\<close> truncates; \<open>d // k\<close> and \<open>d % k\<close> on decimals truncate as well, the
  remainder taking the sign of the dividend.\<close>

definition dec_floordiv :: "decimal \<Rightarrow> decimal \<Rightarrow> decimal" where
  "dec_floordiv a b = of_int (trunc (a / b))"

definition dec_mod :: "decimal \<Rightarrow> decimal \<Rightarrow> decimal" where
  "dec_mod a b = a - b * of_int (trunc (a / b))"

text \<open>
  \<open>str(d.normalize())\<close>.  \<open>dec_normal_form v\<close> is the coefficient and the exponent
  of the normalized decimal of value \<open>\<bar>v\<bar>\<close> (no trailing zero in the coefficient),
  for a value \<open>v\<close> that is a decimal fraction; \<open>dec_str\<close> writes them as
  \<open>Decimal.__str__\<close> does, in scientific notation when the exponent is positive or
  the number is below \<open>10^-6\<close>.
\<close>

function strip10 :: "nat \<Rightarrow> int \<Rightarrow> nat \<times> int" where
  "strip10 c e = (if c \<noteq> 0 \<and> c mod 10 = 0 then strip10 (c div 10) (e + 1) else (c, e))"
  by pat_completeness auto
termination
  by (relation "measure fst") auto

fun scale10 :: "nat \<Rightarrow> rat \<Rightarrow> int \<Rightarrow> nat \<times> int" where
  "scale10 0 v e = (nat \<lfloor>v\<rfloor>, e)"
| "scale10 (Suc k) v e =
     (if v = of_int \<lfloor>v\<rfloor> then (nat \<lfloor>v\<rfloor>, e) else scale10 k (v * 10) (e - 1))"

definition dec_normal_form :: "decimal \<Rightarrow> nat \<times> int" where
  "dec_normal_form v =
     (let a = \<bar>v\<bar>
      in if a = of_int \<lfloor>a\<rfloor> then strip10 (nat \<lfloor>a\<rfloor>) 0
         else scale10 (nat (snd (quotient_of a))) a 0)"

definition dec_str :: "bool \<Rightarrow> nat \<Rightarrow> int \<Rightarrow> string" where
  "dec_str neg c e =
     (let digits = str_nat c;
          n = int (length digits);
          leftdigits = e + n;
          dotplace = (if e \<le> 0 \<and> - 6 < leftdigits then leftdigits else 1);
          body = (if dotplace \<le> 0 then ''0.'' @ replicate (nat (- dotplace)) CHR ''0'' @ digits
                  else if n \<le> dotplace then digits @ replicate (nat (dotplace - n)) CHR ''0''
                  else take (nat dotplace) digits @ ''.'' @ drop (nat dotplace) digits);
          ex = (if leftdigits = dotplace then []
                else ''E'' @ (if 0 \<le> leftdigits - dotplace then ''+'' else ''-'')
                       @ str_nat (nat \<bar>leftdigits - dotplace\<bar>))
      in (if neg then ''-'' else []) @ body @ ex)"

definition str_normalized :: "decimal \<Rightarrow> string" where
  "str_normalized v = (case dec_normal_form v of (c, e) \<Rightarrow> dec_str (v < 0) c e)"

section \<open>Date and time helpers (datatypes.py)\<close>

subsection \<open>The functions of the module \<open>calendar\<close>\<close>

definition isleap :: "int \<Rightarrow> bool" where
  "isleap year = (year mod 4 = 0 \<and> (year mod 100 \<noteq> 0 \<or> year mod 400 = 0))"

definition leapdays :: "int \<Rightarrow> int \<Rightarrow> int" where
  "leapdays y1 y2 =
     (let a = y1 - 1; b = y2 - 1
      in (b div 4 - a div 4) - (b div 100 - a div 100) + (b div 400 - a div 400))"

subsection \<open>Helpers of the module\<close>

definition MONTH_DAYS :: "int list" where
  "MONTH_DAYS = [0, 31, 28, 31, 30, 31, 30, 31, 31, 30, 31, 30, 31]"

definition MONTH_DAYS_LEAP :: "int list" where
  "MONTH_DAYS_LEAP = [0, 31, 29, 31, 30, 31, 30, 31, 31, 30, 31, 30, 31]"

definition adjust_day :: "int \<Rightarrow> int \<Rightarrow> int \<Rightarrow> int" where
  "adjust_day year month day =
     (if month \<in> {1, 3, 5, 7, 8, 10, 12} then day
      else if month \<in> {4, 6, 9, 11} then min day 30
      else if isleap year then min day 29 else min day 28)"

definition days_from_common_era :: "int \<Rightarrow> int" where
  "days_from_common_era year =
     (if 0 < year then year * 365 + year div 4 - year div 100 + year div 400
      else if - 1 \<le> year then year * 366
      else let y = - year - 1
           in - (366 + y * 365 + y div 4 - y div 100 + y div 400))"

definition DAYS_IN_4Y :: int where
  "DAYS_IN_4Y = days_from_common_era 4"

definition DAYS_IN_100Y :: int where
  "DAYS_IN_100Y = days_from_common_era 100"

definition DAYS_IN_400Y :: int where
  "DAYS_IN_400Y = days_from_common_era 400"

text \<open>
  \<open>xs[i]\<close> on a list: a negative index counts from the end, an index out of range
  raises \<open>IndexError\<close>.  \<open>sum_table xs ms\<close> is \<open>sum(xs[m] for m in ms)\<close> and
  \<open>py_range a b\<close> is \<open>range(a, b)\<close>.
\<close>

definition py_index :: "int list \<Rightarrow> int \<Rightarrow> error + int" where
  "py_index xs i =
     (if 0 \<le> i \<and> i < int (length xs) then Inr (xs ! nat i)
      else if i < 0 \<and> - int (length xs) \<le> i then Inr (xs ! nat (i + int (length xs)))
      else Inl IndexError)"

fun sum_table :: "int list \<Rightarrow> int list \<Rightarrow> error + int" where
  "sum_table xs [] = Inr 0"
| "sum_table xs (m # ms) =
     ebind (py_index xs m) (\<lambda>v. ebind (sum_table xs ms) (\<lambda>r. Inr (v + r)))"

definition py_range :: "int \<Rightarrow> int \<Rightarrow> int list" where
  "py_range a b = [a..b - 1]"

definition months2days :: "int \<Rightarrow> int \<Rightarrow> int \<Rightarrow> error + int" where
  "months2days year month months_delta =
     (if months_delta = 0 then Inr 0
      else
        let total_months = month - 1 + months_delta;
            target_year = year + total_months div 12;
            target_month = total_months mod 12 + 1;
            y_days = (if month \<le> 2
                      then 365 * (target_year - year) + leapdays year target_year
                      else 365 * (target_year - year) + leapdays (year + 1) (target_year + 1));
            months_days = (if isleap target_year then MONTH_DAYS_LEAP else MONTH_DAYS)
        in if month \<le> target_month
           then ebind (sum_table months_days (py_range month target_month))
                  (\<lambda>m_days. Inr (if 0 \<le> y_days then y_days + m_days else y_days + m_days))
           else ebind (sum_table months_days (py_range target_month month))
                  (\<lambda>m_days. Inr (if 0 \<le> y_days then y_days - m_days else y_days - m_days)))"

section \<open>The module \<open>datetime\<close> of the standard library\<close>

text \<open>
  A \<open>timedelta\<close> is a number of microseconds whose number of whole days has a
  magnitude of at most 999999999; building one outside raises \<open>OverflowError\<close>.
\<close>

type_synonym timedelta = int

definition US_PER_SECOND :: int where
  "US_PER_SECOND = 1000000"

definition US_PER_DAY :: int where
  "US_PER_DAY = 86400000000"

definition timedelta_of_us :: "int \<Rightarrow> error + timedelta" where
  "timedelta_of_us us =
     (if \<bar>us div US_PER_DAY\<bar> \<le> 999999999 then Inr us else Inl OverflowError)"

text \<open>\<open>timedelta(days, seconds, microseconds)\<close> on integers.\<close>

definition mk_timedelta :: "int \<Rightarrow> int \<Rightarrow> int \<Rightarrow> error + timedelta" where
  "mk_timedelta days secs us = timedelta_of_us (days * US_PER_DAY + secs * US_PER_SECOND + us)"

definition td_days :: "timedelta \<Rightarrow> int" where
  "td_days td = td div US_PER_DAY"

definition td_seconds :: "timedelta \<Rightarrow> int" where
  "td_seconds td = (td mod US_PER_DAY) div US_PER_SECOND"

definition td_microseconds :: "timedelta \<Rightarrow> int" where
  "td_microseconds td = td mod US_PER_SECOND"

definition td_add :: "timedelta \<Rightarrow> timedelta \<Rightarrow> error + timedelta" where
  "td_add a b = timedelta_of_us (a + b)"

definition td_sub :: "timedelta \<Rightarrow> timedelta \<Rightarrow> error + timedelta" where
  "td_sub a b = timedelta_of_us (a - b)"

text \<open>
  \<open>td.total_seconds()\<close> is a float; \<open>timedelta(days=d, seconds=f)\<close> with a float
  \<open>f\<close> rounds to the nearest microsecond.
\<close>

definition td_total_seconds :: "timedelta \<Rightarrow> pyfloat" where
  "td_total_seconds td = round_b64 (of_int td / of_int US_PER_SECOND)"

fun mk_timedelta_float :: "int \<Rightarrow> pyfloat \<Rightarrow> error + timedelta" where
  "mk_timedelta_float days (Finite f) =
     timedelta_of_us (days * US_PER_DAY + round_half_even (f * of_int US_PER_SECOND))"
| "mk_timedelta_float days (Infinity _) = Inl OverflowError"
| "mk_timedelta_float days NaN = Inl ValueError"

subsection \<open>Timezone (datatypes.py)\<close>

text \<open>
  \<open>Timezone\<close> is the module's \<open>tzinfo\<close> class: a fixed offset, which its
  constructor admits between \<open>-14:00\<close> and \<open>+14:00\<close>.
\<close>

datatype timezone = Timezone (offset: timedelta)

definition maxoffset :: timedelta where
  "maxoffset = 14 * 3600 * US_PER_SECOND"

definition minoffset :: timedelta where
  "minoffset = - maxoffset"

definition Timezone_init :: "timedelta \<Rightarrow> error + timezone" where
  "Timezone_init off =
     (if off < minoffset \<or> maxoffset < off then Inl ValueError else Inr (Timezone off))"

subsection \<open>datetime objects\<close>

record datetime =
  dt_year :: int
  dt_month :: int
  dt_day :: int
  dt_hour :: int
  dt_minute :: int
  dt_second :: int
  dt_microsecond :: int
  dt_tzinfo :: "timezone option"

definition DAYS_IN_MONTH :: "int list" where
  "DAYS_IN_MONTH = [- 1, 31, 28, 31, 30, 31, 30, 31, 31, 30, 31, 30, 31]"

definition DAYS_BEFORE_MONTH :: "int list" where
  "DAYS_BEFORE_MONTH = [- 1, 0, 31, 59, 90, 120, 151, 181, 212, 243, 273, 304, 334]"

definition MAXORDINAL :: int where
  "MAXORDINAL = 3652059"

definition days_before_year :: "int \<Rightarrow> int" where
  "days_before_year year = (let y = year - 1 in y * 365 + y div 4 - y div 100 + y div 400)"

definition days_in_month :: "int \<Rightarrow> int \<Rightarrow> int" where
  "days_in_month year month =
     (if month = 2 \<and> isleap year then 29 else DAYS_IN_MONTH ! nat month)"

definition days_before_month :: "int \<Rightarrow> int \<Rightarrow> int" where
  "days_before_month year month =
     DAYS_BEFORE_MONTH ! nat month + (if 2 < month \<and> isleap year then 1 else 0)"

definition ymd2ord :: "int \<Rightarrow> int \<Rightarrow> int \<Rightarrow> int" where
  "ymd2ord year month day = days_before_year year + days_before_month year month + day"

text \<open>
  \<open>_ord2ymd\<close>, the inverse of \<open>_ymd2ord\<close>.  \<open>find_month leapyear n\<close> is its last part:
  the month and the day of the month of the day \<open>n\<close> of a year, counted from 0, from an
  estimate of the month that is exact or too large by one.
\<close>

definition find_month :: "bool \<Rightarrow> int \<Rightarrow> int \<times> int" where
  "find_month leapyear n =
     (let month = (n + 50) div 32;
          preceding = DAYS_BEFORE_MONTH ! nat month + (if 2 < month \<and> leapyear then 1 else 0)
      in if n < preceding
         then (month - 1,
               n - (preceding - (DAYS_IN_MONTH ! nat (month - 1)
                                 + (if month - 1 = 2 \<and> leapyear then 1 else 0))) + 1)
         else (month, n - preceding + 1))"

definition ord2ymd :: "int \<Rightarrow> int \<times> int \<times> int" where
  "ord2ymd n =
     (let n0 = n - 1;
          n400 = n0 div 146097; r1 = n0 mod 146097;
          n100 = r1 div 36524; r2 = r1 mod 36524;
          n4 = r2 div 1461; r3 = r2 mod 1461;
          n1 = r3 div 365; r4 = r3 mod 365;
          yr = n400 * 400 + 1 + n100 * 100 + n4 * 4 + n1
      in if n1 = 4 \<or> n100 = 4 then (yr - 1, 12, 31)
         else (case find_month (n1 = 3 \<and> (n4 \<noteq> 24 \<or> n100 = 3)) r4 of
                 (month, day) \<Rightarrow> (yr, month, day)))"

text \<open>
  \<open>datetime(year, month, day, hour, minute, second, microsecond, tzinfo)\<close>: every
  field out of its range raises \<open>ValueError\<close>.
\<close>

definition mk_datetime ::
  "int \<Rightarrow> int \<Rightarrow> int \<Rightarrow> int \<Rightarrow> int \<Rightarrow> int \<Rightarrow> int \<Rightarrow> timezone option \<Rightarrow> error + datetime" where
  "mk_datetime y m d hh mm ss us tz =
     (if 1 \<le> y \<and> y \<le> 9999 \<and> 1 \<le> m \<and> m \<le> 12 \<and> 1 \<le> d \<and> d \<le> days_in_month y m \<and>
         0 \<le> hh \<and> hh \<le> 23 \<and> 0 \<le> mm \<and> mm \<le> 59 \<and> 0 \<le> ss \<and> ss \<le> 59 \<and>
         0 \<le> us \<and> us \<le> 999999
      then Inr \<lparr>dt_year = y, dt_month = m, dt_day = d, dt_hour = hh, dt_minute = mm,
                dt_second = ss, dt_microsecond = us, dt_tzinfo = tz\<rparr>
      else Inl ValueError)"

definition toordinal :: "datetime \<Rightarrow> int" where
  "toordinal dt = ymd2ord (dt_year dt) (dt_month dt) (dt_day dt)"

definition utcoffset :: "datetime \<Rightarrow> timedelta option" where
  "utcoffset dt = map_option offset (dt_tzinfo dt)"

text \<open>The microseconds of the wall clock reading since the start of day 0.\<close>

definition wall_us :: "datetime \<Rightarrow> int" where
  "wall_us dt =
     toordinal dt * US_PER_DAY
     + (dt_hour dt * 3600 + dt_minute dt * 60 + dt_second dt) * US_PER_SECOND
     + dt_microsecond dt"

text \<open>\<open>dt + td\<close>: the result must fall on an ordinal day in \<open>1..MAXORDINAL\<close>.\<close>

definition dt_add :: "datetime \<Rightarrow> timedelta \<Rightarrow> error + datetime" where
  "dt_add dt td =
     ebind (timedelta_of_us (wall_us dt)) (\<lambda>d0.
     ebind (td_add d0 td) (\<lambda>delta.
       let days = td_days delta;
           hh = td_seconds delta div 3600;
           rem = td_seconds delta mod 3600
       in if 0 < days \<and> days \<le> MAXORDINAL
          then (case ord2ymd days of
                  (y, m, d) \<Rightarrow>
                    Inr \<lparr>dt_year = y, dt_month = m, dt_day = d, dt_hour = hh,
                         dt_minute = rem div 60, dt_second = rem mod 60,
                         dt_microsecond = td_microseconds delta, dt_tzinfo = dt_tzinfo dt\<rparr>)
          else Inl OverflowError))"

text \<open>
  \<open>a - b\<close> on datetimes: the difference of the wall clock readings when the
  offsets agree (or both are absent), \<open>TypeError\<close> when exactly one is naive, and
  the difference of the instants otherwise.
\<close>

definition dt_sub :: "datetime \<Rightarrow> datetime \<Rightarrow> error + timedelta" where
  "dt_sub a b =
     ebind (timedelta_of_us (wall_us a - wall_us b)) (\<lambda>base.
       if utcoffset a = utcoffset b then Inr base
       else (case (utcoffset a, utcoffset b) of
               (Some myoff, Some otoff) \<Rightarrow> ebind (td_add base otoff) (\<lambda>t. td_sub t myoff)
             | _ \<Rightarrow> Inl TypeError))"

text \<open>The fields as a tuple, compared lexicographically by \<open>datetime\<close>.\<close>

definition dt_fields :: "datetime \<Rightarrow> int list" where
  "dt_fields dt =
     [dt_year dt, dt_month dt, dt_day dt, dt_hour dt, dt_minute dt, dt_second dt,
      dt_microsecond dt]"

fun lex_less :: "int list \<Rightarrow> int list \<Rightarrow> bool" where
  "lex_less (x # xs) (y # ys) = (x < y \<or> (x = y \<and> lex_less xs ys))"
| "lex_less [] (y # ys) = True"
| "lex_less _ [] = False"

text \<open>
  \<open>a == b\<close> on datetimes: the fields when the offsets agree, \<open>False\<close> when exactly
  one is naive, the instants otherwise.
\<close>

definition dt_eq :: "datetime \<Rightarrow> datetime \<Rightarrow> bool" where
  "dt_eq a b =
     (if utcoffset a = utcoffset b then dt_fields a = dt_fields b
      else (case (utcoffset a, utcoffset b) of
              (Some myoff, Some otoff) \<Rightarrow> dt_sub a b = Inr 0
            | _ \<Rightarrow> False))"

text \<open>\<open>a < b\<close> on datetimes; comparing a naive with an aware one raises.\<close>

definition dt_lt :: "datetime \<Rightarrow> datetime \<Rightarrow> error + bool" where
  "dt_lt a b =
     (if utcoffset a = utcoffset b then Inr (lex_less (dt_fields a) (dt_fields b))
      else (case (utcoffset a, utcoffset b) of
              (Some myoff, Some otoff) \<Rightarrow> ebind (dt_sub a b) (\<lambda>diff. Inr (diff < 0))
            | _ \<Rightarrow> Inl TypeError))"

section \<open>The data model of datatypes.py\<close>

text \<open>
  The three duration classes; \<open>YearMonthDuration\<close> and \<open>DayTimeDuration\<close> are
  subclasses of \<open>Duration\<close>.
\<close>

datatype duration_class = Duration | YearMonthDuration | DayTimeDuration

record duration =
  dur_class :: duration_class
  months :: int
  seconds :: decimal

text \<open>
  The classes of date and time values.  The classes named \<open>XPath...\<close> and \<open>Time\<close>
  derive from \<open>AbstractDateTime\<close> only; the others also from \<open>OrderedDateTime\<close>.
\<close>

datatype temporal_class =
    DateTime10 | DateTime | Date10 | Date
  | XPathGregorianDay | GregorianDay
  | XPathGregorianMonth | GregorianMonth
  | XPathGregorianMonthDay | GregorianMonthDay
  | XPathGregorianYear | GregorianYear10 | GregorianYear
  | XPathGregorianYearMonth | GregorianYearMonth10 | GregorianYearMonth
  | Time

text \<open>
  An \<open>AbstractDateTime\<close> object: its class, the attribute \<open>_dt\<close> and the attribute
  \<open>_year\<close> (\<open>None\<close> unless the year is outside \<open>1..9999\<close>).
\<close>

record temporal =
  t_class :: temporal_class
  priv_dt :: datetime
  priv_year :: "int option"

text \<open>
  The values that the operators and constructors below receive.  \<open>PyOther\<close> stands
  for an object of any other class, without special methods.
\<close>

datatype pyvalue =
    PyInt int
  | PyBool bool
  | PyStr string
  | PyBytes string
  | PyFloat pyfloat
  | PyDecimal decimal
  | PyUntypedAtomic string
  | PyDuration duration
  | PyTemporal temporal
  | PyDatetime datetime
  | PyTimedelta timedelta
  | PyOther

section \<open>Timezone.fromstring\<close>

text \<open>\<open>s.split(sep)\<close> for a separator of one character.\<close>

definition py_split :: "char \<Rightarrow> string \<Rightarrow> string list" where
  "py_split sep s = foldr (\<lambda>c acc. if c = sep then [] # acc else (c # hd acc) # tl acc) s [[]]"

text \<open>
  The body of the \<open>try\<close> block: exactly two parts around one colon, both read by
  \<open>int()\<close>, the minutes negated when the hours start with a minus sign; then the
  constructor checks the range.
\<close>

definition Timezone_fromstring_try :: "string \<Rightarrow> error + timezone" where
  "Timezone_fromstring_try text =
     (case py_split CHR '':'' (py_strip text) of
        [hours, minutes] \<Rightarrow>
          ebind (py_int_of_string hours) (\<lambda>h.
          ebind (py_int_of_string minutes) (\<lambda>m.
          ebind (timedelta_of_us
                   ((h * 3600 + (if hours \<noteq> [] \<and> hd hours = CHR ''-'' then - m else m) * 60)
                      * US_PER_SECOND))
            Timezone_init))
      | _ \<Rightarrow> Inl ValueError)"

text \<open>
  The handler of \<open>ValueError\<close> covers the whole block, the constructor's range check
  included: it accepts \<open>Z\<close> and raises \<open>ValueError\<close> otherwise.
\<close>

definition Timezone_fromstring :: "string \<Rightarrow> error + timezone" where
  "Timezone_fromstring text =
     (case Timezone_fromstring_try text of
        Inl ValueError \<Rightarrow> if py_strip text = ''Z'' then Timezone_init 0 else Inl ValueError
      | r \<Rightarrow> r)"

definition utc_timezone :: timezone where
  "utc_timezone = Timezone 0"

section \<open>AbstractDateTime\<close>

definition version :: "temporal_class \<Rightarrow> string" where
  "version cls =
     (if cls \<in> {DateTime, Date, GregorianYear, GregorianYearMonth} then ''1.1'' else ''1.0'')"

text \<open>
  The direct base classes among the classes of the model, and the subclass relation
  that \<open>isinstance\<close> and \<open>issubclass\<close> test.
\<close>

fun base_class :: "temporal_class \<Rightarrow> temporal_class option" where
  "base_class DateTime = Some DateTime10"
| "base_class Date = Some Date10"
| "base_class GregorianDay = Some XPathGregorianDay"
| "base_class GregorianMonth = Some XPathGregorianMonth"
| "base_class GregorianMonthDay = Some XPathGregorianMonthDay"
| "base_class GregorianYear10 = Some XPathGregorianYear"
| "base_class GregorianYear = Some GregorianYear10"
| "base_class GregorianYearMonth10 = Some XPathGregorianYearMonth"
| "base_class GregorianYearMonth = Some GregorianYearMonth10"
| "base_class _ = None"

definition issubclass :: "temporal_class \<Rightarrow> temporal_class \<Rightarrow> bool" where
  "issubclass c d =
     (c = d \<or> base_class c = Some d \<or>
      (case base_class c of None \<Rightarrow> False | Some b \<Rightarrow> base_class b = Some d))"

definition is_ordered :: "temporal_class \<Rightarrow> bool" where
  "is_ordered cls =
     (cls \<in> {DateTime10, DateTime, Date10, Date, GregorianDay, GregorianMonth,
              GregorianMonthDay, GregorianYear10, GregorianYear, GregorianYearMonth10,
              GregorianYearMonth})"

text \<open>
  \<open>AbstractDateTime.__init__\<close>.  The result is the object with its attributes \<open>_dt\<close>
  and \<open>_year\<close>.
\<close>

definition AbstractDateTime_init ::
  "temporal_class \<Rightarrow> int \<Rightarrow> int \<Rightarrow> int \<Rightarrow> int \<Rightarrow> int \<Rightarrow> int \<Rightarrow> int \<Rightarrow> timezone option
     \<Rightarrow> error + temporal" where
  "AbstractDateTime_init cls year month day hour minute second microsecond tzinfo =
     (let carry = (hour = 24 \<and> minute = second \<and> second = 0);
          hour' = (if carry then 0 else hour)
      in ebind
           (if 1 \<le> year \<and> year \<le> 9999
            then ebind (mk_datetime year month day hour' minute second microsecond tzinfo)
                   (\<lambda>dt. Inr (dt, None))
            else if year = 0 then Inl ValueError
            else if isleap (year + (if version cls \<noteq> ''1.0'' then 1 else 0))
            then ebind (mk_datetime 4 month day hour' minute second microsecond tzinfo)
                   (\<lambda>dt. Inr (dt, Some year))
            else ebind (mk_datetime 6 month day hour' minute second microsecond tzinfo)
                   (\<lambda>dt. Inr (dt, Some year)))
           (\<lambda>(dt, y).
              if carry
              then ebind (dt_add dt US_PER_DAY)
                     (\<lambda>dt'. Inr \<lparr>t_class = cls, priv_dt = dt', priv_year = y\<rparr>)
              else Inr \<lparr>t_class = cls, priv_dt = dt, priv_year = y\<rparr>))"

text \<open>The properties \<open>year\<close> (\<open>self._year or self._dt.year\<close>) and \<open>tzinfo\<close>.\<close>

definition t_year :: "temporal \<Rightarrow> int" where
  "t_year t = (case priv_year t of Some y \<Rightarrow> if y \<noteq> 0 then y else dt_year (priv_dt t)
                                 | None \<Rightarrow> dt_year (priv_dt t))"

definition t_tzinfo :: "temporal \<Rightarrow> timezone option" where
  "t_tzinfo t = dt_tzinfo (priv_dt t)"

text \<open>\<open>dt.replace(tzinfo=tz)\<close>\<close>

definition replace_tzinfo :: "datetime \<Rightarrow> timezone option \<Rightarrow> datetime" where
  "replace_tzinfo dt tz = dt\<lparr>dt_tzinfo := tz\<rparr>"

text \<open>The setter of the property \<open>tzinfo\<close>: \<open>self._dt = self._dt.replace(tzinfo=tz)\<close>.\<close>

definition set_tzinfo :: "temporal \<Rightarrow> timezone option \<Rightarrow> temporal" where
  "set_tzinfo t tz = t\<lparr>priv_dt := replace_tzinfo (priv_dt t) tz\<rparr>"

text \<open>The property \<open>iso_year\<close>: the year as the lexical forms write it.\<close>

definition zero_pad :: "nat \<Rightarrow> int \<Rightarrow> string" where
  "zero_pad width i =
     (let ds = str_nat (nat \<bar>i\<bar>); sg = (if i < 0 then ''-'' else [])
      in sg @ replicate (width - length sg - length ds) CHR ''0'' @ ds)"

definition iso_year :: "temporal \<Rightarrow> string" where
  "iso_year t =
     (let y = t_year t
      in if - 9999 \<le> y \<and> y < - 1
         then zero_pad 5 (if version (t_class t) = ''1.0'' then y else y + 1)
         else if y = - 1 then (if version (t_class t) = ''1.0'' then ''-0001'' else ''0000'')
         else if 0 \<le> y \<and> y \<le> 9999 then zero_pad 4 y
         else str_int y)"

text \<open>
  Keyword arguments of a constructor call \<open>cls(**kwargs)\<close>, and the names of the
  parameters of each class's \<open>__init__\<close>, which are also the named groups of its pattern.
\<close>

record kwargs =
  k_year :: "int option"
  k_month :: "int option"
  k_day :: "int option"
  k_hour :: "int option"
  k_minute :: "int option"
  k_second :: "int option"
  k_microsecond :: "int option"
  k_tzinfo :: "timezone option"

datatype field = FYear | FMonth | FDay | FHour | FMinute | FSecond | FMicrosecond | FTzinfo

definition group_names :: "temporal_class \<Rightarrow> field list" where
  "group_names cls =
     (if issubclass cls DateTime10
      then [FYear, FMonth, FDay, FHour, FMinute, FSecond, FMicrosecond, FTzinfo]
      else if issubclass cls Date10 then [FYear, FMonth, FDay, FTzinfo]
      else if issubclass cls XPathGregorianDay then [FDay, FTzinfo]
      else if issubclass cls XPathGregorianMonth then [FMonth, FTzinfo]
      else if issubclass cls XPathGregorianMonthDay then [FMonth, FDay, FTzinfo]
      else if issubclass cls XPathGregorianYear then [FYear, FTzinfo]
      else if issubclass cls XPathGregorianYearMonth then [FYear, FMonth, FTzinfo]
      else [FHour, FMinute, FSecond, FMicrosecond, FTzinfo])"

text \<open>The parameters without a default value.\<close>

definition required :: "temporal_class \<Rightarrow> field list" where
  "required cls =
     (if cls = Time then []
      else if issubclass cls DateTime10 then [FYear, FMonth, FDay]
      else filter (\<lambda>f. f \<noteq> FTzinfo) (group_names cls))"

definition given :: "kwargs \<Rightarrow> field list" where
  "given kw =
     (if k_year kw \<noteq> None then [FYear] else []) @
     (if k_month kw \<noteq> None then [FMonth] else []) @
     (if k_day kw \<noteq> None then [FDay] else []) @
     (if k_hour kw \<noteq> None then [FHour] else []) @
     (if k_minute kw \<noteq> None then [FMinute] else []) @
     (if k_second kw \<noteq> None then [FSecond] else []) @
     (if k_microsecond kw \<noteq> None then [FMicrosecond] else [])"

definition or_default :: "int option \<Rightarrow> int \<Rightarrow> int" where
  "or_default v d = (case v of None \<Rightarrow> d | Some x \<Rightarrow> x)"

text \<open>
  \<open>cls(**kwargs)\<close>: a keyword that is not a parameter, or a missing required
  argument, is a \<open>TypeError\<close>; the class's \<open>__init__\<close> passes its arguments to
  \<open>AbstractDateTime.__init__\<close>, whose defaults are 2000-01-01T00:00:00.  \<open>Time.__init__\<close>
  first maps 24:00:00 to 00:00:00.
\<close>

definition temporal_new :: "temporal_class \<Rightarrow> kwargs \<Rightarrow> error + temporal" where
  "temporal_new cls kw =
     (if \<not> set (given kw) \<subseteq> set (group_names cls) \<or> \<not> set (required cls) \<subseteq> set (given kw)
      then Inl TypeError
      else
        let hour = or_default (k_hour kw) 0;
            minute = or_default (k_minute kw) 0;
            second = or_default (k_second kw) 0;
            hour' = (if cls = Time \<and> hour = 24 \<and> minute = second \<and> second = 0 then 0 else hour)
        in AbstractDateTime_init cls (or_default (k_year kw) 2000) (or_default (k_month kw) 1)
             (or_default (k_day kw) 1) hour' minute second (or_default (k_microsecond kw) 0)
             (k_tzinfo kw))"

definition no_kwargs :: kwargs where
  "no_kwargs = \<lparr>k_year = None, k_month = None, k_day = None, k_hour = None, k_minute = None,
                k_second = None, k_microsecond = None, k_tzinfo = None\<rparr>"

subsection \<open>Lexical patterns\<close>

text \<open>
  The named groups of a match.  The patterns are sequences of fixed-width digit
  fields, literal characters, a year of four or more digits with an optional minus
  sign, an optional fraction and an optional timezone before the end of the string;
  every repetition is followed by a character it cannot match, so the match is found
  without backtracking.
\<close>

record temporal_groups =
  tg_year :: "string option"
  tg_month :: "string option"
  tg_day :: "string option"
  tg_hour :: "string option"
  tg_minute :: "string option"
  tg_second :: "string option"
  tg_microsecond :: "string option"
  tg_tzinfo :: "string option"

definition no_groups :: temporal_groups where
  "no_groups = \<lparr>tg_year = None, tg_month = None, tg_day = None, tg_hour = None,
                tg_minute = None, tg_second = None, tg_microsecond = None, tg_tzinfo = None\<rparr>"

text \<open>\<^verbatim>\<open>(?:-)?[0-9]*[0-9]{4}\<close>\<close>

definition p_year :: "string \<Rightarrow> (string \<times> string) option" where
  "p_year s =
     (let neg = (s \<noteq> [] \<and> hd s = CHR ''-'');
          r = (if neg then tl s else s);
          ds = takeWhile is_digit r
      in if 4 \<le> length ds then Some ((if neg then ''-'' else []) @ ds, dropWhile is_digit r)
         else None)"

text \<open>\<^verbatim>\<open>[0-9]{2}\<close>\<close>

definition p_two :: "string \<Rightarrow> (string \<times> string) option" where
  "p_two s =
     (case s of
        a # b # r \<Rightarrow> if is_digit a \<and> is_digit b then Some ([a, b], r) else None
      | _ \<Rightarrow> None)"

definition p_lit :: "string \<Rightarrow> string \<Rightarrow> string option" where
  "p_lit l s = (if take (length l) s = l then Some (drop (length l) s) else None)"

text \<open>\<^verbatim>\<open>(?:\.([0-9]+))?\<close>\<close>

definition p_fraction :: "string \<Rightarrow> string option \<times> string" where
  "p_fraction s =
     (case s of
        c # r \<Rightarrow>
          if c = CHR ''.'' \<and> takeWhile is_digit r \<noteq> []
          then (Some (takeWhile is_digit r), dropWhile is_digit r)
          else (None, s)
      | [] \<Rightarrow> (None, s))"

text \<open>\<^verbatim>\<open>Z|[+-](?:(?:0[0-9]|1[0-3]):[0-5][0-9]|14:00)\<close>\<close>

definition tz_lexical :: "string \<Rightarrow> bool" where
  "tz_lexical s =
     (s = ''Z'' \<or>
      (case s of
         [sg, h1, h2, c, m1, m2] \<Rightarrow>
           (sg = CHR ''+'' \<or> sg = CHR ''-'') \<and>
           (((h1 = CHR ''0'' \<and> is_digit h2 \<or> h1 = CHR ''1'' \<and> h2 \<in> set ''0123'') \<and>
             c = CHR '':'' \<and> m1 \<in> set ''012345'' \<and> is_digit m2)
            \<or> [h1, h2, c, m1, m2] = ''14:00'')
       | _ \<Rightarrow> False))"

text \<open>The optional timezone group followed by the end of the string.\<close>

definition p_tz_end :: "string \<Rightarrow> string option option" where
  "p_tz_end s = (if s = [] then Some None else if tz_lexical s then Some (Some s) else None)"

text \<open>Year, month and day, separated by hyphens; the time of day with its fraction.\<close>

definition p_date :: "string \<Rightarrow> (temporal_groups \<times> string) option" where
  "p_date s =
     Option.bind (p_year s) (\<lambda>(y, s1).
     Option.bind (p_lit ''-'' s1) (\<lambda>s2.
     Option.bind (p_two s2) (\<lambda>(m, s3).
     Option.bind (p_lit ''-'' s3) (\<lambda>s4.
     Option.bind (p_two s4) (\<lambda>(d, s5).
       Some (no_groups\<lparr>tg_year := Some y, tg_month := Some m, tg_day := Some d\<rparr>, s5))))))"

definition p_time :: "temporal_groups \<Rightarrow> string \<Rightarrow> (temporal_groups \<times> string) option" where
  "p_time g s =
     Option.bind (p_two s) (\<lambda>(hh, s1).
     Option.bind (p_lit '':'' s1) (\<lambda>s2.
     Option.bind (p_two s2) (\<lambda>(mm, s3).
     Option.bind (p_lit '':'' s3) (\<lambda>s4.
     Option.bind (p_two s4) (\<lambda>(ss, s5).
       case p_fraction s5 of
         (us, s6) \<Rightarrow>
           Some (g\<lparr>tg_hour := Some hh, tg_minute := Some mm, tg_second := Some ss,
                   tg_microsecond := us\<rparr>, s6))))))"

definition p_finish :: "(temporal_groups \<times> string) option \<Rightarrow> temporal_groups option" where
  "p_finish r =
     Option.bind r (\<lambda>(g, s). Option.bind (p_tz_end s) (\<lambda>tz. Some (g\<lparr>tg_tzinfo := tz\<rparr>)))"

text \<open>\<open>cls.pattern.match(s)\<close>: each class inherits the pattern of its base class.\<close>

definition pattern_match :: "temporal_class \<Rightarrow> string \<Rightarrow> temporal_groups option" where
  "pattern_match cls s =
     (if issubclass cls DateTime10
      then p_finish (Option.bind (p_date s) (\<lambda>(g, s1).
             Option.bind (p_lit ''T'' s1) (\<lambda>s2. p_time g s2)))
      else if issubclass cls Date10 then p_finish (p_date s)
      else if issubclass cls XPathGregorianDay
      then p_finish (Option.bind (p_lit ''---'' s) (\<lambda>s1.
             Option.bind (p_two s1) (\<lambda>(d, s2). Some (no_groups\<lparr>tg_day := Some d\<rparr>, s2))))
      else if issubclass cls XPathGregorianMonth
      then p_finish (Option.bind (p_lit ''--'' s) (\<lambda>s1.
             Option.bind (p_two s1) (\<lambda>(m, s2). Some (no_groups\<lparr>tg_month := Some m\<rparr>, s2))))
      else if issubclass cls XPathGregorianMonthDay
      then p_finish (Option.bind (p_lit ''--'' s) (\<lambda>s1.
             Option.bind (p_two s1) (\<lambda>(m, s2).
             Option.bind (p_lit ''-'' s2) (\<lambda>s3.
             Option.bind (p_two s3) (\<lambda>(d, s4).
               Some (no_groups\<lparr>tg_month := Some m, tg_day := Some d\<rparr>, s4))))))
      else if issubclass cls XPathGregorianYear
      then p_finish (Option.bind (p_year s) (\<lambda>(y, s1). Some (no_groups\<lparr>tg_year := Some y\<rparr>, s1)))
      else if issubclass cls XPathGregorianYearMonth
      then p_finish (Option.bind (p_year s) (\<lambda>(y, s1).
             Option.bind (p_lit ''-'' s1) (\<lambda>s2.
             Option.bind (p_two s2) (\<lambda>(m, s3).
               Some (no_groups\<lparr>tg_year := Some y, tg_month := Some m\<rparr>, s3)))))
      else p_finish (p_time no_groups s))"

subsection \<open>fromstring\<close>

text \<open>\<open>int(v)\<close> for each group but the timezone, \<open>Timezone.fromstring(v)\<close> for that one.\<close>

definition int_group :: "string option \<Rightarrow> error + int option" where
  "int_group g =
     (case g of None \<Rightarrow> Inr None | Some v \<Rightarrow> ebind (py_int_of_string v) (\<lambda>i. Inr (Some i)))"

definition tz_group :: "string option \<Rightarrow> error + timezone option" where
  "tz_group g =
     (case g of None \<Rightarrow> Inr None | Some v \<Rightarrow> ebind (Timezone_fromstring v) (\<lambda>z. Inr (Some z)))"

definition groups_kwargs :: "temporal_groups \<Rightarrow> error + kwargs" where
  "groups_kwargs g =
     ebind (int_group (tg_year g)) (\<lambda>y.
     ebind (int_group (tg_month g)) (\<lambda>mo.
     ebind (int_group (tg_day g)) (\<lambda>d.
     ebind (int_group (tg_hour g)) (\<lambda>h.
     ebind (int_group (tg_minute g)) (\<lambda>mi.
     ebind (int_group (tg_second g)) (\<lambda>s.
     ebind (int_group (tg_microsecond g)) (\<lambda>us.
     ebind (tz_group (tg_tzinfo g)) (\<lambda>tz.
       Inr \<lparr>k_year = y, k_month = mo, k_day = d, k_hour = h, k_minute = mi, k_second = s,
            k_microsecond = us, k_tzinfo = tz\<rparr>))))))))"

text \<open>The fraction of a second, padded to microseconds; more than six digits give 0.\<close>

definition scale_microsecond :: "temporal_groups \<Rightarrow> kwargs \<Rightarrow> kwargs" where
  "scale_microsecond g kw =
     (case (tg_microsecond g, k_microsecond kw) of
        (Some v, Some us) \<Rightarrow>
          kw\<lparr>k_microsecond :=
               Some (if 6 < length v then 0 else us * 10 ^ (6 - length v))\<rparr>
      | _ \<Rightarrow> kw)"

definition lstrip_minus :: "string \<Rightarrow> string" where
  "lstrip_minus s = dropWhile (\<lambda>c. c = CHR ''-'') s"

definition temporal_fromstring ::
  "temporal_class \<Rightarrow> string \<Rightarrow> timezone option \<Rightarrow> error + temporal" where
  "temporal_fromstring cls datetime_string tz =
     (case pattern_match cls (py_strip datetime_string) of
        None \<Rightarrow> Inl ValueError
      | Some g \<Rightarrow>
          ebind (groups_kwargs g) (\<lambda>kw0.
            let kw1 = (if k_tzinfo kw0 = None \<and> tz \<noteq> None then kw0\<lparr>k_tzinfo := tz\<rparr> else kw0);
                kw2 = scale_microsecond g kw1
            in case (tg_year g, k_year kw2) of
                 (Some ys, Some y) \<Rightarrow>
                   let year_digits = lstrip_minus ys
                   in if year_digits \<noteq> [] \<and> hd year_digits = CHR ''0'' \<and> 4 < length year_digits
                      then Inl ValueError
                      else temporal_new cls
                             (if y \<le> 0 \<and> version cls \<noteq> ''1.0'' then kw2\<lparr>k_year := Some (y - 1)\<rparr>
                              else kw2)
               | _ \<Rightarrow> temporal_new cls kw2))"

subsection \<open>Operands and equality\<close>

text \<open>
  \<open>_get_operands\<close>: the two \<open>datetime\<close> values to compare or subtract.  When exactly one
  side has no timezone, a copy of it with the UTC timezone is returned in its place;
  the objects themselves are not assigned to.
\<close>

definition get_operands :: "temporal \<Rightarrow> pyvalue \<Rightarrow> error + datetime \<times> datetime" where
  "get_operands self other =
     (case (case other of
              PyTemporal t \<Rightarrow>
                if issubclass (t_class t) (t_class self) \<or> issubclass (t_class self) (t_class t)
                then Some (priv_dt t) else None
            | PyDatetime d \<Rightarrow> Some d
            | _ \<Rightarrow> None) of
        None \<Rightarrow> Inl TypeError
      | Some dt \<Rightarrow>
          if (dt_tzinfo (priv_dt self) = None) = (dt_tzinfo dt = None) then Inr (priv_dt self, dt)
          else if t_tzinfo self = None
          then Inr (replace_tzinfo (priv_dt self) (Some utc_timezone), dt)
          else Inr (priv_dt self, replace_tzinfo dt (Some utc_timezone)))"

text \<open>The attribute \<open>other.year\<close> of the second operand.\<close>

fun other_year :: "pyvalue \<Rightarrow> int option" where
  "other_year (PyTemporal t) = Some (t_year t)"
| "other_year (PyDatetime d) = Some (dt_year d)"
| "other_year _ = None"

text \<open>
  \<open>__eq__\<close>, with the two objects as they are after the call: the method assigns to
  neither, so they are returned as they were passed.
\<close>

definition temporal_eq :: "temporal \<Rightarrow> pyvalue \<Rightarrow> bool" where
  "temporal_eq self other =
     (case get_operands self other of
        Inl e \<Rightarrow> False
      | Inr (dt1, dt2) \<Rightarrow> dt_eq dt1 dt2 \<and> Some (t_year self) = other_year other)"

definition temporal_eq_state :: "temporal \<times> pyvalue \<Rightarrow> bool \<times> temporal \<times> pyvalue" where
  "temporal_eq_state st = (case st of (self, other) \<Rightarrow> (temporal_eq self other, self, other))"

section \<open>Durations (datatypes.py)\<close>

definition Duration_init :: "duration_class \<Rightarrow> int \<Rightarrow> decimal \<Rightarrow> error + duration" where
  "Duration_init cls m s =
     (if (s < 0 \<and> 0 < m) \<or> (m < 0 \<and> 0 < s) then Inl ValueError
      else Inr \<lparr>dur_class = cls, months = m, seconds = s\<rparr>)"

definition YearMonthDuration_init :: "int \<Rightarrow> error + duration" where
  "YearMonthDuration_init m = Duration_init YearMonthDuration m 0"

definition DayTimeDuration_init :: "decimal \<Rightarrow> error + duration" where
  "DayTimeDuration_init s = Duration_init DayTimeDuration 0 s"

definition sign :: "duration \<Rightarrow> string" where
  "sign d = (if months d < 0 \<or> seconds d < 0 then ''-'' else [])"

definition Duration_str :: "duration \<Rightarrow> string" where
  "Duration_str d =
     (let m = \<bar>months d\<bar>;
          years = m div 12;
          mths = m mod 12;
          s = \<bar>seconds d\<bar>;
          days = trunc (dec_floordiv s 86400);
          hours = trunc (dec_mod (dec_floordiv s 3600) 24);
          minutes = trunc (dec_mod (dec_floordiv s 60) 60);
          secs = dec_mod s 60;
          v0 = (if sign d \<noteq> [] then ''-P'' else ''P'');
          v1 = (if years \<noteq> 0 \<or> mths \<noteq> 0 \<or> days \<noteq> 0
                then v0 @ (if years \<noteq> 0 then str_int years @ ''Y'' else [])
                        @ (if mths \<noteq> 0 then str_int mths @ ''M'' else [])
                        @ (if days \<noteq> 0 then str_int days @ ''D'' else [])
                else v0)
      in if hours \<noteq> 0 \<or> minutes \<noteq> 0 \<or> secs \<noteq> 0
         then v1 @ ''T'' @ (if hours \<noteq> 0 then str_int hours @ ''H'' else [])
                 @ (if minutes \<noteq> 0 then str_int minutes @ ''M'' else [])
                 @ (if secs \<noteq> 0 then str_normalized secs @ ''S'' else [])
         else if last v1 = CHR ''P'' then v1 @ ''T0S''
         else v1)"

definition YearMonthDuration_str :: "duration \<Rightarrow> string" where
  "YearMonthDuration_str d =
     (let m = \<bar>months d\<bar>;
          years = m div 12;
          mths = m mod 12
      in if years = 0
         then (if months d < 0 then ''-P'' @ str_int mths @ ''M'' else ''P'' @ str_int mths @ ''M'')
         else if mths = 0
         then (if months d < 0 then ''-P'' @ str_int years @ ''Y'' else ''P'' @ str_int years @ ''Y'')
         else if months d < 0 then ''-P'' @ str_int years @ ''Y'' @ str_int mths @ ''M''
         else ''P'' @ str_int years @ ''Y'' @ str_int mths @ ''M'')"

text \<open>\<open>str(d)\<close>: \<open>YearMonthDuration\<close> overrides \<open>__str__\<close>, \<open>DayTimeDuration\<close> inherits it.\<close>

definition duration_str :: "duration \<Rightarrow> string" where
  "duration_str d =
     (if dur_class d = YearMonthDuration then YearMonthDuration_str d else Duration_str d)"

subsection \<open>Parsing\<close>

text \<open>
  The groups of a match of \<open>Duration._pattern\<close>:
  \<^verbatim>\<open>^(-)?P(?=(?:[0-9]|T))(?:([0-9]+)Y)?(?:([0-9]+)M)?(?:([0-9]+)D)?\<close>
  \<^verbatim>\<open>(?:T(?=[0-9])(?:([0-9]+)H)?(?:([0-9]+)M)?(?:([0-9]+(?:\.[0-9]+)?)S)?)?$\<close>
  Each optional group is a run of digits followed by its letter, so the match is
  found without backtracking: a group is taken exactly when the digits at hand are
  followed by its letter.
\<close>

record duration_groups =
  g_sign :: bool
  g_years :: "string option"
  g_months :: "string option"
  g_days :: "string option"
  g_hours :: "string option"
  g_minutes :: "string option"
  g_seconds :: "(string \<times> string) option"

definition opt_group :: "char \<Rightarrow> string \<Rightarrow> string option \<times> string" where
  "opt_group c s =
     (let ds = takeWhile is_digit s; r = dropWhile is_digit s
      in if ds \<noteq> [] \<and> r \<noteq> [] \<and> hd r = c then (Some ds, tl r) else (None, s))"

definition opt_seconds_group :: "string \<Rightarrow> (string \<times> string) option \<times> string" where
  "opt_seconds_group s =
     (let ds = takeWhile is_digit s; r = dropWhile is_digit s
      in if ds = [] \<or> r = [] then (None, s)
         else if hd r = CHR ''S'' then (Some (ds, []), tl r)
         else if hd r = CHR ''.''
         then (let fs = takeWhile is_digit (tl r); r2 = dropWhile is_digit (tl r)
               in if fs \<noteq> [] \<and> r2 \<noteq> [] \<and> hd r2 = CHR ''S'' then (Some (ds, fs), tl r2)
                  else (None, s))
         else (None, s))"

definition duration_match :: "string \<Rightarrow> duration_groups option" where
  "duration_match text =
     (let (neg, s0) = (if text \<noteq> [] \<and> hd text = CHR ''-'' then (True, tl text) else (False, text))
      in if s0 = [] \<or> hd s0 \<noteq> CHR ''P'' then None
         else let s1 = tl s0
              in if s1 = [] \<or> \<not> (is_digit (hd s1) \<or> hd s1 = CHR ''T'') then None
                 else
                   let (y, s2) = opt_group CHR ''Y'' s1;
                       (mo, s3) = opt_group CHR ''M'' s2;
                       (d, s4) = opt_group CHR ''D'' s3
                   in if s4 = []
                      then Some \<lparr>g_sign = neg, g_years = y, g_months = mo, g_days = d,
                                 g_hours = None, g_minutes = None, g_seconds = None\<rparr>
                      else if hd s4 = CHR ''T'' \<and> tl s4 \<noteq> [] \<and> is_digit (hd (tl s4))
                      then let (h, s5) = opt_group CHR ''H'' (tl s4);
                               (mi, s6) = opt_group CHR ''M'' s5;
                               (sec, s7) = opt_seconds_group s6
                           in if s7 = []
                              then Some \<lparr>g_sign = neg, g_years = y, g_months = mo, g_days = d,
                                         g_hours = h, g_minutes = mi, g_seconds = sec\<rparr>
                              else None
                      else None)"

text \<open>\<open>int(g or 0)\<close> and \<open>Decimal(g or 0)\<close> for a group of digits.\<close>

definition int_or_0 :: "string option \<Rightarrow> int" where
  "int_or_0 g = (case g of None \<Rightarrow> 0 | Some ds \<Rightarrow> int (nat_of_digits ds))"

definition decimal_or_0 :: "(string \<times> string) option \<Rightarrow> decimal" where
  "decimal_or_0 g =
     (case g of
        None \<Rightarrow> 0
      | Some (ds, fs) \<Rightarrow> of_nat (nat_of_digits (ds @ fs)) / 10 ^ length fs)"

definition Duration_fromstring :: "duration_class \<Rightarrow> string \<Rightarrow> error + duration" where
  "Duration_fromstring cls text =
     (case duration_match (py_strip text) of
        None \<Rightarrow> Inl ValueError
      | Some g \<Rightarrow>
          let seconds0 = decimal_or_0 (g_seconds g);
              minutes0 = int_or_0 (g_minutes g) + trunc (dec_floordiv seconds0 60);
              seconds1 = dec_mod seconds0 60;
              hours0 = int_or_0 (g_hours g) + minutes0 div 60;
              minutes1 = minutes0 mod 60;
              days = int_or_0 (g_days g) + hours0 div 24;
              hours1 = hours0 mod 24;
              months0 = int_or_0 (g_months g) + 12 * int_or_0 (g_years g);
              months1 = (if g_sign g then - months0 else months0);
              seconds2 = (if g_sign g
                          then - seconds1 - of_int ((days * 24 + hours1) * 3600) - of_int (minutes1 * 60)
                          else seconds1 + of_int ((days * 24 + hours1) * 3600) + of_int (minutes1 * 60))
          in if cls = DayTimeDuration
             then (if months1 \<noteq> 0 then Inl ValueError else DayTimeDuration_init seconds2)
             else if cls = YearMonthDuration
             then (if seconds2 \<noteq> 0 then Inl ValueError else YearMonthDuration_init months1)
             else Duration_init cls months1 seconds2)"

subsection \<open>Comparison\<close>

text \<open>\<open>isinstance(other, self.__class__)\<close> for a duration \<open>self\<close>.\<close>

definition dur_subclass :: "duration_class \<Rightarrow> duration_class \<Rightarrow> bool" where
  "dur_subclass c d = (c = d \<or> d = Duration)"

fun isinstance_duration :: "pyvalue \<Rightarrow> duration_class \<Rightarrow> bool" where
  "isinstance_duration (PyDuration d) cls = dur_subclass (dur_class d) cls"
| "isinstance_duration _ cls = False"

datatype cmp_op = Lt | Le | Gt | Ge

fun cmp_int :: "cmp_op \<Rightarrow> int \<Rightarrow> int \<Rightarrow> bool" where
  "cmp_int Lt a b = (a < b)"
| "cmp_int Le a b = (a \<le> b)"
| "cmp_int Gt a b = (b < a)"
| "cmp_int Ge a b = (b \<le> a)"

text \<open>
  One entry of the list given to \<open>all\<close> in \<open>_compare_durations\<close>: the two durations
  as time spans counted from the first day of the month \<open>(year, month)\<close>.
\<close>

definition compare_at ::
  "cmp_op \<Rightarrow> int \<Rightarrow> int \<Rightarrow> int \<times> int \<times> int \<Rightarrow> int \<times> int \<times> int \<Rightarrow> error + bool" where
  "compare_at op year month a b =
     (case (a, b) of
        ((m1, s1, ms1), (m2, s2, ms2)) \<Rightarrow>
          ebind (months2days year month m1) (\<lambda>d1.
          ebind (mk_timedelta d1 s1 ms1) (\<lambda>t1.
          ebind (months2days year month m2) (\<lambda>d2.
          ebind (mk_timedelta d2 s2 ms2) (\<lambda>t2.
            Inr (cmp_int op t1 t2))))))"

definition compare_durations :: "duration \<Rightarrow> pyvalue \<Rightarrow> cmp_op \<Rightarrow> error + bool" where
  "compare_durations self other op =
     (case other of
        PyDuration o2 \<Rightarrow>
          if \<not> isinstance_duration other (dur_class self) then Inl TypeError
          else
            let m1 = months self; s1 = trunc (seconds self);
                m2 = months o2; s2 = trunc (seconds o2);
                ms1 = trunc ((seconds self - of_int s1) * 1000000);
                ms2 = trunc ((seconds o2 - of_int s2) * 1000000);
                a = (m1, s1, ms1); b = (m2, s2, ms2)
            in ebind (compare_at op 1696 9 a b) (\<lambda>r1.
               ebind (compare_at op 1697 2 a b) (\<lambda>r2.
               ebind (compare_at op 1903 3 a b) (\<lambda>r3.
               ebind (compare_at op 1903 7 a b) (\<lambda>r4.
                 Inr (r1 \<and> r2 \<and> r3 \<and> r4)))))
      | _ \<Rightarrow> Inl TypeError)"

text \<open>
  \<open>Duration.__eq__\<close>: the fields are compared when \<open>other\<close> is an instance of the class of
  \<open>self\<close>; otherwise \<open>other == (self.months, self.seconds)\<close> is evaluated, which for a
  duration \<open>other\<close> calls \<open>other.__eq__\<close> on the tuple and compares it with the tuple of the
  fields of \<open>other\<close>, and is \<open>False\<close> for the other values of the model.
\<close>

fun Duration_eq :: "duration \<Rightarrow> pyvalue \<Rightarrow> bool" where
  "Duration_eq self (PyDuration o2) = (months self = months o2 \<and> seconds self = seconds o2)"
| "Duration_eq self _ = False"

definition Duration_lt :: "duration \<Rightarrow> pyvalue \<Rightarrow> error + bool" where
  "Duration_lt self other = compare_durations self other Lt"

definition Duration_le :: "duration \<Rightarrow> pyvalue \<Rightarrow> error + bool" where
  "Duration_le self other =
     (if Duration_eq self other then Inr True else compare_durations self other Le)"

definition Duration_gt :: "duration \<Rightarrow> pyvalue \<Rightarrow> error + bool" where
  "Duration_gt self other = compare_durations self other Gt"

definition Duration_ge :: "duration \<Rightarrow> pyvalue \<Rightarrow> error + bool" where
  "Duration_ge self other =
     (if Duration_eq self other then Inr True else compare_durations self other Ge)"

text \<open>
  The expressions \<open>a < b\<close> and \<open>a > b\<close> on two durations.  Python calls the reflected
  method of \<open>b\<close> first when the class of \<open>b\<close> is a proper subclass of the class of \<open>a\<close>,
  and the method of \<open>a\<close> otherwise; an exception raised by the method called is the
  outcome.
\<close>

definition proper_subclass :: "duration_class \<Rightarrow> duration_class \<Rightarrow> bool" where
  "proper_subclass c d = (c \<noteq> d \<and> dur_subclass c d)"

definition duration_less :: "duration \<Rightarrow> duration \<Rightarrow> error + bool" where
  "duration_less a b =
     (if proper_subclass (dur_class b) (dur_class a) then Duration_gt b (PyDuration a)
      else Duration_lt a (PyDuration b))"

definition duration_greater :: "duration \<Rightarrow> duration \<Rightarrow> error + bool" where
  "duration_greater a b =
     (if proper_subclass (dur_class b) (dur_class a) then Duration_lt b (PyDuration a)
      else Duration_gt a (PyDuration b))"

section \<open>OrderedDateTime\<close>

text \<open>
  \<open>DayTimeDuration.fromtimedelta\<close> builds the seconds from the string
  \<open>'{}.{:06}'.format(td.days * 86400 + td.seconds, td.microseconds)\<close>: the
  microseconds are the decimals of the whole seconds as they are printed, sign included.
  \<open>get_timedelta\<close> goes the other way, truncating to microseconds.
\<close>

definition DayTimeDuration_fromtimedelta :: "timedelta \<Rightarrow> error + duration" where
  "DayTimeDuration_fromtimedelta td =
     (let whole = td_days td * 86400 + td_seconds td;
          frac = of_int (td_microseconds td) / 1000000
      in DayTimeDuration_init (if whole < 0 then of_int whole - frac else of_int whole + frac))"

definition get_timedelta :: "duration \<Rightarrow> error + timedelta" where
  "get_timedelta d =
     mk_timedelta 0 (trunc (seconds d)) (trunc (dec_mod (seconds d) 1 * 1000000))"

text \<open>
  The handler of \<open>OverflowError\<close> in \<open>fromdelta\<close>: the year is counted in blocks of
  400, 100, 4 and 1 years, and the rest of the days is added to the first day of a
  reference year.  The result is the \<open>datetime\<close> and the year.
\<close>

definition year_blocks :: "int \<Rightarrow> int \<times> int \<times> int \<times> int \<times> int" where
  "year_blocks days =
     (let y400 = days div DAYS_IN_400Y; d1 = days mod DAYS_IN_400Y;
          y100 = d1 div DAYS_IN_100Y; d2 = d1 mod DAYS_IN_100Y;
          y4 = d2 div DAYS_IN_4Y; d3 = d2 mod DAYS_IN_4Y;
          y1 = d3 div 365; d4 = d3 mod 365
      in (y400, y100, y4, y1, d4))"

definition first_day_plus :: "int \<Rightarrow> timedelta \<Rightarrow> error + datetime" where
  "first_day_plus ref_year td =
     ebind (mk_datetime ref_year 1 1 0 0 0 0 None) (\<lambda>base. dt_add base td)"

definition fromdelta_overflow :: "timedelta \<Rightarrow> error + datetime \<times> int" where
  "fromdelta_overflow delta =
     (let days = td_days delta
      in if 0 < days
         then (case year_blocks days of
                 (y400, y100, y4, y1, d4) \<Rightarrow>
                   let yr0 = y400 * 400 + y100 * 100 + y4 * 4 + y1 + 1;
                       yr = (if y1 = 4 \<or> y100 = 4 then yr0 - 1 else yr0);
                       dd = (if y1 = 4 \<or> y100 = 4 then 365 else d4)
                   in ebind (mk_timedelta dd (td_seconds delta) (td_microseconds delta)) (\<lambda>td.
                      ebind (first_day_plus (if isleap yr then 4 else 6) td) (\<lambda>dt.
                        Inr (dt, yr))))
         else if - 366 \<le> days
         then ebind (mk_timedelta days (td_seconds delta) (td_microseconds delta)) (\<lambda>td.
              ebind (first_day_plus 5 td) (\<lambda>dt. Inr (dt, - 1)))
         else (case year_blocks (- days - 366) of
                 (y400, y100, y4, y1, d4) \<Rightarrow>
                   let yr0 = - y400 * 400 - y100 * 100 - y4 * 4 - y1 - 2;
                       yr = (if y1 = 4 \<or> y100 = 4 then yr0 + 1 else yr0);
                       dd = (if y1 = 4 \<or> y100 = 4 then 365 else d4)
                   in ebind (mk_timedelta (- dd) (td_seconds delta) (td_microseconds delta)) (\<lambda>td.
                        if td = 0
                        then ebind (mk_datetime (if isleap (yr + 1) then 4 else 6) 1 1 0 0 0 0 None)
                               (\<lambda>dt. Inr (dt, yr + 1))
                        else ebind (first_day_plus (if isleap (yr + 1) then 5 else 7) td)
                               (\<lambda>dt. Inr (dt, yr)))))"

text \<open>
  The timezone that \<open>fromdelta\<close> gives a date whose time of day is not midnight, when
  \<open>adjust_timezone\<close> is set.
\<close>

definition adjust_date_timezone :: "datetime \<Rightarrow> error + datetime" where
  "adjust_date_timezone dt =
     (let hour = dt_hour dt; minute = dt_minute dt
      in if hour < 14 \<or> (hour = 14 \<and> minute = 0)
         then ebind (timedelta_of_us ((- hour * 3600 + - minute * 60) * US_PER_SECOND)) (\<lambda>off.
              ebind (Timezone_init off) (\<lambda>tz. Inr (replace_tzinfo dt (Some tz))))
         else ebind (timedelta_of_us (((- hour + 24) * 3600 + - minute * 60) * US_PER_SECOND)) (\<lambda>off.
              ebind (Timezone_init off) (\<lambda>tz.
                dt_add (replace_tzinfo dt (Some tz)) US_PER_DAY)))"

text \<open>
  \<open>fromdelta\<close>.  A date class is built from the year, the month and the day only; the
  other call passes eight positional arguments, which only the \<open>__init__\<close> of
  \<open>DateTime10\<close> takes.
\<close>

definition fromdelta :: "temporal_class \<Rightarrow> timedelta \<Rightarrow> bool \<Rightarrow> error + temporal" where
  "fromdelta cls delta adjust_timezone =
     ebind (ebind (mk_datetime 1 1 1 0 0 0 0 None) (\<lambda>epoch.
              case dt_add epoch delta of
                Inl OverflowError \<Rightarrow> fromdelta_overflow delta
              | Inl e \<Rightarrow> Inl e
              | Inr dt \<Rightarrow> Inr (dt, dt_year dt)))
       (\<lambda>(dt, yr).
          if issubclass cls Date10
          then ebind (if adjust_timezone \<and> (dt_hour dt \<noteq> 0 \<or> dt_minute dt \<noteq> 0)
                      then adjust_date_timezone dt else Inr dt)
                 (\<lambda>dt'. temporal_new cls
                          (no_kwargs\<lparr>k_year := Some yr, k_month := Some (dt_month dt'),
                                      k_day := Some (dt_day dt'), k_tzinfo := dt_tzinfo dt'\<rparr>))
          else if issubclass cls DateTime10
          then temporal_new cls
                 \<lparr>k_year = Some yr, k_month = Some (dt_month dt), k_day = Some (dt_day dt),
                  k_hour = Some (dt_hour dt), k_minute = Some (dt_minute dt),
                  k_second = Some (dt_second dt), k_microsecond = Some (dt_microsecond dt),
                  k_tzinfo = dt_tzinfo dt\<rparr>
          else Inl TypeError)"

text \<open>\<open>todelta\<close>: the time span from 0001-01-01T00:00:00.\<close>

definition todelta :: "temporal \<Rightarrow> error + timedelta" where
  "todelta self =
     (if priv_year self = None
      then ebind (mk_datetime 1 1 1 0 0 0 0 None) (\<lambda>epoch.
           ebind (get_operands self (PyDatetime epoch)) (\<lambda>(a, b). dt_sub a b))
      else
        let yr = t_year self;
            dt = priv_dt self;
            tz = (if dt_tzinfo dt = None then None else Some utc_timezone)
        in ebind (if 0 < yr
                  then ebind (sum_table (if isleap yr then MONTH_DAYS_LEAP else MONTH_DAYS)
                                (py_range 1 (dt_month dt)))
                         (\<lambda>s. Inr (days_from_common_era (yr - 1) + s))
                  else ebind (sum_table (if isleap (yr + 1) then MONTH_DAYS_LEAP else MONTH_DAYS)
                                (py_range 1 (dt_month dt)))
                         (\<lambda>s. Inr (days_from_common_era yr + s)))
             (\<lambda>days.
                ebind (mk_datetime (dt_year dt) (dt_month dt) 1 0 0 0 0 tz) (\<lambda>first.
                ebind (dt_sub dt first) (\<lambda>delta.
                  mk_timedelta_float days (td_total_seconds delta)))))"

datatype arith_op = Add | Sub

fun op_timedelta :: "arith_op \<Rightarrow> timedelta \<Rightarrow> timedelta \<Rightarrow> error + timedelta" where
  "op_timedelta Add a b = td_add a b"
| "op_timedelta Sub a b = td_sub a b"

fun op_int :: "arith_op \<Rightarrow> int \<Rightarrow> int \<Rightarrow> int" where
  "op_int Add a b = a + b"
| "op_int Sub a b = a - b"

text \<open>\<open>{k: getattr(dt, k) for k in self.pattern.groupindex.keys()}\<close>\<close>

definition datetime_kwargs :: "temporal_class \<Rightarrow> datetime \<Rightarrow> kwargs" where
  "datetime_kwargs cls dt =
     (let pick = (\<lambda>f v. if f \<in> set (group_names cls) then Some v else None)
      in \<lparr>k_year = pick FYear (dt_year dt), k_month = pick FMonth (dt_month dt),
          k_day = pick FDay (dt_day dt), k_hour = pick FHour (dt_hour dt),
          k_minute = pick FMinute (dt_minute dt), k_second = pick FSecond (dt_second dt),
          k_microsecond = pick FMicrosecond (dt_microsecond dt), k_tzinfo = dt_tzinfo dt\<rparr>)"

text \<open>\<open>_date_operator\<close>, by the class of the second operand.\<close>

definition date_operator :: "temporal \<Rightarrow> arith_op \<Rightarrow> pyvalue \<Rightarrow> error + pyvalue" where
  "date_operator self op other =
     (case other of
        PyTemporal o2 \<Rightarrow>
          if issubclass (t_class o2) (t_class self)
          then ebind (get_operands self other) (\<lambda>(dt1, dt2).
                 ebind (if priv_year self = None \<and> priv_year o2 = None then dt_sub dt1 dt2
                        else ebind (todelta self) (\<lambda>a. ebind (todelta o2) (\<lambda>b. td_sub a b)))
                   (\<lambda>td. ebind (DayTimeDuration_fromtimedelta td) (\<lambda>d. Inr (PyDuration d))))
          else Inl TypeError
      | PyTimedelta td \<Rightarrow>
          ebind (todelta self) (\<lambda>a.
          ebind (op_timedelta op a td) (\<lambda>delta.
          ebind (fromdelta (t_class self) delta True) (\<lambda>v. Inr (PyTemporal v))))
      | PyDuration d \<Rightarrow>
          if dur_class d = DayTimeDuration
          then ebind (todelta self) (\<lambda>a.
               ebind (get_timedelta d) (\<lambda>b.
               ebind (op_timedelta op a b) (\<lambda>delta.
               ebind (fromdelta (t_class self) delta False) (\<lambda>v.
                 Inr (PyTemporal
                        (if dt_tzinfo (priv_dt self) = None then v
                         else if t_tzinfo v = None then set_tzinfo v (Some utc_timezone)
                         else v))))))
          else if dur_class d = YearMonthDuration
          then
            let month = op_int op (dt_month (priv_dt self) - 1) (months d) mod 12 + 1;
                yr = t_year self + op_int op (dt_month (priv_dt self) - 1) (months d) div 12;
                day = adjust_day yr month (dt_day (priv_dt self));
                sdt = priv_dt self
            in ebind (mk_datetime (if 0 < yr then yr else if isleap yr then 4 else 6) month day
                        (dt_hour sdt) (dt_minute sdt) (dt_second sdt) (dt_microsecond sdt)
                        (dt_tzinfo sdt))
                 (\<lambda>dt. ebind (temporal_new (t_class self)
                                 (if yr \<le> 0 then (datetime_kwargs (t_class self) dt)\<lparr>k_year := Some yr\<rparr>
                                  else datetime_kwargs (t_class self) dt))
                          (\<lambda>v. Inr (PyTemporal v)))
          else Inl TypeError
      | _ \<Rightarrow> Inl TypeError)"

text \<open>
  \<open>__add__\<close> and \<open>__sub__\<close> of \<open>OrderedDateTime\<close>.  Adding two date or time values is
  refused before \<open>_date_operator\<close> is called.
\<close>

fun is_ordered_value :: "pyvalue \<Rightarrow> bool" where
  "is_ordered_value (PyTemporal t) = is_ordered (t_class t)"
| "is_ordered_value _ = False"

definition OrderedDateTime_add :: "temporal \<Rightarrow> pyvalue \<Rightarrow> error + pyvalue" where
  "OrderedDateTime_add self other =
     (if is_ordered_value other then Inl TypeError else date_operator self Add other)"

definition OrderedDateTime_sub :: "temporal \<Rightarrow> pyvalue \<Rightarrow> error + pyvalue" where
  "OrderedDateTime_sub self other = date_operator self Sub other"

section \<open>Arithmetic of durations\<close>

text \<open>
  The invariant of the data model: the two fields of a duration never have strictly
  opposite signs.
\<close>

definition same_sign :: "duration \<Rightarrow> bool" where
  "same_sign d = ((months d \<le> 0 \<and> seconds d \<le> 0) \<or> (0 \<le> months d \<and> 0 \<le> seconds d))"

text \<open>\<open>isinstance(other, (DateTime10, Date10))\<close>\<close>

fun is_date_or_datetime :: "pyvalue \<Rightarrow> bool" where
  "is_date_or_datetime (PyTemporal t) =
     (issubclass (t_class t) DateTime10 \<or> issubclass (t_class t) Date10)"
| "is_date_or_datetime _ = False"

text \<open>
  \<open>int(float(x) + 0.5)\<close>, the rounding of \<open>__mul__\<close> and \<open>__truediv__\<close>, for a float
  \<open>x\<close>; \<open>float(d)\<close> of a decimal is the nearest float.
\<close>

definition round_half_up :: "pyfloat \<Rightarrow> error + int" where
  "round_half_up x = py_int_of_float (float_add x (Finite (1 / 2)))"

text \<open>
  \<open>self.months * other\<close> and \<open>self.months / other\<close> as a float, for a number \<open>other\<close>:
  an integer (\<open>bool\<close> included), a float or a decimal.  Any other operand is refused by
  the \<open>isinstance\<close> test of the methods.
\<close>

definition int_of_bool :: "bool \<Rightarrow> int" where
  "int_of_bool b = (if b then 1 else 0)"

fun months_times :: "int \<Rightarrow> pyvalue \<Rightarrow> error + pyfloat" where
  "months_times m (PyInt n) = float_of_int (m * n)"
| "months_times m (PyBool b) = float_of_int (m * int_of_bool b)"
| "months_times m (PyFloat f) = ebind (float_of_int m) (\<lambda>x. Inr (float_mul x f))"
| "months_times m (PyDecimal d) = Inr (round_b64 (of_int m * d))"
| "months_times m _ = Inl TypeError"

fun months_over :: "int \<Rightarrow> pyvalue \<Rightarrow> error + pyfloat" where
  "months_over m (PyInt n) = int_truediv m n"
| "months_over m (PyBool b) = int_truediv m (int_of_bool b)"
| "months_over m (PyFloat f) = ebind (float_of_int m) (\<lambda>x. float_div x f)"
| "months_over m (PyDecimal d) =
     (if d = 0 then Inl (if m = 0 then InvalidOperation else DivisionByZero)
      else Inr (round_b64 (of_int m / d)))"
| "months_over m _ = Inl TypeError"

text \<open>
  \<open>self.seconds * other\<close> and \<open>self.seconds / other\<close> as a float: a decimal combines
  with integers and decimals, and raises \<open>TypeError\<close> with a float.
\<close>

fun seconds_times :: "decimal \<Rightarrow> pyvalue \<Rightarrow> error + pyfloat" where
  "seconds_times s (PyInt n) = Inr (round_b64 (s * of_int n))"
| "seconds_times s (PyBool b) = Inr (round_b64 (s * of_int (int_of_bool b)))"
| "seconds_times s (PyDecimal d) = Inr (round_b64 (s * d))"
| "seconds_times s _ = Inl TypeError"

definition dec_truediv :: "decimal \<Rightarrow> decimal \<Rightarrow> error + decimal" where
  "dec_truediv a b =
     (if b = 0 then Inl (if a = 0 then InvalidOperation else DivisionByZero) else Inr (a / b))"

fun seconds_over :: "decimal \<Rightarrow> pyvalue \<Rightarrow> error + pyfloat" where
  "seconds_over s (PyInt n) = ebind (dec_truediv s (of_int n)) (\<lambda>q. Inr (round_b64 q))"
| "seconds_over s (PyBool b) =
     ebind (dec_truediv s (of_int (int_of_bool b))) (\<lambda>q. Inr (round_b64 q))"
| "seconds_over s (PyDecimal d) = ebind (dec_truediv s d) (\<lambda>q. Inr (round_b64 q))"
| "seconds_over s _ = Inl TypeError"

subsection \<open>YearMonthDuration\<close>

definition YearMonthDuration_add :: "duration \<Rightarrow> pyvalue \<Rightarrow> error + pyvalue" where
  "YearMonthDuration_add self other =
     (case other of
        PyDuration o2 \<Rightarrow>
          if isinstance_duration other YearMonthDuration
          then ebind (YearMonthDuration_init (months self + months o2)) (\<lambda>d. Inr (PyDuration d))
          else Inl TypeError
      | PyTemporal t \<Rightarrow>
          if is_date_or_datetime other then OrderedDateTime_add t (PyDuration self)
          else Inl TypeError
      | _ \<Rightarrow> Inl TypeError)"

definition YearMonthDuration_sub :: "duration \<Rightarrow> pyvalue \<Rightarrow> error + pyvalue" where
  "YearMonthDuration_sub self other =
     (case other of
        PyDuration o2 \<Rightarrow>
          if isinstance_duration other YearMonthDuration
          then ebind (YearMonthDuration_init (months self - months o2)) (\<lambda>d. Inr (PyDuration d))
          else Inl TypeError
      | _ \<Rightarrow> Inl TypeError)"

definition YearMonthDuration_mul :: "duration \<Rightarrow> pyvalue \<Rightarrow> error + pyvalue" where
  "YearMonthDuration_mul self other =
     ebind (months_times (months self) other) (\<lambda>x.
     ebind (round_half_up x) (\<lambda>k.
     ebind (YearMonthDuration_init k) (\<lambda>d. Inr (PyDuration d))))"

definition YearMonthDuration_truediv :: "duration \<Rightarrow> pyvalue \<Rightarrow> error + pyvalue" where
  "YearMonthDuration_truediv self other =
     (case other of
        PyDuration o2 \<Rightarrow>
          if isinstance_duration other YearMonthDuration
          then ebind (int_truediv (months self) (months o2)) (\<lambda>q. Inr (PyFloat q))
          else Inl TypeError
      | _ \<Rightarrow>
          ebind (months_over (months self) other) (\<lambda>x.
          ebind (round_half_up x) (\<lambda>k.
          ebind (YearMonthDuration_init k) (\<lambda>d. Inr (PyDuration d)))))"

subsection \<open>DayTimeDuration\<close>

definition DayTimeDuration_add :: "duration \<Rightarrow> pyvalue \<Rightarrow> error + pyvalue" where
  "DayTimeDuration_add self other =
     (case other of
        PyDuration o2 \<Rightarrow>
          if isinstance_duration other DayTimeDuration
          then ebind (DayTimeDuration_init (seconds self + seconds o2)) (\<lambda>d. Inr (PyDuration d))
          else Inl TypeError
      | _ \<Rightarrow> Inl TypeError)"

definition DayTimeDuration_sub :: "duration \<Rightarrow> pyvalue \<Rightarrow> error + pyvalue" where
  "DayTimeDuration_sub self other =
     (case other of
        PyDuration o2 \<Rightarrow>
          if isinstance_duration other DayTimeDuration
          then ebind (DayTimeDuration_init (seconds self - seconds o2)) (\<lambda>d. Inr (PyDuration d))
          else Inl TypeError
      | _ \<Rightarrow> Inl TypeError)"

definition DayTimeDuration_mul :: "duration \<Rightarrow> pyvalue \<Rightarrow> error + pyvalue" where
  "DayTimeDuration_mul self other =
     ebind (seconds_times (seconds self) other) (\<lambda>x.
     ebind (round_half_up x) (\<lambda>k.
     ebind (DayTimeDuration_init (of_int k)) (\<lambda>d. Inr (PyDuration d))))"

definition DayTimeDuration_truediv :: "duration \<Rightarrow> pyvalue \<Rightarrow> error + pyvalue" where
  "DayTimeDuration_truediv self other =
     (case other of
        PyDuration o2 \<Rightarrow>
          if isinstance_duration other DayTimeDuration
          then ebind (dec_truediv (seconds self) (seconds o2)) (\<lambda>q. Inr (PyDecimal q))
          else Inl TypeError
      | _ \<Rightarrow>
          ebind (seconds_over (seconds self) other) (\<lambda>x.
          ebind (round_half_up x) (\<lambda>k.
          ebind (DayTimeDuration_init (of_int k)) (\<lambda>d. Inr (PyDuration d)))))"

section \<open>UntypedAtomic\<close>

text \<open>
  An \<open>UntypedAtomic\<close> object is its attribute \<open>value\<close>, a string.  \<open>__bool__\<close> admits
  the four lexical forms of \<open>xs:boolean\<close>.
\<close>

definition UntypedAtomic_bool :: "string \<Rightarrow> error + bool" where
  "UntypedAtomic_bool v =
     (if py_strip v \<notin> {''0'', ''1'', ''true'', ''false''} then Inl ValueError
      else Inr (py_strip v \<in> {''1'', ''true''}))"

text \<open>
  \<open>_get_operands\<close>.  The last branch calls the class of the other operand on the string:
  \<open>build other v\<close> stands for \<open>type(other)(v)\<close>, a parameter of the model, since that
  class can be any class of the language.
\<close>

definition UntypedAtomic_get_operands ::
  "(pyvalue \<Rightarrow> string \<Rightarrow> error + pyvalue) \<Rightarrow> string \<Rightarrow> pyvalue \<Rightarrow> bool
     \<Rightarrow> error + pyvalue \<times> pyvalue" where
  "UntypedAtomic_get_operands build v other force_float =
     (case other of
        PyUntypedAtomic w \<Rightarrow>
          if force_float
          then ebind (py_float_of_string v) (\<lambda>x.
               ebind (py_float_of_string w) (\<lambda>y. Inr (PyFloat x, PyFloat y)))
          else Inr (PyStr v, PyStr w)
      | PyBool b \<Rightarrow> ebind (UntypedAtomic_bool v) (\<lambda>a. Inr (PyBool a, other))
      | PyInt n \<Rightarrow> ebind (py_float_of_string v) (\<lambda>x. Inr (PyFloat x, other))
      | PyTemporal t \<Rightarrow>
          ebind (temporal_fromstring (t_class t) v None) (\<lambda>a. Inr (PyTemporal a, other))
      | PyDuration d \<Rightarrow>
          ebind (Duration_fromstring (dur_class d) v) (\<lambda>a. Inr (PyDuration a, other))
      | _ \<Rightarrow> ebind (build other v) (\<lambda>a. Inr (a, other)))"

text \<open>
  The functions of the module \<open>operator\<close> that the special methods apply to the two
  operands, on two floats: \<open>-\<close>, \<open>%\<close> and the comparisons of floats come first.
\<close>

fun float_sub :: "pyfloat \<Rightarrow> pyfloat \<Rightarrow> pyfloat" where
  "float_sub (Finite a) (Finite b) = round_b64 (a - b)"
| "float_sub NaN _ = NaN"
| "float_sub _ NaN = NaN"
| "float_sub (Infinity s) (Infinity t) = (if s = t then NaN else Infinity s)"
| "float_sub (Infinity s) (Finite _) = Infinity s"
| "float_sub (Finite _) (Infinity t) = Infinity (\<not> t)"

text \<open>
  \<open>a % b\<close>: the remainder of the truncated division, which is exact, moved by \<open>b\<close> when
  its sign is not the sign of \<open>b\<close>.
\<close>

fun float_mod :: "pyfloat \<Rightarrow> pyfloat \<Rightarrow> error + pyfloat" where
  "float_mod a (Finite b) =
     (if b = 0 then Inl ZeroDivisionError
      else case a of
             Finite x \<Rightarrow>
               (let r = x - of_int (trunc (x / b)) * b
                in if r \<noteq> 0 \<and> (b < 0) \<noteq> (r < 0) then Inr (round_b64 (r + b))
                   else Inr (Finite r))
           | _ \<Rightarrow> Inr NaN)"
| "float_mod NaN _ = Inr NaN"
| "float_mod _ NaN = Inr NaN"
| "float_mod (Infinity s) (Infinity t) = Inr NaN"
| "float_mod (Finite x) (Infinity t) =
     (if x \<noteq> 0 \<and> t \<noteq> (x < 0) then Inr (Infinity t) else Inr (Finite x))"

fun float_lt :: "pyfloat \<Rightarrow> pyfloat \<Rightarrow> bool" where
  "float_lt (Finite a) (Finite b) = (a < b)"
| "float_lt NaN _ = False"
| "float_lt _ NaN = False"
| "float_lt (Infinity s) (Infinity t) = (s \<and> \<not> t)"
| "float_lt (Infinity s) (Finite _) = s"
| "float_lt (Finite _) (Infinity t) = (\<not> t)"

fun float_eq :: "pyfloat \<Rightarrow> pyfloat \<Rightarrow> bool" where
  "float_eq (Finite a) (Finite b) = (a = b)"
| "float_eq (Infinity s) (Infinity t) = (s = t)"
| "float_eq _ _ = False"

datatype binop = OpAdd | OpSub | OpMul | OpTruediv | OpMod | OpLt | OpLe | OpGt | OpGe

fun float_operator :: "binop \<Rightarrow> pyfloat \<Rightarrow> pyfloat \<Rightarrow> error + pyvalue" where
  "float_operator OpAdd x y = Inr (PyFloat (float_add x y))"
| "float_operator OpSub x y = Inr (PyFloat (float_sub x y))"
| "float_operator OpMul x y = Inr (PyFloat (float_mul x y))"
| "float_operator OpTruediv x y = ebind (float_div x y) (\<lambda>q. Inr (PyFloat q))"
| "float_operator OpMod x y = ebind (float_mod x y) (\<lambda>r. Inr (PyFloat r))"
| "float_operator OpLt x y = Inr (PyBool (float_lt x y))"
| "float_operator OpLe x y = Inr (PyBool (float_lt x y \<or> float_eq x y))"
| "float_operator OpGt x y = Inr (PyBool (float_lt y x))"
| "float_operator OpGe x y = Inr (PyBool (float_lt y x \<or> float_eq x y))"

text \<open>
  \<open>operator.add(a, b)\<close> and the like, and \<open>operator.eq(a, b)\<close>.  Two floats and two
  strings are the operands that an untyped peer gives; what the language does on the
  other pairs of values is the parameter \<open>rest\<close> (for \<open>==\<close>, \<open>rest_eq\<close>).
\<close>

definition py_operator ::
  "(binop \<Rightarrow> pyvalue \<Rightarrow> pyvalue \<Rightarrow> error + pyvalue) \<Rightarrow> binop \<Rightarrow> pyvalue \<Rightarrow> pyvalue
     \<Rightarrow> error + pyvalue" where
  "py_operator rest op a b =
     (case (a, b) of
        (PyFloat x, PyFloat y) \<Rightarrow> float_operator op x y
      | _ \<Rightarrow> rest op a b)"

definition py_operator_eq ::
  "(pyvalue \<Rightarrow> pyvalue \<Rightarrow> error + pyvalue) \<Rightarrow> pyvalue \<Rightarrow> pyvalue \<Rightarrow> error + pyvalue" where
  "py_operator_eq rest_eq a b =
     (case (a, b) of
        (PyStr s, PyStr t) \<Rightarrow> Inr (PyBool (s = t))
      | (PyFloat x, PyFloat y) \<Rightarrow> Inr (PyBool (float_eq x y))
      | _ \<Rightarrow> rest_eq a b)"

text \<open>
  The special methods: \<open>__add__\<close>, \<open>__sub__\<close>, \<open>__mul__\<close>, \<open>__truediv__\<close>, \<open>__mod__\<close>,
  \<open>__lt__\<close>, \<open>__le__\<close>, \<open>__gt__\<close> and \<open>__ge__\<close> are \<open>UntypedAtomic_binop\<close> at their
  operator; \<open>__rsub__\<close> and \<open>__rtruediv__\<close> reverse the operands after the cast;
  \<open>__eq__\<close> asks for the operands without the conversion to float.
\<close>

definition UntypedAtomic_binop ::
  "(pyvalue \<Rightarrow> string \<Rightarrow> error + pyvalue) \<Rightarrow> (binop \<Rightarrow> pyvalue \<Rightarrow> pyvalue \<Rightarrow> error + pyvalue)
     \<Rightarrow> binop \<Rightarrow> string \<Rightarrow> pyvalue \<Rightarrow> error + pyvalue" where
  "UntypedAtomic_binop build rest op v other =
     ebind (UntypedAtomic_get_operands build v other True) (\<lambda>(a, b). py_operator rest op a b)"

definition UntypedAtomic_add ::
  "(pyvalue \<Rightarrow> string \<Rightarrow> error + pyvalue) \<Rightarrow> (binop \<Rightarrow> pyvalue \<Rightarrow> pyvalue \<Rightarrow> error + pyvalue)
     \<Rightarrow> string \<Rightarrow> pyvalue \<Rightarrow> error + pyvalue" where
  "UntypedAtomic_add build rest v other = UntypedAtomic_binop build rest OpAdd v other"

definition UntypedAtomic_rbinop ::
  "(pyvalue \<Rightarrow> string \<Rightarrow> error + pyvalue) \<Rightarrow> (binop \<Rightarrow> pyvalue \<Rightarrow> pyvalue \<Rightarrow> error + pyvalue)
     \<Rightarrow> binop \<Rightarrow> string \<Rightarrow> pyvalue \<Rightarrow> error + pyvalue" where
  "UntypedAtomic_rbinop build rest op v other =
     ebind (UntypedAtomic_get_operands build v other True) (\<lambda>(a, b). py_operator rest op b a)"

definition UntypedAtomic_eq ::
  "(pyvalue \<Rightarrow> string \<Rightarrow> error + pyvalue) \<Rightarrow> (pyvalue \<Rightarrow> pyvalue \<Rightarrow> error + pyvalue)
     \<Rightarrow> string \<Rightarrow> pyvalue \<Rightarrow> error + pyvalue" where
  "UntypedAtomic_eq build rest_eq v other =
     ebind (UntypedAtomic_get_operands build v other False) (\<lambda>(a, b). py_operator_eq rest_eq a b)"

section \<open>Integer constructors (xpath2\_constructors.py)\<close>

text \<open>\<open>int(value)\<close> for a value that is neither \<open>str\<close> nor \<open>bytes\<close>.\<close>

fun py_int :: "pyvalue \<Rightarrow> error + int" where
  "py_int (PyInt n) = Inr n"
| "py_int (PyBool b) = Inr (if b then 1 else 0)"
| "py_int (PyFloat f) = py_int_of_float f"
| "py_int (PyDecimal d) = Inr (trunc d)"
| "py_int (PyUntypedAtomic s) = py_int_of_string s"
| "py_int (PyStr s) = py_int_of_string s"
| "py_int (PyBytes s) = py_int_of_string s"
| "py_int PyOther = Inl TypeError"

text \<open>
  The \<open>except\<close> clauses of \<open>cast_to_integer\<close>: \<open>ValueError\<close> becomes
  \<open>FORG0001\<close>, \<open>OverflowError\<close> becomes \<open>FOAR0002\<close>, anything else propagates.
\<close>

fun int_except :: "error + int \<Rightarrow> error + int" where
  "int_except (Inl ValueError) = Inl (XPathError ''FORG0001'')"
| "int_except (Inl OverflowError) = Inl (XPathError ''FOAR0002'')"
| "int_except r = r"

definition check_bounds :: "int option \<Rightarrow> int option \<Rightarrow> int \<Rightarrow> error + int" where
  "check_bounds lower_bound higher_bound result =
     (if lower_bound \<noteq> None \<and> result < the lower_bound then Inl (XPathError ''FORG0001'')
      else if higher_bound \<noteq> None \<and> the higher_bound \<le> result then Inl (XPathError ''FORG0001'')
      else Inr result)"

definition cast_to_integer :: "pyvalue \<Rightarrow> int option \<Rightarrow> int option \<Rightarrow> error + int" where
  "cast_to_integer v lower_bound higher_bound =
     (case
        (case v of
           PyStr s \<Rightarrow>
             int_except
               (if py_lower (py_strip s) \<in> {''inf'', ''-inf''} \<and> py_strip s \<notin> {''INF'', ''-INF''}
                then Inl ValueError
                else (case py_float_of_string s of Inl e \<Rightarrow> Inl e | Inr f \<Rightarrow> py_int_of_float f))
         | PyBytes s \<Rightarrow>
             int_except
               (case py_float_of_string s of Inl e \<Rightarrow> Inl e | Inr f \<Rightarrow> py_int_of_float f)
         | _ \<Rightarrow> int_except (py_int v))
      of Inl e \<Rightarrow> Inl e
       | Inr result \<Rightarrow> check_bounds lower_bound higher_bound result)"

text \<open>The constructors registered for \<open>long\<close> and \<open>int\<close>.\<close>

definition cast_long :: "pyvalue \<Rightarrow> error + int" where
  "cast_long v = cast_to_integer v (Some (- (2 ^ 127))) (Some (2 ^ 127))"

definition cast_int :: "pyvalue \<Rightarrow> error + int" where
  "cast_int v = cast_to_integer v (Some (- (2 ^ 63))) (Some (2 ^ 63))"

text \<open>The validators of the entries \<open>long\<close> and \<open>int\<close> of \<open>XSD_BUILTIN_TYPES\<close>.\<close>

fun integer_validator :: "pyvalue \<Rightarrow> bool" where
  "integer_validator (PyInt n) = True"
| "integer_validator _ = False"

fun long_validator :: "pyvalue \<Rightarrow> bool" where
  "long_validator (PyInt x) = (integer_validator (PyInt x) \<and> - (2 ^ 63) \<le> x \<and> x < 2 ^ 63)"
| "long_validator _ = False"

fun int_validator :: "pyvalue \<Rightarrow> bool" where
  "int_validator (PyInt x) = (integer_validator (PyInt x) \<and> - (2 ^ 31) \<le> x \<and> x < 2 ^ 31)"
| "int_validator _ = False"

section \<open>Theorems\<close>

subsection \<open>Durations: comparison and formatting\<close>

lemma compare_durations_other_class:
  "\<not> dur_subclass (dur_class b) (dur_class a) \<Longrightarrow>
     compare_durations a (PyDuration b) op = Inl TypeError"
  by (simp add: compare_durations_def)

text \<open>
  Claim C2, as the code has it.  \<open>_compare_durations\<close> starts with the guard
  \<open>isinstance(other, self.__class__)\<close>, so comparing a \<open>YearMonthDuration\<close> with a
  \<open>DayTimeDuration\<close> by \<open><\<close> or \<open>>\<close> raises \<open>TypeError\<close> in both operand orders,
  whatever the values.  The same two values, one month and 28 days, held by objects of the
  base class \<open>Duration\<close> are incomparable: \<open><\<close> and \<open>>\<close> both return \<open>False\<close>, in both
  orders, without an error.
\<close>

theorem C2_duration_variants_incomparable:
  "(dur_class a = YearMonthDuration \<and> dur_class b = DayTimeDuration \<longrightarrow>
      duration_less a b = Inl TypeError \<and> duration_greater a b = Inl TypeError \<and>
      duration_less b a = Inl TypeError \<and> duration_greater b a = Inl TypeError)
   \<and> Duration_init Duration 1 0 = Inr \<lparr>dur_class = Duration, months = 1, seconds = 0\<rparr>
   \<and> Duration_init Duration 0 (28 * 86400) =
        Inr \<lparr>dur_class = Duration, months = 0, seconds = 28 * 86400\<rparr>
   \<and> duration_less \<lparr>dur_class = Duration, months = 1, seconds = 0\<rparr>
        \<lparr>dur_class = Duration, months = 0, seconds = 28 * 86400\<rparr> = Inr False
   \<and> duration_greater \<lparr>dur_class = Duration, months = 1, seconds = 0\<rparr>
        \<lparr>dur_class = Duration, months = 0, seconds = 28 * 86400\<rparr> = Inr False
   \<and> duration_less \<lparr>dur_class = Duration, months = 0, seconds = 28 * 86400\<rparr>
        \<lparr>dur_class = Duration, months = 1, seconds = 0\<rparr> = Inr False
   \<and> duration_greater \<lparr>dur_class = Duration, months = 0, seconds = 28 * 86400\<rparr>
        \<lparr>dur_class = Duration, months = 1, seconds = 0\<rparr> = Inr False"
proof -
  have variants: "dur_class a = YearMonthDuration \<and> dur_class b = DayTimeDuration \<longrightarrow>
      duration_less a b = Inl TypeError \<and> duration_greater a b = Inl TypeError \<and>
      duration_less b a = Inl TypeError \<and> duration_greater b a = Inl TypeError"
    by (simp add: duration_less_def duration_greater_def proper_subclass_def dur_subclass_def
        Duration_lt_def Duration_gt_def compare_durations_other_class)
  have init1: "Duration_init Duration 1 0 = Inr \<lparr>dur_class = Duration, months = 1, seconds = 0\<rparr>"
    by (simp add: Duration_init_def)
  have init2: "Duration_init Duration 0 (28 * 86400) =
        Inr \<lparr>dur_class = Duration, months = 0, seconds = 28 * 86400\<rparr>"
    by (simp add: Duration_init_def)
  have lt1: "duration_less \<lparr>dur_class = Duration, months = 1, seconds = 0\<rparr>
        \<lparr>dur_class = Duration, months = 0, seconds = 28 * 86400\<rparr> = Inr False"
    by code_simp
  have gt1: "duration_greater \<lparr>dur_class = Duration, months = 1, seconds = 0\<rparr>
        \<lparr>dur_class = Duration, months = 0, seconds = 28 * 86400\<rparr> = Inr False"
    by code_simp
  have lt2: "duration_less \<lparr>dur_class = Duration, months = 0, seconds = 28 * 86400\<rparr>
        \<lparr>dur_class = Duration, months = 1, seconds = 0\<rparr> = Inr False"
    by code_simp
  have gt2: "duration_greater \<lparr>dur_class = Duration, months = 0, seconds = 28 * 86400\<rparr>
        \<lparr>dur_class = Duration, months = 1, seconds = 0\<rparr> = Inr False"
    by code_simp
  from variants init1 init2 lt1 gt1 lt2 gt2 show ?thesis
    by (intro conjI)
qed

text \<open>
  The theorem at the values of the claim: \<open>YearMonthDuration(months=1)\<close> and
  \<open>DayTimeDuration(seconds=28*86400)\<close>.
\<close>

theorem C2_duration_variants_incomparable_witness:
  "duration_less \<lparr>dur_class = YearMonthDuration, months = 1, seconds = 0\<rparr>
     \<lparr>dur_class = DayTimeDuration, months = 0, seconds = 28 * 86400\<rparr> = Inl TypeError
   \<and> duration_greater \<lparr>dur_class = YearMonthDuration, months = 1, seconds = 0\<rparr>
     \<lparr>dur_class = DayTimeDuration, months = 0, seconds = 28 * 86400\<rparr> = Inl TypeError
   \<and> duration_less \<lparr>dur_class = DayTimeDuration, months = 0, seconds = 28 * 86400\<rparr>
     \<lparr>dur_class = YearMonthDuration, months = 1, seconds = 0\<rparr> = Inl TypeError
   \<and> duration_greater \<lparr>dur_class = DayTimeDuration, months = 0, seconds = 28 * 86400\<rparr>
     \<lparr>dur_class = YearMonthDuration, months = 1, seconds = 0\<rparr> = Inl TypeError"
  using C2_duration_variants_incomparable
    [of "\<lparr>dur_class = YearMonthDuration, months = 1, seconds = 0\<rparr>"
        "\<lparr>dur_class = DayTimeDuration, months = 0, seconds = 28 * 86400\<rparr>"]
  by simp

text \<open>
  Claim C2 as stated fails: the two objects of the claim are built by the constructors,
  and \<open><\<close> on them does not return \<open>False\<close>; it raises.
\<close>

theorem C2_variant_comparison_counterexample:
  "YearMonthDuration_init 1 = Inr \<lparr>dur_class = YearMonthDuration, months = 1, seconds = 0\<rparr>
   \<and> DayTimeDuration_init (28 * 86400) =
       Inr \<lparr>dur_class = DayTimeDuration, months = 0, seconds = 28 * 86400\<rparr>
   \<and> duration_less \<lparr>dur_class = YearMonthDuration, months = 1, seconds = 0\<rparr>
       \<lparr>dur_class = DayTimeDuration, months = 0, seconds = 28 * 86400\<rparr> \<noteq> Inr False"
  by (simp add: YearMonthDuration_init_def DayTimeDuration_init_def Duration_init_def
      duration_less_def proper_subclass_def dur_subclass_def Duration_lt_def
      compare_durations_other_class)

text \<open>
  Claim C4, as the code has it.  A duration whose fields are both zero is written
  \<open>PT0S\<close> by \<open>Duration.__str__\<close>, which the classes \<open>Duration\<close> and \<open>DayTimeDuration\<close>
  use; \<open>YearMonthDuration\<close> overrides \<open>__str__\<close> and writes \<open>P0M\<close>.
\<close>

theorem C4_zero_duration_format:
  "months d = 0 \<and> seconds d = 0 \<longrightarrow>
     duration_str d = (if dur_class d = YearMonthDuration then ''P0M'' else ''PT0S'')"
  by (simp add: duration_str_def Duration_str_def YearMonthDuration_str_def sign_def
      dec_mod_def dec_floordiv_def trunc_def str_int_def digit_char_def)

theorem C4_zero_duration_format_witness:
  "duration_str \<lparr>dur_class = Duration, months = 0, seconds = 0\<rparr> = ''PT0S''
   \<and> duration_str \<lparr>dur_class = DayTimeDuration, months = 0, seconds = 0\<rparr> = ''PT0S''
   \<and> duration_str \<lparr>dur_class = YearMonthDuration, months = 0, seconds = 0\<rparr> = ''P0M''"
  using C4_zero_duration_format [of "\<lparr>dur_class = Duration, months = 0, seconds = 0\<rparr>"]
    C4_zero_duration_format [of "\<lparr>dur_class = DayTimeDuration, months = 0, seconds = 0\<rparr>"]
    C4_zero_duration_format [of "\<lparr>dur_class = YearMonthDuration, months = 0, seconds = 0\<rparr>"]
  by simp

text \<open>
  Claim C4 as stated fails for the year-month variant: \<open>YearMonthDuration(0)\<close> has both
  fields zero and is not written \<open>PT0S\<close>.
\<close>

theorem C4_year_month_zero_counterexample:
  "YearMonthDuration_init 0 = Inr \<lparr>dur_class = YearMonthDuration, months = 0, seconds = 0\<rparr>
   \<and> duration_str \<lparr>dur_class = YearMonthDuration, months = 0, seconds = 0\<rparr> \<noteq> ''PT0S''"
  by (simp add: YearMonthDuration_init_def Duration_init_def duration_str_def
      YearMonthDuration_str_def str_int_def digit_char_def)

subsection \<open>Temporal values: the year 0\<close>

lemma ebind_Inr_iff: "ebind m f = Inr y \<longleftrightarrow> (\<exists>x. m = Inr x \<and> f x = Inr y)"
  by (cases m) (simp_all add: ebind_def)

lemma ebind_Inl [simp]: "ebind (Inl e) f = Inl e"
  by (simp add: ebind_def)

lemma ebind_Inr [simp]: "ebind (Inr x) f = f x"
  by (simp add: ebind_def)

lemma ord2ymd_year_pos:
  assumes "0 < n"
  shows "1 \<le> fst (ord2ymd n)"
proof -
  define a where "a = (n - 1) div 146097"
  define b where "b = (n - 1) mod 146097 div 36524"
  define c where "c = (n - 1) mod 146097 mod 36524 div 1461"
  define d where "d = (n - 1) mod 146097 mod 36524 mod 1461 div 365"
  have a: "0 \<le> a" using assms by (simp add: a_def)
  have b: "0 \<le> b" by (simp add: b_def)
  have c: "0 \<le> c" by (simp add: c_def)
  have d: "0 \<le> d" by (simp add: d_def)
  have "fst (ord2ymd n) = (if d = 4 \<or> b = 4 then a * 400 + 1 + b * 100 + c * 4 + d - 1
                           else a * 400 + 1 + b * 100 + c * 4 + d)"
    unfolding ord2ymd_def Let_def a_def b_def c_def d_def
    by (simp only: split: if_split prod.split) simp
  then show ?thesis
    using a b c d by (auto split: if_splits)
qed

lemma mk_datetime_year:
  "mk_datetime y m d hh mm ss us tz = Inr dt \<Longrightarrow> 1 \<le> dt_year dt"
  by (auto simp add: mk_datetime_def split: if_splits)

lemma dt_add_year:
  assumes "dt_add dt td = Inr dt'"
  shows "1 \<le> dt_year dt'"
proof -
  from assms obtain d0 delta where
    d: "td_add d0 td = Inr delta"
    and r: "(let days = td_days delta; hh = td_seconds delta div 3600; rem = td_seconds delta mod 3600
         in if 0 < days \<and> days \<le> MAXORDINAL
            then (case ord2ymd days of
                    (y, m, d) \<Rightarrow>
                      Inr \<lparr>dt_year = y, dt_month = m, dt_day = d, dt_hour = hh,
                           dt_minute = rem div 60, dt_second = rem mod 60,
                           dt_microsecond = td_microseconds delta, dt_tzinfo = dt_tzinfo dt\<rparr>)
            else Inl OverflowError) = Inr dt'"
    unfolding dt_add_def ebind_Inr_iff by blast
  from r have pos: "0 < td_days delta" and y: "dt_year dt' = fst (ord2ymd (td_days delta))"
    by (auto simp add: Let_def split: if_splits prod.splits)
  show ?thesis using ord2ymd_year_pos [OF pos] y by simp
qed

lemma init_cases:
  assumes "AbstractDateTime_init cls y m d hh mm ss us tz = Inr t"
  obtains dt y' hh' where "mk_datetime y' m d hh' mm ss us tz = Inr dt"
    and "priv_dt t = dt \<or> dt_add dt US_PER_DAY = Inr (priv_dt t)"
proof -
  from assms [unfolded AbstractDateTime_init_def Let_def ebind_Inr_iff]
  obtain p where
    X: "(if 1 \<le> y \<and> y \<le> 9999
         then ebind (mk_datetime y m d (if hh = 24 \<and> mm = ss \<and> ss = 0 then 0 else hh) mm ss us tz)
                (\<lambda>dt. Inr (dt, None))
         else if y = 0 then Inl ValueError
         else if isleap (y + (if version cls \<noteq> ''1.0'' then 1 else 0))
         then ebind (mk_datetime 4 m d (if hh = 24 \<and> mm = ss \<and> ss = 0 then 0 else hh) mm ss us tz)
                (\<lambda>dt. Inr (dt, Some y))
         else ebind (mk_datetime 6 m d (if hh = 24 \<and> mm = ss \<and> ss = 0 then 0 else hh) mm ss us tz)
                (\<lambda>dt. Inr (dt, Some y))) = Inr p"
    and Y: "(case p of (dt, yy) \<Rightarrow>
              if hh = 24 \<and> mm = ss \<and> ss = 0
              then ebind (dt_add dt US_PER_DAY)
                     (\<lambda>dt'. Inr \<lparr>t_class = cls, priv_dt = dt', priv_year = yy\<rparr>)
              else Inr \<lparr>t_class = cls, priv_dt = dt, priv_year = yy\<rparr>) = Inr t"
    by blast
  obtain dt yy where p: "p = (dt, yy)" by (cases p)
  from X p have mk: "\<exists>y' hh'. mk_datetime y' m d hh' mm ss us tz = Inr dt"
    by (simp add: ebind_Inr_iff split: if_splits) blast+
  from Y p have "priv_dt t = dt \<or> dt_add dt US_PER_DAY = Inr (priv_dt t)"
    by (auto simp add: ebind_Inr_iff split: if_splits)
  with mk that show thesis by blast
qed

lemma init_dt_year:
  assumes "AbstractDateTime_init cls y m d hh mm ss us tz = Inr t"
  shows "1 \<le> dt_year (priv_dt t)"
  using init_cases [OF assms] mk_datetime_year dt_add_year by metis

lemma init_year_nonzero:
  "AbstractDateTime_init cls y m d hh mm ss us tz = Inr t \<Longrightarrow> t_year t \<noteq> 0"
  using init_dt_year [of cls y m d hh mm ss us tz t]
  by (auto simp add: t_year_def split: option.splits)

lemma init_year_zero:
  "AbstractDateTime_init cls 0 m d hh mm ss us tz = Inl ValueError"
  by (simp add: AbstractDateTime_init_def Let_def)

lemma new_year_zero:
  "k_year kw = Some 0 \<Longrightarrow> temporal_new cls kw = Inl TypeError \<or> temporal_new cls kw = Inl ValueError"
  by (simp add: temporal_new_def Let_def or_default_def init_year_zero)

lemma new_year_nonzero:
  "temporal_new cls kw = Inr t \<Longrightarrow> t_year t \<noteq> 0"
  unfolding temporal_new_def Let_def
  using init_year_nonzero by (simp split: if_splits)

lemma fromstring_new:
  "temporal_fromstring cls s tz = Inr t \<Longrightarrow> \<exists>kw. temporal_new cls kw = Inr t"
  unfolding temporal_fromstring_def Let_def
  by (auto simp add: ebind_Inr_iff split: option.splits if_splits)

lemma fromstring_year_nonzero:
  "temporal_fromstring cls s tz = Inr t \<Longrightarrow> t_year t \<noteq> 0"
  using fromstring_new new_year_nonzero by blast

lemma init_priv_year:
  assumes "AbstractDateTime_init cls y m d hh mm ss us tz = Inr t" and "\<not> (1 \<le> y \<and> y \<le> 9999)"
  shows "priv_year t = Some y"
proof -
  from assms(1) [unfolded AbstractDateTime_init_def Let_def ebind_Inr_iff]
  obtain p where
    X: "(if 1 \<le> y \<and> y \<le> 9999
         then ebind (mk_datetime y m d (if hh = 24 \<and> mm = ss \<and> ss = 0 then 0 else hh) mm ss us tz)
                (\<lambda>dt. Inr (dt, None))
         else if y = 0 then Inl ValueError
         else if isleap (y + (if version cls \<noteq> ''1.0'' then 1 else 0))
         then ebind (mk_datetime 4 m d (if hh = 24 \<and> mm = ss \<and> ss = 0 then 0 else hh) mm ss us tz)
                (\<lambda>dt. Inr (dt, Some y))
         else ebind (mk_datetime 6 m d (if hh = 24 \<and> mm = ss \<and> ss = 0 then 0 else hh) mm ss us tz)
                (\<lambda>dt. Inr (dt, Some y))) = Inr p"
    and Y: "(case p of (dt, yy) \<Rightarrow>
              if hh = 24 \<and> mm = ss \<and> ss = 0
              then ebind (dt_add dt US_PER_DAY)
                     (\<lambda>dt'. Inr \<lparr>t_class = cls, priv_dt = dt', priv_year = yy\<rparr>)
              else Inr \<lparr>t_class = cls, priv_dt = dt, priv_year = yy\<rparr>) = Inr t"
    by blast
  obtain dt yy where p: "p = (dt, yy)" by (cases p)
  from X p assms(2) have "yy = Some y"
    by (auto simp add: ebind_Inr_iff split: if_splits)
  moreover from Y p have "priv_year t = yy"
    by (auto simp add: ebind_Inr_iff split: if_splits)
  ultimately show ?thesis by simp
qed

lemma new_priv_year:
  "temporal_new cls kw = Inr t \<Longrightarrow> k_year kw = Some y \<Longrightarrow> \<not> (1 \<le> y \<and> y \<le> 9999) \<Longrightarrow> priv_year t = Some y"
  unfolding temporal_new_def Let_def
  using init_priv_year by (simp add: or_default_def split: if_splits)

lemma new_year_zero_error:
  "k_year kw = Some 0 \<Longrightarrow>
     temporal_new cls kw =
       (if set (given kw) \<subseteq> set (group_names cls) \<and> set (required cls) \<subseteq> set (given kw)
        then Inl ValueError else Inl TypeError)"
  by (simp add: temporal_new_def Let_def or_default_def init_year_zero)

lemma fromstring_lexical_zero:
  assumes m: "pattern_match cls (py_strip s) = Some g"
    and y: "tg_year g = Some ys" and z: "py_int_of_string ys = Inr 0"
  shows "version cls = ''1.0'' \<longrightarrow> (\<exists>e. temporal_fromstring cls s tz = Inl e)"
    and "version cls \<noteq> ''1.0'' \<longrightarrow> temporal_fromstring cls s tz = Inr t \<longrightarrow> t_year t = - 1"
proof -
  have kw: "groups_kwargs g = Inr kw0 \<Longrightarrow> k_year kw0 = Some 0" for kw0
    using y z by (auto simp add: groups_kwargs_def int_group_def ebind_Inr_iff)
  have sc: "k_year (scale_microsecond g kw) = k_year kw" for kw
    by (simp add: scale_microsecond_def split: option.splits)
  show "version cls = ''1.0'' \<longrightarrow> (\<exists>e. temporal_fromstring cls s tz = Inl e)"
  proof
    assume v: "version cls = ''1.0''"
    show "\<exists>e. temporal_fromstring cls s tz = Inl e"
    proof (cases "groups_kwargs g")
      case (Inl e)
      then show ?thesis using m by (simp add: temporal_fromstring_def)
    next
      case (Inr kw0)
      from kw [OF Inr] have k0: "k_year kw0 = Some 0" .
      show ?thesis
        using m Inr y k0 v
        by (simp add: temporal_fromstring_def Let_def sc new_year_zero_error)
    qed
  qed
  show "version cls \<noteq> ''1.0'' \<longrightarrow> temporal_fromstring cls s tz = Inr t \<longrightarrow> t_year t = - 1"
  proof (intro impI)
    assume v: "version cls \<noteq> ''1.0''" and r: "temporal_fromstring cls s tz = Inr t"
    from r m obtain kw0 where g: "groups_kwargs g = Inr kw0"
      by (cases "groups_kwargs g") (simp_all add: temporal_fromstring_def)
    from kw [OF g] have k0: "k_year kw0 = Some 0" .
    from r m g y k0 v obtain kw where n: "temporal_new cls kw = Inr t" and ky: "k_year kw = Some (- 1)"
      by (auto simp add: temporal_fromstring_def Let_def sc split: if_splits)
    from new_priv_year [OF n ky] have "priv_year t = Some (- 1)" by simp
    then show "t_year t = - 1" by (simp add: t_year_def)
  qed
qed

text \<open>
  Claim C9, as the code has it.  From components, year 0 is always an error:
  \<open>AbstractDateTime.__init__\<close> raises \<open>ValueError\<close> whatever the class and the other
  arguments, and so does every constructor call with \<open>year=0\<close> (a \<open>TypeError\<close> when the
  call does not fit the signature).  No value built from components or from a lexical
  string has the year 0.  A lexical string whose year reads 0 is an error for the
  classes of version 1.0; the classes of version 1.1 shift a lexical year \<open>\<le> 0\<close> by one
  before the constructor sees it, so for them the lexical year \<open>0000\<close> is year \<open>-1\<close>.
\<close>

theorem C9_year_zero:
  "AbstractDateTime_init cls 0 m d hh mm ss us tz = Inl ValueError
   \<and> (k_year kw = Some 0 \<longrightarrow>
        temporal_new cls kw =
          (if set (given kw) \<subseteq> set (group_names cls) \<and> set (required cls) \<subseteq> set (given kw)
           then Inl ValueError else Inl TypeError))
   \<and> (temporal_new cls kw = Inr t \<longrightarrow> t_year t \<noteq> 0)
   \<and> (temporal_fromstring cls s tz' = Inr t \<longrightarrow> t_year t \<noteq> 0)
   \<and> (pattern_match cls (py_strip s) = Some g \<and> tg_year g = Some ys \<and>
        py_int_of_string ys = Inr 0 \<longrightarrow>
          (version cls = ''1.0'' \<longrightarrow> (\<exists>e. temporal_fromstring cls s tz' = Inl e)) \<and>
          (version cls \<noteq> ''1.0'' \<longrightarrow> temporal_fromstring cls s tz' = Inr t \<longrightarrow> t_year t = - 1))"
proof (intro conjI)
  show "AbstractDateTime_init cls 0 m d hh mm ss us tz = Inl ValueError"
    by (rule init_year_zero)
  show "k_year kw = Some 0 \<longrightarrow>
        temporal_new cls kw =
          (if set (given kw) \<subseteq> set (group_names cls) \<and> set (required cls) \<subseteq> set (given kw)
           then Inl ValueError else Inl TypeError)"
    using new_year_zero_error by blast
  show "temporal_new cls kw = Inr t \<longrightarrow> t_year t \<noteq> 0"
    using new_year_nonzero by blast
  show "temporal_fromstring cls s tz' = Inr t \<longrightarrow> t_year t \<noteq> 0"
    using fromstring_year_nonzero by blast
  show "pattern_match cls (py_strip s) = Some g \<and> tg_year g = Some ys \<and>
        py_int_of_string ys = Inr 0 \<longrightarrow>
          (version cls = ''1.0'' \<longrightarrow> (\<exists>e. temporal_fromstring cls s tz' = Inl e)) \<and>
          (version cls \<noteq> ''1.0'' \<longrightarrow> temporal_fromstring cls s tz' = Inr t \<longrightarrow> t_year t = - 1)"
    using fromstring_lexical_zero(1) [of cls s g ys tz']
      fromstring_lexical_zero(2) [of cls s g ys tz' t] by blast
qed

text \<open>
  The theorem at \<open>Date10(0, 1, 1)\<close>, \<open>Date10(2000, 1, 1)\<close> and the strings
  \<open>2000-01-01\<close> and \<open>0000-01-01\<close> read by \<open>Date10\<close> (version 1.0).
\<close>

theorem C9_year_zero_witness:
  "temporal_new Date10 (no_kwargs\<lparr>k_year := Some 0, k_month := Some 1, k_day := Some 1\<rparr>)
     = Inl ValueError
   \<and> temporal_new Date10 (no_kwargs\<lparr>k_year := Some 2000, k_month := Some 1, k_day := Some 1\<rparr>)
     = Inr \<lparr>t_class = Date10,
            priv_dt = \<lparr>dt_year = 2000, dt_month = 1, dt_day = 1, dt_hour = 0, dt_minute = 0,
                       dt_second = 0, dt_microsecond = 0, dt_tzinfo = None\<rparr>,
            priv_year = None\<rparr>
   \<and> temporal_fromstring Date10 ''2000-01-01'' None
     = Inr \<lparr>t_class = Date10,
            priv_dt = \<lparr>dt_year = 2000, dt_month = 1, dt_day = 1, dt_hour = 0, dt_minute = 0,
                       dt_second = 0, dt_microsecond = 0, dt_tzinfo = None\<rparr>,
            priv_year = None\<rparr>
   \<and> t_year \<lparr>t_class = Date10,
            priv_dt = \<lparr>dt_year = 2000, dt_month = 1, dt_day = 1, dt_hour = 0, dt_minute = 0,
                       dt_second = 0, dt_microsecond = 0, dt_tzinfo = None\<rparr>,
            priv_year = None\<rparr> \<noteq> 0
   \<and> pattern_match Date10 (py_strip ''0000-01-01'')
     = Some (no_groups\<lparr>tg_year := Some ''0000'', tg_month := Some ''01'', tg_day := Some ''01''\<rparr>)
   \<and> py_int_of_string ''0000'' = Inr 0
   \<and> version Date10 = ''1.0''
   \<and> (\<exists>e. temporal_fromstring Date10 ''0000-01-01'' None = Inl e)"
proof -
  let ?kz = "no_kwargs\<lparr>k_year := Some 0, k_month := Some 1, k_day := Some 1\<rparr>"
  let ?kw = "no_kwargs\<lparr>k_year := Some 2000, k_month := Some 1, k_day := Some 1\<rparr>"
  let ?t = "\<lparr>t_class = Date10,
            priv_dt = \<lparr>dt_year = 2000, dt_month = 1, dt_day = 1, dt_hour = 0, dt_minute = 0,
                       dt_second = 0, dt_microsecond = 0, dt_tzinfo = None\<rparr>,
            priv_year = None\<rparr>"
  let ?g = "no_groups\<lparr>tg_year := Some ''0000'', tg_month := Some ''01'', tg_day := Some ''01''\<rparr>"
  have k0: "k_year ?kz = Some 0" by (simp add: no_kwargs_def)
  have sig: "set (given ?kz) \<subseteq> set (group_names Date10) \<and> set (required Date10) \<subseteq> set (given ?kz)"
    by code_simp
  have new: "temporal_new Date10 ?kw = Inr ?t" by code_simp
  have fs: "temporal_fromstring Date10 ''2000-01-01'' None = Inr ?t" by code_simp
  have pm: "pattern_match Date10 (py_strip ''0000-01-01'') = Some ?g" by code_simp
  have gy: "tg_year ?g = Some ''0000''" by (simp add: no_groups_def)
  have iz: "py_int_of_string ''0000'' = Inr 0" by code_simp
  have v: "version Date10 = ''1.0''" by (simp add: version_def)
  note a = C9_year_zero [where cls = Date10 and kw = ?kz]
  note b = C9_year_zero [where cls = Date10 and kw = ?kw and t = ?t and s = "''2000-01-01''"
      and tz' = None]
  note c = C9_year_zero [where cls = Date10 and s = "''0000-01-01''" and g = ?g
      and ys = "''0000''" and tz' = None]
  from a [THEN conjunct2, THEN conjunct1] k0
  have "temporal_new Date10 ?kz =
          (if set (given ?kz) \<subseteq> set (group_names Date10) \<and> set (required Date10) \<subseteq> set (given ?kz)
           then Inl ValueError else Inl TypeError)"
    by (rule mp)
  from this [unfolded if_P [OF sig]]
  have 1: "temporal_new Date10 ?kz = Inl ValueError" .
  from b [THEN conjunct2, THEN conjunct2, THEN conjunct1] new
  have 2: "t_year ?t \<noteq> 0" by (rule mp)
  from c [THEN conjunct2, THEN conjunct2, THEN conjunct2, THEN conjunct2] pm gy iz v
  have 3: "\<exists>e. temporal_fromstring Date10 ''0000-01-01'' None = Inl e" by blast
  from 1 new fs 2 pm iz v 3 show ?thesis by (intro conjI)
qed

text \<open>
  Claim C9 as stated fails for a lexical string: \<open>Date\<close> (version 1.1) reads
  \<open>0000-01-01\<close>, whose year is 0, without an error; the value has year \<open>-1\<close> inside and
  its year is written \<open>0000\<close> again.
\<close>

theorem C9_lexical_year_zero_counterexample:
  "temporal_fromstring Date ''0000-01-01'' None =
     Inr \<lparr>t_class = Date,
          priv_dt = \<lparr>dt_year = 4, dt_month = 1, dt_day = 1, dt_hour = 0, dt_minute = 0,
                     dt_second = 0, dt_microsecond = 0, dt_tzinfo = None\<rparr>,
          priv_year = Some (- 1)\<rparr>
   \<and> iso_year \<lparr>t_class = Date,
          priv_dt = \<lparr>dt_year = 4, dt_month = 1, dt_day = 1, dt_hour = 0, dt_minute = 0,
                     dt_second = 0, dt_microsecond = 0, dt_tzinfo = None\<rparr>,
          priv_year = Some (- 1)\<rparr> = ''0000''"
  by code_simp

subsection \<open>Temporal values: equality of naive and UTC values\<close>

lemma mk_datetime_tz:
  "mk_datetime y m d hh mm ss us None = Inr dt \<Longrightarrow>
     mk_datetime y m d hh mm ss us tz = Inr (replace_tzinfo dt tz)"
  by (auto simp add: mk_datetime_def replace_tzinfo_def split: if_splits)

lemma mk_datetime_tzinfo:
  "mk_datetime y m d hh mm ss us tz = Inr dt \<Longrightarrow> dt_tzinfo dt = tz"
  by (auto simp add: mk_datetime_def split: if_splits)

lemma wall_us_replace_tzinfo [simp]: "wall_us (replace_tzinfo dt tz) = wall_us dt"
  by (simp add: wall_us_def toordinal_def replace_tzinfo_def)

lemma dt_add_tz:
  assumes "dt_add dt td = Inr dt'"
  shows "dt_add (replace_tzinfo dt tz) td = Inr (replace_tzinfo dt' tz)"
proof -
  from assms obtain d0 delta where d0: "timedelta_of_us (wall_us dt) = Inr d0"
    and delta: "td_add d0 td = Inr delta"
    and r: "(let days = td_days delta; hh = td_seconds delta div 3600; rem = td_seconds delta mod 3600
         in if 0 < days \<and> days \<le> MAXORDINAL
            then (case ord2ymd days of
                    (y, m, d) \<Rightarrow>
                      Inr \<lparr>dt_year = y, dt_month = m, dt_day = d, dt_hour = hh,
                           dt_minute = rem div 60, dt_second = rem mod 60,
                           dt_microsecond = td_microseconds delta, dt_tzinfo = dt_tzinfo dt\<rparr>)
            else Inl OverflowError) = Inr dt'"
    unfolding dt_add_def ebind_Inr_iff by blast
  from r have "(let days = td_days delta; hh = td_seconds delta div 3600; rem = td_seconds delta mod 3600
         in if 0 < days \<and> days \<le> MAXORDINAL
            then (case ord2ymd days of
                    (y, m, d) \<Rightarrow>
                      Inr \<lparr>dt_year = y, dt_month = m, dt_day = d, dt_hour = hh,
                           dt_minute = rem div 60, dt_second = rem mod 60,
                           dt_microsecond = td_microseconds delta,
                           dt_tzinfo = dt_tzinfo (replace_tzinfo dt tz)\<rparr>)
            else Inl OverflowError) = Inr (replace_tzinfo dt' tz)"
    by (auto simp add: Let_def replace_tzinfo_def split: if_splits prod.splits)
  with d0 delta show ?thesis
    unfolding dt_add_def by simp
qed

lemma dt_add_tzinfo:
  assumes "dt_add dt td = Inr dt'"
  shows "dt_tzinfo dt' = dt_tzinfo dt"
proof -
  from assms obtain delta where
    r: "(let days = td_days delta; hh = td_seconds delta div 3600; rem = td_seconds delta mod 3600
         in if 0 < days \<and> days \<le> MAXORDINAL
            then (case ord2ymd days of
                    (y, m, d) \<Rightarrow>
                      Inr \<lparr>dt_year = y, dt_month = m, dt_day = d, dt_hour = hh,
                           dt_minute = rem div 60, dt_second = rem mod 60,
                           dt_microsecond = td_microseconds delta, dt_tzinfo = dt_tzinfo dt\<rparr>)
            else Inl OverflowError) = Inr dt'"
    unfolding dt_add_def ebind_Inr_iff by blast
  then show ?thesis
    by (auto simp add: Let_def split: if_splits prod.splits)
qed

lemma init_tz:
  assumes "AbstractDateTime_init cls y m d hh mm ss us None = Inr v"
  shows "AbstractDateTime_init cls y m d hh mm ss us tz = Inr (set_tzinfo v tz)"
proof -
  let ?h = "if hh = 24 \<and> mm = ss \<and> ss = 0 then 0 else hh"
  from assms [unfolded AbstractDateTime_init_def Let_def ebind_Inr_iff]
  obtain p where
    X: "(if 1 \<le> y \<and> y \<le> 9999
         then ebind (mk_datetime y m d ?h mm ss us None) (\<lambda>dt. Inr (dt, None))
         else if y = 0 then Inl ValueError
         else if isleap (y + (if version cls \<noteq> ''1.0'' then 1 else 0))
         then ebind (mk_datetime 4 m d ?h mm ss us None) (\<lambda>dt. Inr (dt, Some y))
         else ebind (mk_datetime 6 m d ?h mm ss us None) (\<lambda>dt. Inr (dt, Some y))) = Inr p"
    and Y: "(case p of (dt, yy) \<Rightarrow>
              if hh = 24 \<and> mm = ss \<and> ss = 0
              then ebind (dt_add dt US_PER_DAY)
                     (\<lambda>dt'. Inr \<lparr>t_class = cls, priv_dt = dt', priv_year = yy\<rparr>)
              else Inr \<lparr>t_class = cls, priv_dt = dt, priv_year = yy\<rparr>) = Inr v"
    by blast
  obtain dt yy where p: "p = (dt, yy)" by (cases p)
  from X p have X': "(if 1 \<le> y \<and> y \<le> 9999
         then ebind (mk_datetime y m d ?h mm ss us tz) (\<lambda>dt. Inr (dt, None))
         else if y = 0 then Inl ValueError
         else if isleap (y + (if version cls \<noteq> ''1.0'' then 1 else 0))
         then ebind (mk_datetime 4 m d ?h mm ss us tz) (\<lambda>dt. Inr (dt, Some y))
         else ebind (mk_datetime 6 m d ?h mm ss us tz) (\<lambda>dt. Inr (dt, Some y)))
       = Inr (replace_tzinfo dt tz, yy)"
    by (auto simp add: ebind_Inr_iff mk_datetime_tz split: if_splits)
  from Y p have Y': "(if hh = 24 \<and> mm = ss \<and> ss = 0
              then ebind (dt_add (replace_tzinfo dt tz) US_PER_DAY)
                     (\<lambda>dt'. Inr \<lparr>t_class = cls, priv_dt = dt', priv_year = yy\<rparr>)
              else Inr \<lparr>t_class = cls, priv_dt = replace_tzinfo dt tz, priv_year = yy\<rparr>)
       = Inr (set_tzinfo v tz)"
    by (auto simp add: ebind_Inr_iff set_tzinfo_def dt_add_tz split: if_splits)
  show ?thesis
    unfolding AbstractDateTime_init_def Let_def
    by (simp only: X' ebind_Inr prod.case Y')
qed

lemma init_tzinfo:
  assumes "AbstractDateTime_init cls y m d hh mm ss us tz = Inr t"
  shows "t_tzinfo t = tz"
proof -
  from init_cases [OF assms] obtain dt y' hh' where
    mk: "mk_datetime y' m d hh' mm ss us tz = Inr dt"
    and c: "priv_dt t = dt \<or> dt_add dt US_PER_DAY = Inr (priv_dt t)"
    by blast
  from c show ?thesis
    using mk_datetime_tzinfo [OF mk] dt_add_tzinfo [of dt US_PER_DAY "priv_dt t"]
    by (auto simp add: t_tzinfo_def)
qed

lemma new_tz:
  assumes "temporal_new cls kw = Inr v" and "k_tzinfo kw = None"
  shows "temporal_new cls (kw\<lparr>k_tzinfo := tz\<rparr>) = Inr (set_tzinfo v tz)"
    and "t_tzinfo v = None"
proof -
  let ?bad = "\<not> set (given kw) \<subseteq> set (group_names cls) \<or> \<not> set (required cls) \<subseteq> set (given kw)"
  let ?h = "if cls = Time \<and> or_default (k_hour kw) 0 = 24 \<and>
               or_default (k_minute kw) 0 = or_default (k_second kw) 0 \<and>
               or_default (k_second kw) 0 = 0
            then 0 else or_default (k_hour kw) 0"
  have g: "given (kw\<lparr>k_tzinfo := tz\<rparr>) = given kw"
    by (simp add: given_def)
  have ok: "\<not> ?bad"
  proof
    assume ?bad
    then have "temporal_new cls kw = Inl TypeError"
      unfolding temporal_new_def by (simp only: if_True)
    with assms(1) show False by simp
  qed
  then have "temporal_new cls kw =
      AbstractDateTime_init cls (or_default (k_year kw) 2000) (or_default (k_month kw) 1)
        (or_default (k_day kw) 1) ?h (or_default (k_minute kw) 0) (or_default (k_second kw) 0)
        (or_default (k_microsecond kw) 0) (k_tzinfo kw)"
    unfolding temporal_new_def Let_def by (simp only: if_False)
  with assms have i: "AbstractDateTime_init cls (or_default (k_year kw) 2000)
        (or_default (k_month kw) 1) (or_default (k_day kw) 1) ?h (or_default (k_minute kw) 0)
        (or_default (k_second kw) 0) (or_default (k_microsecond kw) 0) None = Inr v"
    by simp
  from ok have "temporal_new cls (kw\<lparr>k_tzinfo := tz\<rparr>) =
      AbstractDateTime_init cls (or_default (k_year kw) 2000) (or_default (k_month kw) 1)
        (or_default (k_day kw) 1) ?h (or_default (k_minute kw) 0) (or_default (k_second kw) 0)
        (or_default (k_microsecond kw) 0) tz"
    unfolding temporal_new_def Let_def g by simp
  with init_tz [OF i] show "temporal_new cls (kw\<lparr>k_tzinfo := tz\<rparr>) = Inr (set_tzinfo v tz)"
    by simp
  from init_tzinfo [OF i] show "t_tzinfo v = None" .
qed

lemma issubclass_refl [simp]: "issubclass c c"
  by (simp add: issubclass_def)

lemma dt_eq_refl [simp]: "dt_eq a a"
  by (simp add: dt_eq_def)

lemma t_year_set_tzinfo [simp]: "t_year (set_tzinfo v tz) = t_year v"
  by (cases "priv_year v") (simp_all add: t_year_def set_tzinfo_def replace_tzinfo_def)

lemma eq_naive_utc:
  assumes "t_tzinfo v = None"
  shows "temporal_eq v (PyTemporal (set_tzinfo v (Some (Timezone 0))))"
    and "temporal_eq (set_tzinfo v (Some (Timezone 0))) (PyTemporal v)"
  using assms
proof -
  have r: "replace_tzinfo (priv_dt v) (Some utc_timezone) = priv_dt (set_tzinfo v (Some (Timezone 0)))"
    by (simp add: set_tzinfo_def utc_timezone_def)
  have c: "t_class (set_tzinfo v (Some (Timezone 0))) = t_class v"
    by (simp add: set_tzinfo_def)
  have z: "dt_tzinfo (priv_dt (set_tzinfo v (Some (Timezone 0)))) = Some (Timezone 0)"
    by (simp add: set_tzinfo_def replace_tzinfo_def)
  have n: "dt_tzinfo (priv_dt v) = None"
    using assms by (simp add: t_tzinfo_def)
  show "temporal_eq v (PyTemporal (set_tzinfo v (Some (Timezone 0))))"
    using assms by (simp add: temporal_eq_def get_operands_def c z n r)
  show "temporal_eq (set_tzinfo v (Some (Timezone 0))) (PyTemporal v)"
    by (simp add: temporal_eq_def get_operands_def c z n r t_tzinfo_def)
qed

text \<open>
  Claim C6.  Let \<open>v\<close> be a temporal value without a timezone and \<open>w\<close> the value with the
  same class, the same fields and the offset \<open>+00:00\<close>.  Then \<open>v == w\<close> and \<open>w == v\<close>
  hold, and after either comparison both objects are as they were before: the naive
  side is compared through a copy that carries the UTC timezone.  A value constructed
  without a timezone is such a \<open>v\<close>, and the same constructor call with
  \<open>tzinfo=Timezone(0)\<close> yields its \<open>w\<close>.
\<close>

theorem C6_naive_equals_utc:
  "(t_tzinfo v = None \<longrightarrow>
      temporal_eq_state (v, PyTemporal (set_tzinfo v (Some (Timezone 0))))
        = (True, v, PyTemporal (set_tzinfo v (Some (Timezone 0))))
      \<and> temporal_eq_state (set_tzinfo v (Some (Timezone 0)), PyTemporal v)
        = (True, set_tzinfo v (Some (Timezone 0)), PyTemporal v)
      \<and> t_tzinfo (set_tzinfo v (Some (Timezone 0))) = Some (Timezone 0))
   \<and> (temporal_new cls kw = Inr v \<and> k_tzinfo kw = None \<longrightarrow>
        t_tzinfo v = None
        \<and> temporal_new cls (kw\<lparr>k_tzinfo := Some (Timezone 0)\<rparr>)
            = Inr (set_tzinfo v (Some (Timezone 0))))"
proof (intro conjI impI)
  assume "t_tzinfo v = None"
  then show "temporal_eq_state (v, PyTemporal (set_tzinfo v (Some (Timezone 0))))
        = (True, v, PyTemporal (set_tzinfo v (Some (Timezone 0))))"
    and "temporal_eq_state (set_tzinfo v (Some (Timezone 0)), PyTemporal v)
        = (True, set_tzinfo v (Some (Timezone 0)), PyTemporal v)"
    by (simp_all add: temporal_eq_state_def eq_naive_utc)
  show "t_tzinfo (set_tzinfo v (Some (Timezone 0))) = Some (Timezone 0)"
    by (simp add: t_tzinfo_def set_tzinfo_def replace_tzinfo_def)
next
  assume a: "temporal_new cls kw = Inr v \<and> k_tzinfo kw = None"
  then show "t_tzinfo v = None" using new_tz(2) by blast
  from a show "temporal_new cls (kw\<lparr>k_tzinfo := Some (Timezone 0)\<rparr>)
            = Inr (set_tzinfo v (Some (Timezone 0)))"
    using new_tz(1) by blast
qed

text \<open>
  The theorem at \<open>DateTime10(2000, 1, 1, 12, 30, 0)\<close> and
  \<open>DateTime10(2000, 1, 1, 12, 30, 0, tzinfo=Timezone(0))\<close>.
\<close>

theorem C6_naive_equals_utc_witness:
  "temporal_new DateTime10
     (no_kwargs\<lparr>k_year := Some 2000, k_month := Some 1, k_day := Some 1, k_hour := Some 12,
                 k_minute := Some 30\<rparr>)
     = Inr \<lparr>t_class = DateTime10,
            priv_dt = \<lparr>dt_year = 2000, dt_month = 1, dt_day = 1, dt_hour = 12, dt_minute = 30,
                       dt_second = 0, dt_microsecond = 0, dt_tzinfo = None\<rparr>,
            priv_year = None\<rparr>
   \<and> temporal_new DateTime10
     (no_kwargs\<lparr>k_year := Some 2000, k_month := Some 1, k_day := Some 1, k_hour := Some 12,
                 k_minute := Some 30, k_tzinfo := Some (Timezone 0)\<rparr>)
     = Inr \<lparr>t_class = DateTime10,
            priv_dt = \<lparr>dt_year = 2000, dt_month = 1, dt_day = 1, dt_hour = 12, dt_minute = 30,
                       dt_second = 0, dt_microsecond = 0, dt_tzinfo = Some (Timezone 0)\<rparr>,
            priv_year = None\<rparr>
   \<and> temporal_eq_state
        (\<lparr>t_class = DateTime10,
            priv_dt = \<lparr>dt_year = 2000, dt_month = 1, dt_day = 1, dt_hour = 12, dt_minute = 30,
                       dt_second = 0, dt_microsecond = 0, dt_tzinfo = None\<rparr>,
            priv_year = None\<rparr>,
         PyTemporal \<lparr>t_class = DateTime10,
            priv_dt = \<lparr>dt_year = 2000, dt_month = 1, dt_day = 1, dt_hour = 12, dt_minute = 30,
                       dt_second = 0, dt_microsecond = 0, dt_tzinfo = Some (Timezone 0)\<rparr>,
            priv_year = None\<rparr>)
     = (True,
        \<lparr>t_class = DateTime10,
            priv_dt = \<lparr>dt_year = 2000, dt_month = 1, dt_day = 1, dt_hour = 12, dt_minute = 30,
                       dt_second = 0, dt_microsecond = 0, dt_tzinfo = None\<rparr>,
            priv_year = None\<rparr>,
        PyTemporal \<lparr>t_class = DateTime10,
            priv_dt = \<lparr>dt_year = 2000, dt_month = 1, dt_day = 1, dt_hour = 12, dt_minute = 30,
                       dt_second = 0, dt_microsecond = 0, dt_tzinfo = Some (Timezone 0)\<rparr>,
            priv_year = None\<rparr>)"
proof -
  let ?kn = "no_kwargs\<lparr>k_year := Some 2000, k_month := Some 1, k_day := Some 1,
                      k_hour := Some 12, k_minute := Some 30\<rparr>"
  let ?v = "\<lparr>t_class = DateTime10,
            priv_dt = \<lparr>dt_year = 2000, dt_month = 1, dt_day = 1, dt_hour = 12, dt_minute = 30,
                       dt_second = 0, dt_microsecond = 0, dt_tzinfo = None\<rparr>,
            priv_year = None\<rparr>"
  have new: "temporal_new DateTime10 ?kn = Inr ?v" by code_simp
  have ktz: "k_tzinfo ?kn = None" by (simp add: no_kwargs_def)
  have w: "set_tzinfo ?v (Some (Timezone 0)) =
      \<lparr>t_class = DateTime10,
            priv_dt = \<lparr>dt_year = 2000, dt_month = 1, dt_day = 1, dt_hour = 12, dt_minute = 30,
                       dt_second = 0, dt_microsecond = 0, dt_tzinfo = Some (Timezone 0)\<rparr>,
            priv_year = None\<rparr>"
    by (simp add: set_tzinfo_def replace_tzinfo_def)
  note inst = C6_naive_equals_utc [where v = ?v and cls = DateTime10 and kw = ?kn]
  from inst new ktz have naive: "t_tzinfo ?v = None"
    and new': "temporal_new DateTime10 (?kn\<lparr>k_tzinfo := Some (Timezone 0)\<rparr>)
                 = Inr (set_tzinfo ?v (Some (Timezone 0)))"
    by blast+
  from inst naive have "temporal_eq_state (?v, PyTemporal (set_tzinfo ?v (Some (Timezone 0))))
        = (True, ?v, PyTemporal (set_tzinfo ?v (Some (Timezone 0))))"
    by blast
  with new new' show ?thesis
    unfolding w by simp
qed

subsection \<open>Timezone.fromstring\<close>

lemma below_ten: "(k::nat) < 10 \<Longrightarrow> k \<in> {0, 1, 2, 3, 4, 5, 6, 7, 8, 9}"
  by auto

lemma digit_char_facts:
  assumes "k < 10"
  shows "is_digit (digit_char k)" and "digit_val (digit_char k) = k"
    and "\<not> is_space (digit_char k)" and "digit_char k \<noteq> CHR '':''"
    and "digit_char k \<noteq> CHR ''_''" and "digit_char k \<noteq> CHR ''-''"
    and "digit_char k \<noteq> CHR ''+''"
  using below_ten [OF assms]
  by (auto simp add: digit_char_def is_digit_def digit_val_def is_space_def)

lemma sign_not_space: "\<not> is_space CHR ''+''" "\<not> is_space CHR ''-''"
  by (simp_all add: is_space_def)

lemma is_digit_digit_char:
  assumes "is_digit c"
  shows "\<exists>k<10. c = digit_char k"
proof -
  from assms have "c \<in> digit_char ` {0, 1, 2, 3, 4, 5, 6, 7, 8, 9}"
    by (simp add: is_digit_def digit_char_def)
  then obtain k where k: "k \<in> {0, 1, 2, 3, 4, 5, 6, 7, 8, 9::nat}" and c: "c = digit_char k"
    by blast
  from k have "k < 10" by auto
  with c show ?thesis by blast
qed

lemma strip_two_digits:
  assumes "a < 10" and "b < 10"
  shows "py_strip [digit_char a, digit_char b] = [digit_char a, digit_char b]"
    and "py_strip [CHR ''+'', digit_char a, digit_char b] = [CHR ''+'', digit_char a, digit_char b]"
    and "py_strip [CHR ''-'', digit_char a, digit_char b] = [CHR ''-'', digit_char a, digit_char b]"
  using assms by (simp_all add: py_strip_def digit_char_facts sign_not_space)

lemma digitpart_two_digits:
  assumes "a < 10" and "b < 10"
  shows "digitpart_ok [digit_char a, digit_char b]"
    and "digitpart_val [digit_char a, digit_char b] = 10 * a + b"
  using assms
  by (simp_all add: digitpart_ok_def digitpart_val_def nat_of_digits_def digit_char_facts)

lemma int_of_two_digits:
  assumes "a < 10" and "b < 10"
  shows "py_int_of_string [digit_char a, digit_char b] = Inr (int (10 * a + b))"
    and "py_int_of_string [CHR ''+'', digit_char a, digit_char b] = Inr (int (10 * a + b))"
    and "py_int_of_string [CHR ''-'', digit_char a, digit_char b] = Inr (- int (10 * a + b))"
  unfolding py_int_of_string_def strip_two_digits [OF assms]
  using assms
  by (simp_all add: digitpart_two_digits digit_char_facts del: of_nat_add of_nat_mult)

lemma split_offset_string:
  assumes "sg = CHR ''+'' \<or> sg = CHR ''-''" and "a < 10" and "b < 10" and "c < 10" and "e < 10"
  shows "py_split CHR '':'' (py_strip [sg, digit_char a, digit_char b, CHR '':'', digit_char c, digit_char e])
           = [[sg, digit_char a, digit_char b], [digit_char c, digit_char e]]"
proof -
  have "py_strip [sg, digit_char a, digit_char b, CHR '':'', digit_char c, digit_char e]
          = [sg, digit_char a, digit_char b, CHR '':'', digit_char c, digit_char e]"
    using assms by (auto simp add: py_strip_def digit_char_facts sign_not_space)
  moreover have "py_split CHR '':'' [sg, digit_char a, digit_char b, CHR '':'', digit_char c, digit_char e]
          = [[sg, digit_char a, digit_char b], [digit_char c, digit_char e]]"
    using assms by (auto simp add: py_split_def digit_char_facts)
  ultimately show ?thesis by simp
qed

lemma fromstring_try_offset:
  assumes "a < 10" and "b < 10" and "c < 10" and "e < 10"
  shows "Timezone_fromstring_try [CHR ''+'', digit_char a, digit_char b, CHR '':'', digit_char c, digit_char e]
           = ebind (timedelta_of_us
                      ((int (10 * a + b) * 3600 + int (10 * c + e) * 60) * US_PER_SECOND))
               Timezone_init"
    and "Timezone_fromstring_try [CHR ''-'', digit_char a, digit_char b, CHR '':'', digit_char c, digit_char e]
           = ebind (timedelta_of_us
                      ((- int (10 * a + b) * 3600 + - int (10 * c + e) * 60) * US_PER_SECOND))
               Timezone_init"
proof -
  note sp = split_offset_string [OF _ assms]
  note i1 = int_of_two_digits [OF assms(1,2)]
  note i2 = int_of_two_digits [OF assms(3,4)]
  show "Timezone_fromstring_try [CHR ''+'', digit_char a, digit_char b, CHR '':'', digit_char c, digit_char e]
           = ebind (timedelta_of_us
                      ((int (10 * a + b) * 3600 + int (10 * c + e) * 60) * US_PER_SECOND))
               Timezone_init"
    unfolding Timezone_fromstring_try_def
    by (simp only: sp [of "CHR ''+''", simplified] list.case i1 i2 ebind_Inr list.sel list.distinct
        simp_thms char.inject if_False if_True, simp?)
  show "Timezone_fromstring_try [CHR ''-'', digit_char a, digit_char b, CHR '':'', digit_char c, digit_char e]
           = ebind (timedelta_of_us
                      ((- int (10 * a + b) * 3600 + - int (10 * c + e) * 60) * US_PER_SECOND))
               Timezone_init"
    unfolding Timezone_fromstring_try_def
    by (simp only: sp [of "CHR ''-''", simplified] list.case i1 i2 ebind_Inr list.sel list.distinct
        simp_thms char.inject if_False if_True, simp?)
qed

lemma fromstring_offset:
  assumes "HH \<le> 14" and "MM \<le> 59" and "HH = 14 \<longrightarrow> MM = 0"
  shows "Timezone_fromstring (CHR ''+'' # two_digits HH @ '':'' @ two_digits MM)
           = Inr (Timezone (int (HH * 60 + MM) * 60000000))"
    and "Timezone_fromstring (CHR ''-'' # two_digits HH @ '':'' @ two_digits MM)
           = Inr (Timezone (- int (HH * 60 + MM) * 60000000))"
proof -
  have d: "HH div 10 < 10" "HH mod 10 < 10" "MM div 10 < 10" "MM mod 10 < 10"
    using assms by simp_all
  have hh: "int (10 * (HH div 10) + HH mod 10) = int HH"
    and mm: "int (10 * (MM div 10) + MM mod 10) = int MM"
    by simp_all
  have bound: "int HH * 60 + int MM \<le> 840"
    using assms by (cases "HH = 14") auto
  have us: "(int HH * 3600 + int MM * 60) * US_PER_SECOND = (int HH * 60 + int MM) * 60000000"
    by (simp add: US_PER_SECOND_def algebra_simps)
  have us': "(- int HH * 3600 + - int MM * 60) * US_PER_SECOND = - ((int HH * 60 + int MM) * 60000000)"
    by (simp add: US_PER_SECOND_def algebra_simps)
  have td: "timedelta_of_us ((int HH * 60 + int MM) * 60000000) = Inr ((int HH * 60 + int MM) * 60000000)"
    using bound by (simp add: timedelta_of_us_def US_PER_DAY_def)
  have td': "timedelta_of_us (- ((int HH * 60 + int MM) * 60000000)) = Inr (- ((int HH * 60 + int MM) * 60000000))"
    using bound by (simp add: timedelta_of_us_def US_PER_DAY_def)
  have tz: "Timezone_init ((int HH * 60 + int MM) * 60000000) = Inr (Timezone ((int HH * 60 + int MM) * 60000000))"
    using bound by (simp add: Timezone_init_def minoffset_def maxoffset_def US_PER_SECOND_def)
  have tz': "Timezone_init (- ((int HH * 60 + int MM) * 60000000)) = Inr (Timezone (- ((int HH * 60 + int MM) * 60000000)))"
    using bound by (simp add: Timezone_init_def minoffset_def maxoffset_def US_PER_SECOND_def)
  have p: "CHR ''+'' # two_digits HH @ '':'' @ two_digits MM =
       [CHR ''+'', digit_char (HH div 10), digit_char (HH mod 10), CHR '':'',
        digit_char (MM div 10), digit_char (MM mod 10)]"
    and m: "CHR ''-'' # two_digits HH @ '':'' @ two_digits MM =
       [CHR ''-'', digit_char (HH div 10), digit_char (HH mod 10), CHR '':'',
        digit_char (MM div 10), digit_char (MM mod 10)]"
    by (simp_all add: two_digits_def)
  have tp: "Timezone_fromstring_try (CHR ''+'' # two_digits HH @ '':'' @ two_digits MM)
         = Inr (Timezone ((int HH * 60 + int MM) * 60000000))"
    unfolding p fromstring_try_offset(1) [OF d] hh mm us td by (simp only: ebind_Inr tz)
  have tm: "Timezone_fromstring_try (CHR ''-'' # two_digits HH @ '':'' @ two_digits MM)
         = Inr (Timezone (- ((int HH * 60 + int MM) * 60000000)))"
    unfolding m fromstring_try_offset(2) [OF d] hh mm us' td' by (simp only: ebind_Inr tz')
  show "Timezone_fromstring (CHR ''+'' # two_digits HH @ '':'' @ two_digits MM)
           = Inr (Timezone (int (HH * 60 + MM) * 60000000))"
    unfolding Timezone_fromstring_def tp by simp
  show "Timezone_fromstring (CHR ''-'' # two_digits HH @ '':'' @ two_digits MM)
           = Inr (Timezone (- int (HH * 60 + MM) * 60000000))"
    unfolding Timezone_fromstring_def tm by simp
qed

lemma fromstring_range:
  assumes "Timezone_fromstring s = Inr tz"
  shows "minoffset \<le> offset tz \<and> offset tz \<le> maxoffset"
proof -
  have init: "Timezone_init off = Inr tz \<Longrightarrow> minoffset \<le> offset tz \<and> offset tz \<le> maxoffset" for off
    by (auto simp add: Timezone_init_def split: if_splits)
  have tr: "Timezone_fromstring_try s = Inr tz \<Longrightarrow> \<exists>off. Timezone_init off = Inr tz"
    unfolding Timezone_fromstring_try_def
    by (auto simp add: ebind_Inr_iff split: list.splits)
  show ?thesis
  proof (cases "Timezone_fromstring_try s")
    case (Inr z)
    with assms have "z = tz" by (simp add: Timezone_fromstring_def)
    with Inr tr init show ?thesis by blast
  next
    case (Inl e)
    with assms have "Timezone_init 0 = Inr tz"
      by (cases e) (simp_all add: Timezone_fromstring_def split: if_splits)
    with init show ?thesis by blast
  qed
qed


lemma in_digit_chars:
  assumes "c \<in> set (map digit_char ks)"
  obtains k where "k \<in> set ks" and "c = digit_char k"
  using assms unfolding set_map by blast

lemma tz_lexical_form:
  assumes "tz_lexical s" and "s \<noteq> ''Z''"
  shows "\<exists>sg HH MM. (sg = CHR ''+'' \<or> sg = CHR ''-'') \<and> HH \<le> 14 \<and> MM \<le> 59 \<and> (HH = 14 \<longrightarrow> MM = 0)
           \<and> s = sg # two_digits HH @ '':'' @ two_digits MM"
proof -
  from assms obtain sg h1 h2 m1 m2 where s: "s = [sg, h1, h2, CHR '':'', m1, m2]"
    and sg: "sg = CHR ''+'' \<or> sg = CHR ''-''"
    and body: "((h1 = CHR ''0'' \<and> is_digit h2 \<or> h1 = CHR ''1'' \<and> h2 \<in> set ''0123'') \<and>
                 m1 \<in> set ''012345'' \<and> is_digit m2)
               \<or> [h1, h2, CHR '':'', m1, m2] = ''14:00''"
    unfolding tz_lexical_def
    by (auto split: list.splits)
  from body show ?thesis
  proof
    assume "[h1, h2, CHR '':'', m1, m2] = ''14:00''"
    then have "s = sg # two_digits 14 @ '':'' @ two_digits 0"
      using s by (simp add: two_digits_def digit_char_def)
    with sg show ?thesis by (intro exI [of _ sg] exI [of _ 14] exI [of _ 0]) simp
  next
    assume b: "(h1 = CHR ''0'' \<and> is_digit h2 \<or> h1 = CHR ''1'' \<and> h2 \<in> set ''0123'') \<and>
                 m1 \<in> set ''012345'' \<and> is_digit m2"
    then obtain k where k: "k < 10" "m2 = digit_char k"
      using is_digit_digit_char by blast
    from b have "m1 \<in> set (map digit_char [0, 1, 2, 3, 4, 5])"
      by (simp add: digit_char_def)
    then obtain j where j0: "j \<in> set [0, 1, 2, 3, 4, 5::nat]" and j1: "m1 = digit_char j"
      by (rule in_digit_chars)
    from j0 have "j < 6" by auto
    with j1 have j: "j < 6" "m1 = digit_char j" by simp_all
    from b obtain H where H: "H \<le> 13" "[h1, h2] = two_digits H"
    proof -
      from b have "h1 = CHR ''0'' \<and> is_digit h2 \<or> h1 = CHR ''1'' \<and> h2 \<in> set ''0123''" by simp
      then show ?thesis
      proof
        assume a: "h1 = CHR ''0'' \<and> is_digit h2"
        then obtain i where "i < 10" "h2 = digit_char i" using is_digit_digit_char by blast
        with a have "[h1, h2] = two_digits i" by (simp add: two_digits_def digit_char_def)
        with \<open>i < 10\<close> show ?thesis using that [of i] by simp
      next
        assume a: "h1 = CHR ''1'' \<and> h2 \<in> set ''0123''"
        then have "h2 \<in> set (map digit_char [0, 1, 2, 3])" by (simp add: digit_char_def)
        then obtain i where i0: "i \<in> set [0, 1, 2, 3::nat]" and i1: "h2 = digit_char i"
          by (rule in_digit_chars)
        from i0 have "i < 4" by auto
        note \<open>i < 4\<close> and \<open>h2 = digit_char i\<close>
        with a have "[h1, h2] = two_digits (10 + i)"
          by (simp add: two_digits_def) (simp add: digit_char_def)
        with \<open>i < 4\<close> show ?thesis using that [of "10 + i"] by simp
      qed
    qed
    have M: "[m1, m2] = two_digits (10 * j + k)"
      using j k by (simp add: two_digits_def)
    have "s = sg # two_digits H @ '':'' @ two_digits (10 * j + k)"
      using s H(2) M by simp
    moreover have "10 * j + k \<le> 59" using j k by simp
    ultimately show ?thesis
      using sg H(1) by (intro exI [of _ sg] exI [of _ H] exI [of _ "10 * j + k"]) simp
  qed
qed

lemma py_int_of_string_error: "py_int_of_string x = Inl e \<Longrightarrow> e = ValueError"
  by (auto simp add: py_int_of_string_def split: prod.splits if_splits)

lemma split_Z: "py_split CHR '':'' ''Z'' = [''Z'']"
  by (simp add: py_split_def)

lemma fromstring_not_two_parts:
  assumes "py_strip s \<noteq> ''Z''" and "length (py_split CHR '':'' (py_strip s)) \<noteq> 2"
  shows "Timezone_fromstring s = Inl ValueError"
proof -
  have "Timezone_fromstring_try s = Inl ValueError"
    using assms(2) unfolding Timezone_fromstring_try_def
    by (auto split: list.splits)
  then show ?thesis using assms(1) by (simp add: Timezone_fromstring_def)
qed

lemma fromstring_handler:
  assumes "py_split CHR '':'' (py_strip s) = [hs, ms]" and "Timezone_fromstring_try s = Inl ValueError"
  shows "Timezone_fromstring s = Inl ValueError"
proof -
  have "py_strip s \<noteq> ''Z''" using assms(1) split_Z by auto
  then show ?thesis using assms(2) by (simp add: Timezone_fromstring_def)
qed

lemma fromstring_not_ints:
  assumes "py_split CHR '':'' (py_strip s) = [hs, ms]"
    and "py_int_of_string hs = Inl e \<or> py_int_of_string ms = Inl e"
  shows "Timezone_fromstring s = Inl ValueError"
proof -
  have "Timezone_fromstring_try s = Inl ValueError"
  proof (cases "py_int_of_string hs")
    case (Inl e1)
    then show ?thesis
      using py_int_of_string_error [OF Inl] by (simp add: Timezone_fromstring_try_def assms(1))
  next
    case (Inr h)
    with assms(2) have m: "py_int_of_string ms = Inl e" by simp
    from py_int_of_string_error [OF m] m Inr show ?thesis
      by (simp add: Timezone_fromstring_try_def assms(1))
  qed
  with assms(1) show ?thesis by (rule fromstring_handler)
qed

lemma fromstring_try_ints:
  assumes "py_split CHR '':'' (py_strip s) = [hs, ms]"
    and "py_int_of_string hs = Inr h" and "py_int_of_string ms = Inr m"
  shows "Timezone_fromstring_try s =
           ebind (timedelta_of_us
                    ((h * 3600 + (if hs \<noteq> [] \<and> hd hs = CHR ''-'' then - m else m) * 60) * 1000000))
             Timezone_init"
  by (simp add: Timezone_fromstring_try_def assms US_PER_SECOND_def)

lemma fromstring_ints:
  assumes "py_split CHR '':'' (py_strip s) = [hs, ms]"
    and "py_int_of_string hs = Inr h" and "py_int_of_string ms = Inr m"
    and "off = (h * 3600 + (if hs \<noteq> [] \<and> hd hs = CHR ''-'' then - m else m) * 60) * 1000000"
  shows "Timezone_fromstring s =
           (if \<bar>off div 86400000000\<bar> > 999999999 then Inl OverflowError
            else if off < - 50400000000 \<or> 50400000000 < off then Inl ValueError
            else Inr (Timezone off))"
proof -
  note tr = fromstring_try_ints [OF assms(1-3), folded assms(4)]
  have z: "py_strip s \<noteq> ''Z''" using assms(1) split_Z by auto
  show ?thesis
    unfolding Timezone_fromstring_def tr using z
    by (simp add: timedelta_of_us_def Timezone_init_def US_PER_DAY_def minoffset_def maxoffset_def
        US_PER_SECOND_def)
qed

lemma fromstring_two_digits_out:
  assumes "HH \<le> 99" and "MM \<le> 99" and "840 < HH * 60 + MM"
  shows "Timezone_fromstring (CHR ''+'' # two_digits HH @ '':'' @ two_digits MM) = Inl ValueError"
    and "Timezone_fromstring (CHR ''-'' # two_digits HH @ '':'' @ two_digits MM) = Inl ValueError"
proof -
  have d: "HH div 10 < 10" "HH mod 10 < 10" "MM div 10 < 10" "MM mod 10 < 10"
    using assms by simp_all
  have hh: "int (10 * (HH div 10) + HH mod 10) = int HH"
    and mm: "int (10 * (MM div 10) + MM mod 10) = int MM"
    by simp_all
  have p: "CHR ''+'' # two_digits HH @ '':'' @ two_digits MM =
       [CHR ''+'', digit_char (HH div 10), digit_char (HH mod 10), CHR '':'',
        digit_char (MM div 10), digit_char (MM mod 10)]"
    and m: "CHR ''-'' # two_digits HH @ '':'' @ two_digits MM =
       [CHR ''-'', digit_char (HH div 10), digit_char (HH mod 10), CHR '':'',
        digit_char (MM div 10), digit_char (MM mod 10)]"
    by (simp_all add: two_digits_def)
  note sp = split_offset_string [OF _ d]
  note ip = int_of_two_digits(2) [OF d(1,2)] and im = int_of_two_digits(3) [OF d(1,2)]
    and i2 = int_of_two_digits(1) [OF d(3,4)]
  have b: "840 < int HH * 60 + int MM" "int HH \<le> 99" "int MM \<le> 99" using assms by linarith+
  show "Timezone_fromstring (CHR ''+'' # two_digits HH @ '':'' @ two_digits MM) = Inl ValueError"
    unfolding p
    using fromstring_ints [OF sp [of "CHR ''+''"] ip i2 refl] b
    by (simp del: of_nat_add of_nat_mult add: hh mm)
  show "Timezone_fromstring (CHR ''-'' # two_digits HH @ '':'' @ two_digits MM) = Inl ValueError"
    unfolding m
    using fromstring_ints [OF sp [of "CHR ''-''"] im i2 refl] b
    by (simp del: of_nat_add of_nat_mult add: hh mm)
qed

lemma fromstring_stripped_Z:
  assumes "py_strip s = ''Z''"
  shows "Timezone_fromstring s = Inr (Timezone 0)"
proof -
  have "Timezone_fromstring_try s = Inl ValueError"
    by (simp add: Timezone_fromstring_try_def assms split_Z)
  then show ?thesis
    by (simp add: Timezone_fromstring_def assms Timezone_init_def minoffset_def maxoffset_def
        US_PER_SECOND_def)
qed

text \<open>
  Claim C5, as the code has it.  \<open>tz_lexical\<close> is the timezone part of the patterns of
  the date and time classes, which is the lexical form of the claim: \<open>Z\<close>, or a sign
  followed by \<open>HH:MM\<close> with \<open>HH\<close> in 00..14, \<open>MM\<close> in 00..59 and \<open>HH = 14\<close> only with
  \<open>MM = 00\<close>.  \<open>Timezone.fromstring\<close> accepts every string of that form and returns the
  offset it denotes, and every offset it returns lies between \<open>-14:00\<close> and \<open>+14:00\<close>.
  It does not check the form itself, and it rejects the other strings as follows.  A sign
  followed by two digits, a colon and two digits that denote more than 840 minutes raises
  \<open>ValueError\<close>.  In general the stripped string is \<open>Z\<close>, or it is not split by colons
  into exactly two parts (\<open>ValueError\<close>), or one of the two parts is not read by \<open>int()\<close>
  (\<open>ValueError\<close>), or both are read: then the string is accepted exactly when the offset
  they denote lies between \<open>-14:00\<close> and \<open>+14:00\<close>, and raises \<open>ValueError\<close> otherwise
  (\<open>OverflowError\<close>, which the handler does not catch, when the offset is no \<open>timedelta\<close>).
\<close>

theorem C5_timezone_fromstring:
  "(HH \<le> 14 \<and> MM \<le> 59 \<and> (HH = 14 \<longrightarrow> MM = 0) \<longrightarrow>
      Timezone_fromstring (CHR ''+'' # two_digits HH @ '':'' @ two_digits MM)
        = Inr (Timezone (int (HH * 60 + MM) * 60000000))
      \<and> Timezone_fromstring (CHR ''-'' # two_digits HH @ '':'' @ two_digits MM)
        = Inr (Timezone (- int (HH * 60 + MM) * 60000000)))
   \<and> Timezone_fromstring ''Z'' = Inr (Timezone 0)
   \<and> (tz_lexical s \<longrightarrow> (\<exists>tz. Timezone_fromstring s = Inr tz))
   \<and> (Timezone_fromstring s = Inr tz \<longrightarrow> minoffset \<le> offset tz \<and> offset tz \<le> maxoffset)
   \<and> (HH \<le> 99 \<and> MM \<le> 99 \<and> 840 < HH * 60 + MM \<longrightarrow>
      Timezone_fromstring (CHR ''+'' # two_digits HH @ '':'' @ two_digits MM) = Inl ValueError
      \<and> Timezone_fromstring (CHR ''-'' # two_digits HH @ '':'' @ two_digits MM) = Inl ValueError)
   \<and> (py_strip s = ''Z'' \<longrightarrow> Timezone_fromstring s = Inr (Timezone 0))
   \<and> (py_strip s \<noteq> ''Z'' \<and> length (py_split CHR '':'' (py_strip s)) \<noteq> 2 \<longrightarrow>
      Timezone_fromstring s = Inl ValueError)
   \<and> (py_split CHR '':'' (py_strip s) = [hs, ms] \<and>
      (py_int_of_string hs = Inl e \<or> py_int_of_string ms = Inl e) \<longrightarrow>
      Timezone_fromstring s = Inl ValueError)
   \<and> (py_split CHR '':'' (py_strip s) = [hs, ms] \<and>
      py_int_of_string hs = Inr h \<and> py_int_of_string ms = Inr m \<and>
      off = (h * 3600 + (if hs \<noteq> [] \<and> hd hs = CHR ''-'' then - m else m) * 60) * 1000000 \<longrightarrow>
      Timezone_fromstring s =
        (if \<bar>off div 86400000000\<bar> > 999999999 then Inl OverflowError
         else if off < - 50400000000 \<or> 50400000000 < off then Inl ValueError
         else Inr (Timezone off)))"
proof (intro conjI)
  show "HH \<le> 14 \<and> MM \<le> 59 \<and> (HH = 14 \<longrightarrow> MM = 0) \<longrightarrow>
      Timezone_fromstring (CHR ''+'' # two_digits HH @ '':'' @ two_digits MM)
        = Inr (Timezone (int (HH * 60 + MM) * 60000000))
      \<and> Timezone_fromstring (CHR ''-'' # two_digits HH @ '':'' @ two_digits MM)
        = Inr (Timezone (- int (HH * 60 + MM) * 60000000))"
    using fromstring_offset by blast
  show z: "Timezone_fromstring ''Z'' = Inr (Timezone 0)"
    by code_simp
  show "tz_lexical s \<longrightarrow> (\<exists>tz. Timezone_fromstring s = Inr tz)"
  proof
    assume l: "tz_lexical s"
    show "\<exists>tz. Timezone_fromstring s = Inr tz"
    proof (cases "s = ''Z''")
      case True
      with z show ?thesis by blast
    next
      case False
      from tz_lexical_form [OF l False] fromstring_offset show ?thesis by blast
    qed
  qed
  show "Timezone_fromstring s = Inr tz \<longrightarrow> minoffset \<le> offset tz \<and> offset tz \<le> maxoffset"
    using fromstring_range by blast
  show "HH \<le> 99 \<and> MM \<le> 99 \<and> 840 < HH * 60 + MM \<longrightarrow>
      Timezone_fromstring (CHR ''+'' # two_digits HH @ '':'' @ two_digits MM) = Inl ValueError
      \<and> Timezone_fromstring (CHR ''-'' # two_digits HH @ '':'' @ two_digits MM) = Inl ValueError"
    using fromstring_two_digits_out by blast
  show "py_strip s = ''Z'' \<longrightarrow> Timezone_fromstring s = Inr (Timezone 0)"
    using fromstring_stripped_Z by blast
  show "py_strip s \<noteq> ''Z'' \<and> length (py_split CHR '':'' (py_strip s)) \<noteq> 2 \<longrightarrow>
      Timezone_fromstring s = Inl ValueError"
    using fromstring_not_two_parts by blast
  show "py_split CHR '':'' (py_strip s) = [hs, ms] \<and>
      (py_int_of_string hs = Inl e \<or> py_int_of_string ms = Inl e) \<longrightarrow>
      Timezone_fromstring s = Inl ValueError"
    using fromstring_not_ints [of s hs ms e] by blast
  show "py_split CHR '':'' (py_strip s) = [hs, ms] \<and>
      py_int_of_string hs = Inr h \<and> py_int_of_string ms = Inr m \<and>
      off = (h * 3600 + (if hs \<noteq> [] \<and> hd hs = CHR ''-'' then - m else m) * 60) * 1000000 \<longrightarrow>
      Timezone_fromstring s =
        (if \<bar>off div 86400000000\<bar> > 999999999 then Inl OverflowError
         else if off < - 50400000000 \<or> 50400000000 < off then Inl ValueError
         else Inr (Timezone off))"
    using fromstring_ints [of s hs ms h m off] by blast
qed

text \<open>
  The theorem at \<open>+05:30\<close> and \<open>-14:00\<close>, which are accepted, at \<open>+14:01\<close> (841
  minutes), \<open>garbage\<close> (one part), \<open>+10:00:00\<close> (three parts), \<open>+10:xx\<close> (minutes that
  \<open>int()\<close> does not read) and \<open>+15:00\<close> (two integers, 900 minutes), which raise
  \<open>ValueError\<close>, and at \<open>Z\<close> between spaces.
\<close>

theorem C5_timezone_fromstring_witness:
  "Timezone_fromstring ''+05:30'' = Inr (Timezone 19800000000)
   \<and> Timezone_fromstring ''-14:00'' = Inr (Timezone (- 50400000000))
   \<and> tz_lexical ''-14:00''
   \<and> minoffset \<le> offset (Timezone (- 50400000000))
   \<and> offset (Timezone (- 50400000000)) \<le> maxoffset
   \<and> Timezone_fromstring ''+14:01'' = Inl ValueError
   \<and> Timezone_fromstring ''-14:01'' = Inl ValueError
   \<and> Timezone_fromstring '' Z '' = Inr (Timezone 0)
   \<and> Timezone_fromstring ''garbage'' = Inl ValueError
   \<and> Timezone_fromstring ''+10:00:00'' = Inl ValueError
   \<and> Timezone_fromstring ''+10:xx'' = Inl ValueError
   \<and> Timezone_fromstring ''+15:00'' = Inl ValueError"
proof -
  have a: "CHR ''+'' # two_digits 5 @ '':'' @ two_digits 30 = ''+05:30''"
    by (simp add: two_digits_def digit_char_def)
  have b: "CHR ''-'' # two_digits 14 @ '':'' @ two_digits 0 = ''-14:00''"
    by (simp add: two_digits_def digit_char_def)
  have c: "CHR ''+'' # two_digits 14 @ '':'' @ two_digits 1 = ''+14:01''"
    "CHR ''-'' # two_digits 14 @ '':'' @ two_digits 1 = ''-14:01''"
    by (simp_all add: two_digits_def digit_char_def)
  have l: "tz_lexical ''-14:00''" by (simp add: tz_lexical_def)
  from C5_timezone_fromstring [where HH = 5 and MM = 30]
  have 1: "Timezone_fromstring ''+05:30'' = Inr (Timezone 19800000000)"
    unfolding a by simp
  from C5_timezone_fromstring [where HH = 14 and MM = 0 and s = "''-14:00''"
      and tz = "Timezone (- 50400000000)"]
  have 2: "Timezone_fromstring ''-14:00'' = Inr (Timezone (- 50400000000))"
    and 3: "Timezone_fromstring ''-14:00'' = Inr (Timezone (- 50400000000)) \<longrightarrow>
            minoffset \<le> offset (Timezone (- 50400000000)) \<and>
            offset (Timezone (- 50400000000)) \<le> maxoffset"
    unfolding b by simp_all
  from C5_timezone_fromstring [where HH = 14 and MM = 1]
  have 4: "Timezone_fromstring ''+14:01'' = Inl ValueError"
    and 5: "Timezone_fromstring ''-14:01'' = Inl ValueError"
    unfolding c by simp_all
  have z: "py_strip '' Z '' = ''Z''" by code_simp
  from C5_timezone_fromstring [where s = "'' Z ''"] z
  have 6: "Timezone_fromstring '' Z '' = Inr (Timezone 0)" by blast
  have g: "py_strip ''garbage'' \<noteq> ''Z'' \<and> length (py_split CHR '':'' (py_strip ''garbage'')) \<noteq> 2"
    by code_simp
  from C5_timezone_fromstring [where s = "''garbage''"] g
  have 7: "Timezone_fromstring ''garbage'' = Inl ValueError" by blast
  have t: "py_strip ''+10:00:00'' \<noteq> ''Z'' \<and> length (py_split CHR '':'' (py_strip ''+10:00:00'')) \<noteq> 2"
    by code_simp
  from C5_timezone_fromstring [where s = "''+10:00:00''"] t
  have 8: "Timezone_fromstring ''+10:00:00'' = Inl ValueError" by blast
  have x: "py_split CHR '':'' (py_strip ''+10:xx'') = [''+10'', ''xx'']"
    "py_int_of_string ''xx'' = Inl ValueError"
    by code_simp+
  from C5_timezone_fromstring [where s = "''+10:xx''" and hs = "''+10''" and ms = "''xx''"
      and e = ValueError] x
  have 9: "Timezone_fromstring ''+10:xx'' = Inl ValueError" by blast
  have f: "py_split CHR '':'' (py_strip ''+15:00'') = [''+15'', ''00'']"
    "py_int_of_string ''+15'' = Inr 15" "py_int_of_string ''00'' = Inr 0"
    by code_simp+
  have o: "(54000000000::int) =
      (15 * 3600 + (if ''+15'' \<noteq> [] \<and> hd ''+15'' = CHR ''-'' then - 0 else 0) * 60) * 1000000"
    by simp
  from C5_timezone_fromstring [where s = "''+15:00''" and hs = "''+15''" and ms = "''00''"
      and h = 15 and m = 0 and off = 54000000000] f o
  have "Timezone_fromstring ''+15:00'' =
        (if \<bar>(54000000000::int) div 86400000000\<bar> > 999999999 then Inl OverflowError
         else if (54000000000::int) < - 50400000000 \<or> (50400000000::int) < 54000000000
         then Inl ValueError
         else Inr (Timezone 54000000000))"
    by blast
  then have 10: "Timezone_fromstring ''+15:00'' = Inl ValueError" by simp
  from 1 2 3 l 4 5 6 7 8 9 10 show ?thesis by blast
qed

text \<open>
  Claim C5 as stated fails: \<open>+05:75\<close> has its minutes outside 00..59 and \<open>05:00\<close> has no
  sign; neither has the lexical form, and both are accepted, the first as \<open>+06:15\<close>.
\<close>

theorem C5_lenient_parse_counterexample:
  "\<not> tz_lexical ''+05:75''
   \<and> Timezone_fromstring ''+05:75'' = Inr (Timezone 22500000000)
   \<and> \<not> tz_lexical ''05:00''
   \<and> Timezone_fromstring ''05:00'' = Inr (Timezone 18000000000)"
  by code_simp

subsection \<open>Durations: the signs of the fields\<close>

lemma Duration_init_same_sign:
  "Duration_init c m s = Inr d \<Longrightarrow> same_sign d"
  by (auto simp: Duration_init_def same_sign_def split: if_splits)

lemma YearMonthDuration_init_same_sign:
  "YearMonthDuration_init m = Inr d \<Longrightarrow> same_sign d"
  unfolding YearMonthDuration_init_def by (rule Duration_init_same_sign)

lemma DayTimeDuration_init_same_sign:
  "DayTimeDuration_init s = Inr d \<Longrightarrow> same_sign d"
  unfolding DayTimeDuration_init_def by (rule Duration_init_same_sign)

lemma Duration_fromstring_same_sign:
  "Duration_fromstring c lexical = Inr d \<Longrightarrow> same_sign d"
  unfolding Duration_fromstring_def Let_def
  by (auto split: option.splits if_splits
      dest: Duration_init_same_sign YearMonthDuration_init_same_sign DayTimeDuration_init_same_sign)

lemma date_operator_duration:
  "date_operator self op (PyDuration x) = Inr v \<Longrightarrow> \<exists>t. v = PyTemporal t"
  unfolding date_operator_def Let_def
  by (auto simp: ebind_Inr_iff split: if_splits)

lemma date_operator_timedelta:
  "date_operator self op (PyTimedelta x) = Inr v \<Longrightarrow> \<exists>t. v = PyTemporal t"
  unfolding date_operator_def Let_def
  by (auto simp: ebind_Inr_iff split: if_splits)

lemma date_operator_same_sign:
  "date_operator self op other = Inr (PyDuration d) \<Longrightarrow> same_sign d"
proof (cases other)
  case (PyTemporal o2)
  assume a: "date_operator self op other = Inr (PyDuration d)"
  from a [unfolded date_operator_def PyTemporal]
  show ?thesis
    by (auto simp: ebind_Inr_iff split: if_splits prod.splits dest: DayTimeDuration_init_same_sign
         simp: DayTimeDuration_fromtimedelta_def Let_def)
next
  case (PyDuration x)
  assume a: "date_operator self op other = Inr (PyDuration d)"
  with date_operator_duration [of self op x "PyDuration d"] PyDuration show ?thesis by auto
next
  case (PyTimedelta x)
  assume a: "date_operator self op other = Inr (PyDuration d)"
  with date_operator_timedelta [of self op x "PyDuration d"] PyTimedelta show ?thesis by auto
qed (simp_all add: date_operator_def)

lemma YearMonthDuration_add_same_sign:
  "YearMonthDuration_add self other = Inr (PyDuration d) \<Longrightarrow> same_sign d"
  unfolding YearMonthDuration_add_def OrderedDateTime_add_def
  by (auto simp: ebind_Inr_iff split: pyvalue.splits if_splits
       dest: YearMonthDuration_init_same_sign date_operator_same_sign)

lemma YearMonthDuration_sub_same_sign:
  "YearMonthDuration_sub self other = Inr (PyDuration d) \<Longrightarrow> same_sign d"
  unfolding YearMonthDuration_sub_def
  by (auto simp: ebind_Inr_iff split: pyvalue.splits if_splits
       dest: YearMonthDuration_init_same_sign)

lemma YearMonthDuration_mul_same_sign:
  "YearMonthDuration_mul self other = Inr (PyDuration d) \<Longrightarrow> same_sign d"
  unfolding YearMonthDuration_mul_def
  by (auto simp: ebind_Inr_iff dest: YearMonthDuration_init_same_sign)

lemma YearMonthDuration_truediv_same_sign:
  "YearMonthDuration_truediv self other = Inr (PyDuration d) \<Longrightarrow> same_sign d"
  unfolding YearMonthDuration_truediv_def
  by (auto simp: ebind_Inr_iff split: pyvalue.splits if_splits
       dest: YearMonthDuration_init_same_sign)

lemma DayTimeDuration_add_same_sign:
  "DayTimeDuration_add self other = Inr (PyDuration d) \<Longrightarrow> same_sign d"
  unfolding DayTimeDuration_add_def
  by (auto simp: ebind_Inr_iff split: pyvalue.splits if_splits
       dest: DayTimeDuration_init_same_sign)

lemma DayTimeDuration_sub_same_sign:
  "DayTimeDuration_sub self other = Inr (PyDuration d) \<Longrightarrow> same_sign d"
  unfolding DayTimeDuration_sub_def
  by (auto simp: ebind_Inr_iff split: pyvalue.splits if_splits
       dest: DayTimeDuration_init_same_sign)

lemma DayTimeDuration_mul_same_sign:
  "DayTimeDuration_mul self other = Inr (PyDuration d) \<Longrightarrow> same_sign d"
  unfolding DayTimeDuration_mul_def
  by (auto simp: ebind_Inr_iff dest: DayTimeDuration_init_same_sign)

lemma DayTimeDuration_truediv_same_sign:
  "DayTimeDuration_truediv self other = Inr (PyDuration d) \<Longrightarrow> same_sign d"
  unfolding DayTimeDuration_truediv_def
  by (auto simp: ebind_Inr_iff split: pyvalue.splits if_splits
       dest: DayTimeDuration_init_same_sign)

text \<open>
  Claim C8.  Every duration that a public operation returns has fields that do not have
  strictly opposite signs: the three constructors, \<open>fromstring\<close> of each class, the
  addition, subtraction, multiplication and division of \<open>YearMonthDuration\<close> and of
  \<open>DayTimeDuration\<close>, \<open>DayTimeDuration.fromtimedelta\<close> and the difference of two dates.
  All of them build their result with \<open>Duration.__init__\<close>, which refuses the other
  values.  The operands are arbitrary, also outside the invariant.
\<close>

theorem C8_duration_sign_invariant:
  "(Duration_init c m s = Inr d \<longrightarrow> same_sign d)
   \<and> (YearMonthDuration_init m = Inr d \<longrightarrow> same_sign d)
   \<and> (DayTimeDuration_init s = Inr d \<longrightarrow> same_sign d)
   \<and> (Duration_fromstring c lexical = Inr d \<longrightarrow> same_sign d)
   \<and> (YearMonthDuration_add self other = Inr (PyDuration d) \<longrightarrow> same_sign d)
   \<and> (YearMonthDuration_sub self other = Inr (PyDuration d) \<longrightarrow> same_sign d)
   \<and> (YearMonthDuration_mul self other = Inr (PyDuration d) \<longrightarrow> same_sign d)
   \<and> (YearMonthDuration_truediv self other = Inr (PyDuration d) \<longrightarrow> same_sign d)
   \<and> (DayTimeDuration_add self other = Inr (PyDuration d) \<longrightarrow> same_sign d)
   \<and> (DayTimeDuration_sub self other = Inr (PyDuration d) \<longrightarrow> same_sign d)
   \<and> (DayTimeDuration_mul self other = Inr (PyDuration d) \<longrightarrow> same_sign d)
   \<and> (DayTimeDuration_truediv self other = Inr (PyDuration d) \<longrightarrow> same_sign d)
   \<and> (DayTimeDuration_fromtimedelta td = Inr d \<longrightarrow> same_sign d)
   \<and> (OrderedDateTime_sub t other = Inr (PyDuration d) \<longrightarrow> same_sign d)"
proof (intro conjI impI)
  assume "DayTimeDuration_fromtimedelta td = Inr d"
  then show "same_sign d"
    unfolding DayTimeDuration_fromtimedelta_def Let_def by (rule DayTimeDuration_init_same_sign)
next
  assume "OrderedDateTime_sub t other = Inr (PyDuration d)"
  then show "same_sign d"
    unfolding OrderedDateTime_sub_def by (rule date_operator_same_sign)
qed (erule Duration_init_same_sign YearMonthDuration_init_same_sign
      DayTimeDuration_init_same_sign Duration_fromstring_same_sign
      YearMonthDuration_add_same_sign YearMonthDuration_sub_same_sign
      YearMonthDuration_mul_same_sign YearMonthDuration_truediv_same_sign
      DayTimeDuration_add_same_sign DayTimeDuration_sub_same_sign
      DayTimeDuration_mul_same_sign DayTimeDuration_truediv_same_sign)+

text \<open>
  The theorem at \<open>Duration(14, 93600)\<close>, \<open>Duration.fromstring('-P1Y2M3DT4H5M6.5S')\<close>,
  \<open>YearMonthDuration(5) - YearMonthDuration(7)\<close>, \<open>YearMonthDuration(7) / 2\<close>,
  \<open>DayTimeDuration(1.5) + DayTimeDuration(-3)\<close>, \<open>DayTimeDuration(1.5) * 3\<close>,
  \<open>fromtimedelta\<close> of minus one microsecond and \<open>Date10(2000, 1, 1) - Date10(1999, 12, 31)\<close>;
  \<open>Duration(1, -1)\<close>, whose signs differ, is refused.
\<close>

theorem C8_duration_sign_invariant_witness:
  "Duration_init Duration 14 93600 = Inr \<lparr>dur_class = Duration, months = 14, seconds = 93600\<rparr>
   \<and> same_sign \<lparr>dur_class = Duration, months = 14, seconds = 93600\<rparr>
   \<and> Duration_fromstring Duration ''-P1Y2M3DT4H5M6.5S''
       = Inr \<lparr>dur_class = Duration, months = - 14, seconds = - (547813 / 2)\<rparr>
   \<and> same_sign \<lparr>dur_class = Duration, months = - 14, seconds = - (547813 / 2)\<rparr>
   \<and> YearMonthDuration_sub \<lparr>dur_class = YearMonthDuration, months = 5, seconds = 0\<rparr>
         (PyDuration \<lparr>dur_class = YearMonthDuration, months = 7, seconds = 0\<rparr>)
       = Inr (PyDuration \<lparr>dur_class = YearMonthDuration, months = - 2, seconds = 0\<rparr>)
   \<and> same_sign \<lparr>dur_class = YearMonthDuration, months = - 2, seconds = 0\<rparr>
   \<and> YearMonthDuration_truediv \<lparr>dur_class = YearMonthDuration, months = 7, seconds = 0\<rparr> (PyInt 2)
       = Inr (PyDuration \<lparr>dur_class = YearMonthDuration, months = 4, seconds = 0\<rparr>)
   \<and> same_sign \<lparr>dur_class = YearMonthDuration, months = 4, seconds = 0\<rparr>
   \<and> DayTimeDuration_add \<lparr>dur_class = DayTimeDuration, months = 0, seconds = 3 / 2\<rparr>
         (PyDuration \<lparr>dur_class = DayTimeDuration, months = 0, seconds = - 3\<rparr>)
       = Inr (PyDuration \<lparr>dur_class = DayTimeDuration, months = 0, seconds = - (3 / 2)\<rparr>)
   \<and> same_sign \<lparr>dur_class = DayTimeDuration, months = 0, seconds = - (3 / 2)\<rparr>
   \<and> DayTimeDuration_mul \<lparr>dur_class = DayTimeDuration, months = 0, seconds = 3 / 2\<rparr> (PyInt 3)
       = Inr (PyDuration \<lparr>dur_class = DayTimeDuration, months = 0, seconds = 5\<rparr>)
   \<and> same_sign \<lparr>dur_class = DayTimeDuration, months = 0, seconds = 5\<rparr>
   \<and> DayTimeDuration_fromtimedelta (- 1)
       = Inr \<lparr>dur_class = DayTimeDuration, months = 0, seconds = - (1999999 / 1000000)\<rparr>
   \<and> same_sign \<lparr>dur_class = DayTimeDuration, months = 0, seconds = - (1999999 / 1000000)\<rparr>
   \<and> OrderedDateTime_sub
         \<lparr>t_class = Date10,
          priv_dt = \<lparr>dt_year = 2000, dt_month = 1, dt_day = 1, dt_hour = 0, dt_minute = 0,
                     dt_second = 0, dt_microsecond = 0, dt_tzinfo = None\<rparr>,
          priv_year = None\<rparr>
         (PyTemporal
           \<lparr>t_class = Date10,
            priv_dt = \<lparr>dt_year = 1999, dt_month = 12, dt_day = 31, dt_hour = 0, dt_minute = 0,
                       dt_second = 0, dt_microsecond = 0, dt_tzinfo = None\<rparr>,
            priv_year = None\<rparr>)
       = Inr (PyDuration \<lparr>dur_class = DayTimeDuration, months = 0, seconds = 86400\<rparr>)
   \<and> same_sign \<lparr>dur_class = DayTimeDuration, months = 0, seconds = 86400\<rparr>
   \<and> Duration_init Duration 1 (- 1) = Inl ValueError"
proof -
  let ?ym = "\<lambda>k. \<lparr>dur_class = YearMonthDuration, months = k, seconds = 0\<rparr>"
  let ?dt = "\<lambda>x. \<lparr>dur_class = DayTimeDuration, months = 0, seconds = x\<rparr>"
  let ?day = "\<lambda>y mo d. \<lparr>t_class = Date10,
          priv_dt = \<lparr>dt_year = y, dt_month = mo, dt_day = d, dt_hour = 0, dt_minute = 0,
                     dt_second = 0, dt_microsecond = 0, dt_tzinfo = None\<rparr>,
          priv_year = None\<rparr>"
  have a: "Duration_init Duration 14 93600
             = Inr \<lparr>dur_class = Duration, months = 14, seconds = 93600\<rparr>"
    by code_simp
  have b: "Duration_fromstring Duration ''-P1Y2M3DT4H5M6.5S''
             = Inr \<lparr>dur_class = Duration, months = - 14, seconds = - (547813 / 2)\<rparr>"
    by code_simp
  have c: "YearMonthDuration_sub (?ym 5) (PyDuration (?ym 7)) = Inr (PyDuration (?ym (- 2)))"
    by code_simp
  have d: "YearMonthDuration_truediv (?ym 7) (PyInt 2) = Inr (PyDuration (?ym 4))"
    by code_simp
  have e: "DayTimeDuration_add (?dt (3 / 2)) (PyDuration (?dt (- 3)))
             = Inr (PyDuration (?dt (- (3 / 2))))"
    by code_simp
  have f: "DayTimeDuration_mul (?dt (3 / 2)) (PyInt 3) = Inr (PyDuration (?dt 5))"
    by code_simp
  have g: "DayTimeDuration_fromtimedelta (- 1) = Inr (?dt (- (1999999 / 1000000)))"
    by code_simp
  have h: "OrderedDateTime_sub (?day 2000 1 1) (PyTemporal (?day 1999 12 31))
             = Inr (PyDuration (?dt 86400))"
    by code_simp
  have z: "Duration_init Duration 1 (- 1) = Inl ValueError"
    by code_simp
  from a C8_duration_sign_invariant [where c = Duration and m = 14 and s = 93600]
  have 1: "same_sign \<lparr>dur_class = Duration, months = 14, seconds = 93600\<rparr>" by blast
  from b C8_duration_sign_invariant [where c = Duration and lexical = "''-P1Y2M3DT4H5M6.5S''"]
  have 2: "same_sign \<lparr>dur_class = Duration, months = - 14, seconds = - (547813 / 2)\<rparr>" by blast
  from c C8_duration_sign_invariant [where self = "?ym 5" and other = "PyDuration (?ym 7)"]
  have 3: "same_sign (?ym (- 2))" by blast
  from d C8_duration_sign_invariant [where self = "?ym 7" and other = "PyInt 2"]
  have 4: "same_sign (?ym 4)" by blast
  from e C8_duration_sign_invariant [where self = "?dt (3 / 2)" and other = "PyDuration (?dt (- 3))"]
  have 5: "same_sign (?dt (- (3 / 2)))" by blast
  from f C8_duration_sign_invariant [where self = "?dt (3 / 2)" and other = "PyInt 3"]
  have 6: "same_sign (?dt 5)" by blast
  from g C8_duration_sign_invariant [where td = "- 1"]
  have 7: "same_sign (?dt (- (1999999 / 1000000)))" by blast
  from h C8_duration_sign_invariant [where t = "?day 2000 1 1"
      and other = "PyTemporal (?day 1999 12 31)"]
  have 8: "same_sign (?dt 86400)" by blast
  from a 1 b 2 c 3 d 4 e 5 f 6 g 7 h 8 z show ?thesis by (intro conjI)
qed

subsection \<open>Floats: values that are not rounded\<close>

lemma pow2_powi: "pow2 e = 2 powi e"
  by (simp add: pow2_def power_int_def power_inverse [symmetric] inverse_eq_divide power_one_over)

lemma pow2_pos: "0 < pow2 e"
  by (simp add: pow2_def)

lemma pow2_add: "pow2 (a + b) = pow2 a * pow2 b"
  by (simp add: pow2_powi power_int_add)

lemma pow2_less: "a < b \<Longrightarrow> pow2 a < pow2 b"
  by (simp add: pow2_powi power_int_strict_increasing)

lemma pow2_less_iff: "pow2 a < pow2 b \<longleftrightarrow> a < b"
proof
  assume "pow2 a < pow2 b"
  show "a < b"
  proof (rule ccontr)
    assume "\<not> a < b"
    then have "b = a \<or> b < a" by auto
    then have "pow2 b \<le> pow2 a" using pow2_less [of b a] by auto
    with \<open>pow2 a < pow2 b\<close> show False by simp
  qed
qed (rule pow2_less)

lemma pow2_nat: "pow2 (int n) = 2 ^ n"
  by (simp add: pow2_def)

lemma ilog2_upper:
  assumes "0 < x" "x < pow2 (b + 1)"
  shows "ilog2 x \<le> b"
proof -
  obtain p q where pq: "quotient_of x = (p, q)" by (cases "quotient_of x")
  have q: "0 < q" using pq by (rule quotient_of_denom_pos)
  have x: "x = of_int p / of_int q" using pq by (rule quotient_of_div)
  have p: "0 < p" using assms(1) q unfolding x by (simp add: zero_less_divide_iff)
  define e where "e = bitlen p - bitlen q"
  have il: "ilog2 x = (if pow2 e \<le> x then e else e - 1)"
    by (simp add: ilog2_def pq e_def Let_def)
  have bp: "(2::int) ^ nat (bitlen p - 1) \<le> p" using bitlen_bounds [OF p] by simp
  have bq: "q < (2::int) ^ nat (bitlen q)" using bitlen_bounds [OF q] by simp
  have blp: "1 \<le> bitlen p" using p by (simp add: bitlen_def floorlog_def)
  have blq: "0 \<le> bitlen q" by (simp add: bitlen_def)
  have 1: "pow2 (bitlen p - 1) \<le> of_int p"
  proof -
    have "pow2 (bitlen p - 1) = of_int (2 ^ nat (bitlen p - 1))" using blp by (simp add: pow2_def)
    also have "\<dots> \<le> of_int p" using bp by (simp only: of_int_le_iff)
    finally show ?thesis .
  qed
  have 2: "of_int q < pow2 (bitlen q)"
  proof -
    have "(of_int q :: rat) < of_int (2 ^ nat (bitlen q))" using bq by (simp only: of_int_less_iff)
    also have "\<dots> = pow2 (bitlen q)" using blq by (simp add: pow2_def)
    finally show ?thesis .
  qed
  have "pow2 (e - 1) * of_int q < pow2 (e - 1) * pow2 (bitlen q)"
    using 2 pow2_pos [of "e - 1"] by simp
  also have "\<dots> = pow2 (bitlen p - 1)"
    unfolding pow2_add [symmetric] e_def by simp
  also have "\<dots> \<le> of_int p" by (rule 1)
  finally have "pow2 (e - 1) < x" unfolding x using q by (simp add: pos_less_divide_eq)
  with assms(2) have "pow2 (e - 1) < pow2 (b + 1)" by simp
  then have "e - 1 < b + 1" by (simp only: pow2_less_iff)
  moreover have "pow2 e \<le> x \<Longrightarrow> e < b + 1"
  proof -
    assume "pow2 e \<le> x"
    with assms(2) have "pow2 e < pow2 (b + 1)" by simp
    then show ?thesis by (simp only: pow2_less_iff)
  qed
  ultimately show ?thesis unfolding il by auto
qed

lemma round_half_even_int: "round_half_even (of_int n) = n"
  by (simp add: round_half_even_def)

lemma round_b64_exact:
  assumes n: "0 < n" "n < 2 ^ 53" and j: "j \<le> 1074"
  shows "round_b64 (of_int n / 2 ^ j) = Finite (of_int n / 2 ^ j)"
proof -
  define a :: rat where "a = of_int n / 2 ^ j"
  have a0: "0 < a" using n(1) by (simp add: a_def)
  have "of_int n < (2::rat) ^ 53" using n(2) by (metis of_int_less_iff of_int_numeral of_int_power)
  then have "a < 2 ^ 53 / 2 ^ j" unfolding a_def by (simp add: divide_strict_right_mono)
  also have "\<dots> = pow2 (53 - int j)"
    by (simp add: pow2_powi power_int_diff power_int_of_nat flip: power_int_numeral)
  finally have "a < pow2 ((52 - int j) + 1)" by (simp add: algebra_simps)
  with a0 have il: "ilog2 a \<le> 52 - int j" by (rule ilog2_upper)
  define e where "e = max (ilog2 a) (- 1022)"
  have e: "e \<le> 52 - int j" using il j by (simp add: e_def)
  define k where "k = nat (52 - int j - e)"
  have q: "pow2 (e - 52) * (2 ^ j * 2 ^ k) = 1"
  proof -
    have "pow2 (e - 52) * (2 ^ j * 2 ^ k) = pow2 (e - 52) * pow2 (int j + int k)"
      by (simp add: pow2_nat [symmetric] pow2_add del: of_nat_add)
    also have "\<dots> = pow2 0" unfolding pow2_add [symmetric] using e by (simp add: k_def)
    finally show ?thesis by (simp add: pow2_def)
  qed
  have qpos: "0 < pow2 (e - 52)" by (rule pow2_pos)
  have aq: "a / pow2 (e - 52) = of_int (n * 2 ^ k)"
  proof -
    have "a / pow2 (e - 52) = a * (2 ^ j * 2 ^ k)"
      using q qpos by (simp add: field_simps)
    also have "\<dots> = of_int n * 2 ^ k" by (simp add: a_def)
    finally show ?thesis by simp
  qed
  have r: "of_int (round_half_even (a / pow2 (e - 52))) * pow2 (e - 52) = a"
    unfolding aq round_half_even_int
    using aq qpos by (simp add: field_simps)
  have big: "a < pow2 1024"
  proof -
    have "a \<le> of_int n" unfolding a_def using n(1) by (simp add: divide_le_eq)
    also have "\<dots> < 2 ^ 53" by fact
    also have "\<dots> < pow2 1024" by (simp add: pow2_def)
    finally show ?thesis .
  qed
  have "round_b64 a = Finite a"
    using a0 big r unfolding round_b64_def Let_def e_def [symmetric]
    by (simp add: abs_of_pos e_def)
  then show ?thesis by (simp add: a_def)
qed

subsection \<open>Durations: multiplication and division\<close>

lemma round_half_up_exact:
  assumes "0 \<le> n" "n < 2 ^ 52"
  shows "round_half_up (round_b64 (of_int n / 2)) = Inr ((n + 1) div 2)"
proof -
  have up: "round_b64 (of_int (n + 1) / 2 ^ 1) = Finite (of_int (n + 1) / 2 ^ 1)"
    using assms by (intro round_b64_exact) simp_all
  have fl: "trunc (of_int (n + 1) / 2) = (n + 1) div 2"
  proof -
    have "\<lfloor>rat_of_int (n + 1) / rat_of_int 2\<rfloor> = (n + 1) div 2"
      by (rule floor_divide_of_int_eq)
    then show ?thesis using assms(1) by (simp add: trunc_def)
  qed
  have x: "round_b64 (of_int n / 2) = Finite (of_int n / 2)"
  proof (cases "n = 0")
    case True
    then show ?thesis by (simp add: round_b64_def)
  next
    case False
    then have "round_b64 (of_int n / 2 ^ 1) = Finite (of_int n / 2 ^ 1)"
      using assms by (intro round_b64_exact) simp_all
    then show ?thesis by simp
  qed
  have s: "of_int n / 2 + 1 / 2 = (of_int (n + 1) / 2 ^ 1 :: rat)" by (simp add: add_divide_distrib)
  have "float_add (Finite (of_int n / 2)) (Finite (1 / 2)) = round_b64 (of_int n / 2 + 1 / 2)"
    by (simp only: float_add.simps)
  also have "\<dots> = round_b64 (of_int (n + 1) / 2 ^ 1)" by (simp only: s)
  also have "\<dots> = Finite (of_int (n + 1) / 2 ^ 1)" by (rule up)
  finally show ?thesis unfolding round_half_up_def x using fl by simp
qed

lemma scaled_seconds:
  assumes "0 \<le> n" "n < 2 ^ 52"
  shows "ebind (round_half_up (round_b64 (of_int n / 2))) (\<lambda>k.
         ebind (DayTimeDuration_init (of_int k)) (\<lambda>d. Inr (PyDuration d)))
       = Inr (PyDuration \<lparr>dur_class = DayTimeDuration, months = 0,
                          seconds = of_int ((n + 1) div 2)\<rparr>)"
  unfolding round_half_up_exact [OF assms]
  by (simp add: DayTimeDuration_init_def Duration_init_def)

lemma whole_seconds:
  assumes "ebind m (\<lambda>x. ebind (round_half_up x) (\<lambda>k.
           ebind (DayTimeDuration_init (of_int k)) (\<lambda>d. Inr (PyDuration d)))) = Inr (PyDuration r)"
  shows "seconds r = of_int \<lfloor>seconds r\<rfloor>"
  using assms
  by (auto simp: ebind_Inr_iff DayTimeDuration_init_def Duration_init_def split: if_splits)

lemma mul_whole_seconds:
  "DayTimeDuration_mul self other = Inr (PyDuration r) \<Longrightarrow> seconds r = of_int \<lfloor>seconds r\<rfloor>"
  unfolding DayTimeDuration_mul_def by (rule whole_seconds)

lemma truediv_whole_seconds:
  assumes "DayTimeDuration_truediv self other = Inr (PyDuration r)"
  shows "seconds r = of_int \<lfloor>seconds r\<rfloor>"
proof (cases other)
  case (PyDuration o2)
  with assms show ?thesis
    by (auto simp: DayTimeDuration_truediv_def ebind_Inr_iff split: if_splits)
qed (use assms in \<open>auto simp: DayTimeDuration_truediv_def intro: whole_seconds\<close>)

lemma mul_scaled:
  assumes "0 \<le> n" "n < 2 ^ 52" "seconds_times (seconds self) other = Inr (round_b64 (of_int n / 2))"
  shows "DayTimeDuration_mul self other
          = Inr (PyDuration \<lparr>dur_class = DayTimeDuration, months = 0,
                              seconds = of_int ((n + 1) div 2)\<rparr>)"
  unfolding DayTimeDuration_mul_def assms(3) ebind_Inr
  by (rule scaled_seconds [OF assms(1,2)])

lemma truediv_scaled:
  assumes "0 \<le> n" "n < 2 ^ 52" "seconds_over (seconds self) other = Inr (round_b64 (of_int n / 2))"
    and "\<And>d. other \<noteq> PyDuration d"
  shows "DayTimeDuration_truediv self other
          = Inr (PyDuration \<lparr>dur_class = DayTimeDuration, months = 0,
                              seconds = of_int ((n + 1) div 2)\<rparr>)"
proof -
  have "DayTimeDuration_truediv self other =
          ebind (seconds_over (seconds self) other) (\<lambda>x.
          ebind (round_half_up x) (\<lambda>k.
          ebind (DayTimeDuration_init (of_int k)) (\<lambda>d. Inr (PyDuration d))))"
  proof (cases other)
    case (PyDuration d)
    with assms(4) show ?thesis by blast
  qed (simp_all add: DayTimeDuration_truediv_def)
  then show ?thesis
    unfolding assms(3) ebind_Inr by (simp only: scaled_seconds [OF assms(1,2)])
qed

text \<open>
  Claim C3, amended.  \<open>DayTimeDuration.__mul__\<close> and \<open>__truediv__\<close> with an integer
  or a decimal compute \<open>int(float(x) + 0.5)\<close> from the exact product or quotient \<open>x\<close>:
  the seconds of the result are always a whole number, and when \<open>x\<close> is a whole or half
  number of seconds \<open>n / 2\<close> with \<open>0 \<le> n < 2^52\<close> they are \<open>x\<close> rounded to the nearest
  whole number, halves upwards, that is \<open>(n + 1) div 2\<close>.
\<close>

theorem C3_day_time_scaling_rounds:
  assumes "0 \<le> n" and "n < 2 ^ 52"
  shows
    "(seconds self * of_int i = of_int n / 2 \<longrightarrow>
        DayTimeDuration_mul self (PyInt i)
          = Inr (PyDuration \<lparr>dur_class = DayTimeDuration, months = 0,
                              seconds = of_int ((n + 1) div 2)\<rparr>))
     \<and> (seconds self * x = of_int n / 2 \<longrightarrow>
        DayTimeDuration_mul self (PyDecimal x)
          = Inr (PyDuration \<lparr>dur_class = DayTimeDuration, months = 0,
                              seconds = of_int ((n + 1) div 2)\<rparr>))
     \<and> (i \<noteq> 0 \<and> seconds self / of_int i = of_int n / 2 \<longrightarrow>
        DayTimeDuration_truediv self (PyInt i)
          = Inr (PyDuration \<lparr>dur_class = DayTimeDuration, months = 0,
                              seconds = of_int ((n + 1) div 2)\<rparr>))
     \<and> (x \<noteq> 0 \<and> seconds self / x = of_int n / 2 \<longrightarrow>
        DayTimeDuration_truediv self (PyDecimal x)
          = Inr (PyDuration \<lparr>dur_class = DayTimeDuration, months = 0,
                              seconds = of_int ((n + 1) div 2)\<rparr>))
     \<and> (DayTimeDuration_mul self other = Inr (PyDuration r) \<longrightarrow>
          seconds r = of_int \<lfloor>seconds r\<rfloor>)
     \<and> (DayTimeDuration_truediv self other = Inr (PyDuration r) \<longrightarrow>
          seconds r = of_int \<lfloor>seconds r\<rfloor>)"
proof (intro conjI impI)
  assume h: "seconds self * of_int i = of_int n / 2"
  have "seconds_times (seconds self) (PyInt i) = Inr (round_b64 (of_int n / 2))"
    by (simp only: seconds_times.simps h)
  with assms show "DayTimeDuration_mul self (PyInt i)
          = Inr (PyDuration \<lparr>dur_class = DayTimeDuration, months = 0,
                              seconds = of_int ((n + 1) div 2)\<rparr>)"
    by (rule mul_scaled)
next
  assume h: "seconds self * x = of_int n / 2"
  have "seconds_times (seconds self) (PyDecimal x) = Inr (round_b64 (of_int n / 2))"
    by (simp only: seconds_times.simps h)
  with assms show "DayTimeDuration_mul self (PyDecimal x)
          = Inr (PyDuration \<lparr>dur_class = DayTimeDuration, months = 0,
                              seconds = of_int ((n + 1) div 2)\<rparr>)"
    by (rule mul_scaled)
next
  assume "i \<noteq> 0 \<and> seconds self / of_int i = of_int n / 2"
  then have ne: "i \<noteq> 0" and h: "seconds self / of_int i = of_int n / 2" by simp_all
  have "seconds_over (seconds self) (PyInt i) = Inr (round_b64 (seconds self / of_int i))"
    using ne by (simp add: dec_truediv_def)
  then have "seconds_over (seconds self) (PyInt i) = Inr (round_b64 (of_int n / 2))"
    by (simp only: h)
  with assms show "DayTimeDuration_truediv self (PyInt i)
          = Inr (PyDuration \<lparr>dur_class = DayTimeDuration, months = 0,
                              seconds = of_int ((n + 1) div 2)\<rparr>)"
    by (rule truediv_scaled) simp
next
  assume "x \<noteq> 0 \<and> seconds self / x = of_int n / 2"
  then have ne: "x \<noteq> 0" and h: "seconds self / x = of_int n / 2" by simp_all
  have "seconds_over (seconds self) (PyDecimal x) = Inr (round_b64 (seconds self / x))"
    using ne by (simp add: dec_truediv_def)
  then have "seconds_over (seconds self) (PyDecimal x) = Inr (round_b64 (of_int n / 2))"
    by (simp only: h)
  with assms show "DayTimeDuration_truediv self (PyDecimal x)
          = Inr (PyDuration \<lparr>dur_class = DayTimeDuration, months = 0,
                              seconds = of_int ((n + 1) div 2)\<rparr>)"
    by (rule truediv_scaled) simp
next
  assume "DayTimeDuration_mul self other = Inr (PyDuration r)"
  then show "seconds r = of_int \<lfloor>seconds r\<rfloor>" by (rule mul_whole_seconds)
next
  assume "DayTimeDuration_truediv self other = Inr (PyDuration r)"
  then show "seconds r = of_int \<lfloor>seconds r\<rfloor>" by (rule truediv_whole_seconds)
qed

text \<open>
  The theorem at \<open>DayTimeDuration(1.5) * 1\<close>, \<open>DayTimeDuration(7) * Decimal('0.5')\<close>,
  \<open>DayTimeDuration(3) / 2\<close> and \<open>DayTimeDuration(5) / Decimal(1)\<close>, where \<open>n\<close> is 3, 7,
  3 and 10, and at \<open>DayTimeDuration(1) / 3\<close>, whose result has 0 seconds.
\<close>

theorem C3_day_time_scaling_rounds_witness:
  "DayTimeDuration_mul \<lparr>dur_class = DayTimeDuration, months = 0, seconds = 3 / 2\<rparr> (PyInt 1)
     = Inr (PyDuration \<lparr>dur_class = DayTimeDuration, months = 0, seconds = 2\<rparr>)
   \<and> DayTimeDuration_mul \<lparr>dur_class = DayTimeDuration, months = 0, seconds = 7\<rparr> (PyDecimal (1 / 2))
     = Inr (PyDuration \<lparr>dur_class = DayTimeDuration, months = 0, seconds = 4\<rparr>)
   \<and> DayTimeDuration_truediv \<lparr>dur_class = DayTimeDuration, months = 0, seconds = 3\<rparr> (PyInt 2)
     = Inr (PyDuration \<lparr>dur_class = DayTimeDuration, months = 0, seconds = 2\<rparr>)
   \<and> DayTimeDuration_truediv \<lparr>dur_class = DayTimeDuration, months = 0, seconds = 5\<rparr> (PyDecimal 1)
     = Inr (PyDuration \<lparr>dur_class = DayTimeDuration, months = 0, seconds = 5\<rparr>)
   \<and> DayTimeDuration_truediv \<lparr>dur_class = DayTimeDuration, months = 0, seconds = 1\<rparr> (PyInt 3)
     = Inr (PyDuration \<lparr>dur_class = DayTimeDuration, months = 0, seconds = 0\<rparr>)
   \<and> seconds \<lparr>dur_class = DayTimeDuration, months = 0, seconds = 0\<rparr>
     = of_int \<lfloor>seconds \<lparr>dur_class = DayTimeDuration, months = 0, seconds = 0\<rparr>\<rfloor>"
proof -
  let ?dt = "\<lambda>x. \<lparr>dur_class = DayTimeDuration, months = 0, seconds = x\<rparr>"
  have a: "seconds (?dt (3 / 2)) * of_int 1 = of_int 3 / 2" by simp
  have b: "seconds (?dt 7) * (1 / 2) = of_int 7 / 2" by simp
  have c: "(2::int) \<noteq> 0 \<and> seconds (?dt 3) / of_int 2 = of_int 3 / 2" by simp
  have d: "(1::rat) \<noteq> 0 \<and> seconds (?dt 5) / 1 = of_int 10 / 2" by simp
  have e: "DayTimeDuration_truediv (?dt 1) (PyInt 3) = Inr (PyDuration (?dt 0))" by code_simp
  have p: "(0::int) \<le> 0" "(0::int) \<le> 3" "(0::int) \<le> 7" "(0::int) \<le> 10" by simp_all
  have q: "(0::int) < 2 ^ 52" "(3::int) < 2 ^ 52" "(7::int) < 2 ^ 52" "(10::int) < 2 ^ 52"
    by simp_all
  have 1: "DayTimeDuration_mul (?dt (3 / 2)) (PyInt 1) = Inr (PyDuration (?dt (of_int ((3 + 1) div 2))))"
    using C3_day_time_scaling_rounds [where n = 3 and self = "?dt (3 / 2)" and i = 1, OF p(2) q(2)] a by blast
  have 2: "DayTimeDuration_mul (?dt 7) (PyDecimal (1 / 2)) = Inr (PyDuration (?dt (of_int ((7 + 1) div 2))))"
    using C3_day_time_scaling_rounds [where n = 7 and self = "?dt 7" and x = "1 / 2", OF p(3) q(3)] b by blast
  have 3: "DayTimeDuration_truediv (?dt 3) (PyInt 2) = Inr (PyDuration (?dt (of_int ((3 + 1) div 2))))"
    using C3_day_time_scaling_rounds [where n = 3 and self = "?dt 3" and i = 2, OF p(2) q(2)] c by blast
  have 4: "DayTimeDuration_truediv (?dt 5) (PyDecimal 1) = Inr (PyDuration (?dt (of_int ((10 + 1) div 2))))"
    using C3_day_time_scaling_rounds [where n = 10 and self = "?dt 5" and x = 1, OF p(4) q(4)] d by blast
  have 5: "seconds (?dt 0) = of_int \<lfloor>seconds (?dt 0)\<rfloor>"
    using C3_day_time_scaling_rounds [where n = 0 and self = "?dt 1" and other = "PyInt 3"
        and r = "?dt 0", OF p(1) q(1)] e by blast
  from 1 2 3 4 e 5 show ?thesis by simp
qed

text \<open>
  Claim C3 as stated fails: \<open>DayTimeDuration(Decimal('1.5')) * 1\<close> has 2 seconds and
  \<open>DayTimeDuration(1) / 4\<close> has 0 seconds, where the exact values are 1.5 and 0.25.
\<close>

theorem C3_exact_seconds_counterexample:
  "DayTimeDuration_mul \<lparr>dur_class = DayTimeDuration, months = 0, seconds = 3 / 2\<rparr> (PyInt 1)
     = Inr (PyDuration \<lparr>dur_class = DayTimeDuration, months = 0, seconds = 2\<rparr>)
   \<and> (3 / 2) * rat_of_int 1 \<noteq> 2
   \<and> DayTimeDuration_truediv \<lparr>dur_class = DayTimeDuration, months = 0, seconds = 1\<rparr> (PyInt 4)
     = Inr (PyDuration \<lparr>dur_class = DayTimeDuration, months = 0, seconds = 0\<rparr>)
   \<and> 1 / rat_of_int 4 \<noteq> 0"
  by code_simp

subsection \<open>UntypedAtomic: two untyped operands\<close>

lemma get_operands_untyped:
  "UntypedAtomic_get_operands build v (PyUntypedAtomic w) True =
     ebind (py_float_of_string v) (\<lambda>x.
     ebind (py_float_of_string w) (\<lambda>y. Inr (PyFloat x, PyFloat y)))"
  "UntypedAtomic_get_operands build v (PyUntypedAtomic w) False = Inr (PyStr v, PyStr w)"
  by (simp_all add: UntypedAtomic_get_operands_def)

lemma binop_untyped:
  "UntypedAtomic_binop build rest op v (PyUntypedAtomic w) =
     ebind (py_float_of_string v) (\<lambda>x.
     ebind (py_float_of_string w) (\<lambda>y. float_operator op x y))"
proof (cases "py_float_of_string v")
  case (Inl e)
  then show ?thesis by (simp add: UntypedAtomic_binop_def get_operands_untyped)
next
  case x: (Inr x)
  show ?thesis
  proof (cases "py_float_of_string w")
    case (Inl e)
    with x show ?thesis by (simp add: UntypedAtomic_binop_def get_operands_untyped)
  next
    case (Inr y)
    with x show ?thesis
      by (simp add: UntypedAtomic_binop_def get_operands_untyped py_operator_def)
  qed
qed

lemma float_of_digit_strings:
  "py_float_of_string ''5'' = Inr (Finite 5)" "py_float_of_string ''3'' = Inr (Finite 3)"
  "py_float_of_string ''1.0'' = Inr (Finite 1)" "py_float_of_string ''1'' = Inr (Finite 1)"
  "round_b64 8 = Finite 8"
  by code_simp+

text \<open>
  Claim C7.  With an untyped peer, \<open>_get_operands\<close> gives the two values read by
  \<open>float()\<close> to every arithmetic and ordering method, the value of \<open>self\<close> first, and
  the method applies its operator to the two floats; it raises what \<open>float()\<close> raises on a
  string that is no number.  So \<open>UntypedAtomic('5') + UntypedAtomic('3')\<close> is the float
  8.0.  \<open>__eq__\<close> gets the two strings and compares them as they are: \<open>'1.0'\<close> and
  \<open>'1'\<close> are not equal, although neither is less than the other.  This holds whatever
  the constructors and operators of the other classes do.
\<close>

theorem C7_untyped_operands:
  "UntypedAtomic_get_operands build v (PyUntypedAtomic w) True =
     ebind (py_float_of_string v) (\<lambda>x.
     ebind (py_float_of_string w) (\<lambda>y. Inr (PyFloat x, PyFloat y)))
   \<and> UntypedAtomic_binop build rest op v (PyUntypedAtomic w) =
     ebind (py_float_of_string v) (\<lambda>x.
     ebind (py_float_of_string w) (\<lambda>y. float_operator op x y))
   \<and> UntypedAtomic_add build rest ''5'' (PyUntypedAtomic ''3'') = Inr (PyFloat (Finite 8))
   \<and> UntypedAtomic_get_operands build v (PyUntypedAtomic w) False = Inr (PyStr v, PyStr w)
   \<and> UntypedAtomic_eq build rest_eq v (PyUntypedAtomic w) = Inr (PyBool (v = w))
   \<and> UntypedAtomic_eq build rest_eq ''1.0'' (PyUntypedAtomic ''1'') = Inr (PyBool False)
   \<and> UntypedAtomic_binop build rest OpLt ''1.0'' (PyUntypedAtomic ''1'') = Inr (PyBool False)
   \<and> UntypedAtomic_binop build rest OpGt ''1.0'' (PyUntypedAtomic ''1'') = Inr (PyBool False)
   \<and> UntypedAtomic_binop build rest OpLe ''1.0'' (PyUntypedAtomic ''1'') = Inr (PyBool True)"
proof (intro conjI)
  show "UntypedAtomic_add build rest ''5'' (PyUntypedAtomic ''3'') = Inr (PyFloat (Finite 8))"
    unfolding UntypedAtomic_add_def binop_untyped by (simp add: float_of_digit_strings)
  show "UntypedAtomic_eq build rest_eq v (PyUntypedAtomic w) = Inr (PyBool (v = w))"
    by (simp add: UntypedAtomic_eq_def get_operands_untyped py_operator_eq_def)
  show "UntypedAtomic_eq build rest_eq ''1.0'' (PyUntypedAtomic ''1'') = Inr (PyBool False)"
    by (simp add: UntypedAtomic_eq_def get_operands_untyped py_operator_eq_def)
  show "UntypedAtomic_binop build rest OpLt ''1.0'' (PyUntypedAtomic ''1'') = Inr (PyBool False)"
    unfolding binop_untyped by (simp add: float_of_digit_strings)
  show "UntypedAtomic_binop build rest OpGt ''1.0'' (PyUntypedAtomic ''1'') = Inr (PyBool False)"
    unfolding binop_untyped by (simp add: float_of_digit_strings)
  show "UntypedAtomic_binop build rest OpLe ''1.0'' (PyUntypedAtomic ''1'') = Inr (PyBool True)"
    unfolding binop_untyped by (simp add: float_of_digit_strings)
qed (rule get_operands_untyped binop_untyped)+

text \<open>
  The theorem with constructors and operators that raise \<open>TypeError\<close> on all other
  classes, at \<open>'5' + '3'\<close>, \<open>'2.5' * '4'\<close>, \<open>'abc' + '3'\<close>, where \<open>float('abc')\<close> raises
  \<open>ValueError\<close>, \<open>'5' == '5.0'\<close> and \<open>'abc' == 'abc'\<close>.
\<close>

theorem C7_untyped_operands_witness:
  "UntypedAtomic_add (\<lambda>other v. Inl TypeError) (\<lambda>op a b. Inl TypeError) ''5'' (PyUntypedAtomic ''3'')
     = Inr (PyFloat (Finite 8))
   \<and> UntypedAtomic_binop (\<lambda>other v. Inl TypeError) (\<lambda>op a b. Inl TypeError) OpMul ''2.5''
       (PyUntypedAtomic ''4'')
     = Inr (PyFloat (Finite 10))
   \<and> UntypedAtomic_binop (\<lambda>other v. Inl TypeError) (\<lambda>op a b. Inl TypeError) OpAdd ''abc''
       (PyUntypedAtomic ''3'')
     = Inl ValueError
   \<and> UntypedAtomic_eq (\<lambda>other v. Inl TypeError) (\<lambda>a b. Inl TypeError) ''5'' (PyUntypedAtomic ''5.0'')
     = Inr (PyBool False)
   \<and> UntypedAtomic_eq (\<lambda>other v. Inl TypeError) (\<lambda>a b. Inl TypeError) ''abc'' (PyUntypedAtomic ''abc'')
     = Inr (PyBool True)"
proof -
  let ?build = "\<lambda>(other::pyvalue) (v::string). (Inl TypeError :: error + pyvalue)"
  let ?rest = "\<lambda>(op::binop) (a::pyvalue) (b::pyvalue). (Inl TypeError :: error + pyvalue)"
  let ?rest_eq = "\<lambda>(a::pyvalue) (b::pyvalue). (Inl TypeError :: error + pyvalue)"
  have m: "ebind (py_float_of_string ''2.5'') (\<lambda>x.
           ebind (py_float_of_string ''4'') (\<lambda>y. float_operator OpMul x y))
             = Inr (PyFloat (Finite 10))"
    by code_simp
  have a: "ebind (py_float_of_string ''abc'') (\<lambda>x.
           ebind (py_float_of_string ''3'') (\<lambda>y. float_operator OpAdd x y))
             = Inl ValueError"
    by code_simp
  note t1 = C7_untyped_operands [where build = ?build and rest = ?rest and rest_eq = ?rest_eq
      and op = OpMul and v = "''2.5''" and w = "''4''"]
  note t2 = C7_untyped_operands [where build = ?build and rest = ?rest and rest_eq = ?rest_eq
      and op = OpAdd and v = "''abc''" and w = "''3''"]
  note t3 = C7_untyped_operands [where build = ?build and rest = ?rest and rest_eq = ?rest_eq
      and v = "''5''" and w = "''5.0''"]
  note t4 = C7_untyped_operands [where build = ?build and rest = ?rest and rest_eq = ?rest_eq
      and v = "''abc''" and w = "''abc''"]
  from t1 have 1: "UntypedAtomic_add ?build ?rest ''5'' (PyUntypedAtomic ''3'') = Inr (PyFloat (Finite 8))"
    by blast
  from t1 m have 2: "UntypedAtomic_binop ?build ?rest OpMul ''2.5'' (PyUntypedAtomic ''4'')
      = Inr (PyFloat (Finite 10))"
    by simp
  from t2 a have 3: "UntypedAtomic_binop ?build ?rest OpAdd ''abc'' (PyUntypedAtomic ''3'')
      = Inl ValueError"
    by simp
  from t3 have 4: "UntypedAtomic_eq ?build ?rest_eq ''5'' (PyUntypedAtomic ''5.0'') = Inr (PyBool False)"
    by simp
  from t4 have 5: "UntypedAtomic_eq ?build ?rest_eq ''abc'' (PyUntypedAtomic ''abc'') = Inr (PyBool True)"
    by simp
  from 1 2 3 4 5 show ?thesis by (intro conjI)
qed

subsection \<open>The calendar: ordinals of days\<close>



















subsection \<open>Dates: adding and subtracting whole days\<close>



lemma epoch: "mk_datetime 1 1 1 0 0 0 0 None =
    Inr \<lparr>dt_year = 1, dt_month = 1, dt_day = 1, dt_hour = 0, dt_minute = 0,
         dt_second = 0, dt_microsecond = 0, dt_tzinfo = None\<rparr>"
  by (simp add: mk_datetime_def days_in_month_def DAYS_IN_MONTH_def)














subsection \<open>Integer constructors\<close>

lemma cast_to_integer_PyInt:
  "cast_to_integer (PyInt x) (Some lo) (Some hi) =
     (if x < lo \<or> hi \<le> x then Inl (XPathError ''FORG0001'') else Inr x)"
  by (simp add: cast_to_integer_def check_bounds_def)

text \<open>
  Claim C10.  On an integer input \<open>x\<close> the \<open>long\<close> constructor returns \<open>x\<close> exactly
  when \<open>-2^127 \<le> x < 2^127\<close> and the \<open>int\<close> constructor exactly when
  \<open>-2^63 \<le> x < 2^63\<close>; outside these bounds both fail with \<open>FORG0001\<close>.  The registry
  validators of \<open>long\<close> and \<open>int\<close> accept exactly the 64-bit and the 32-bit range, so
  each constructor accepts every integer its validator accepts and more: \<open>2^63\<close> is
  accepted by the \<open>long\<close> constructor and rejected by the \<open>long\<close> validator, \<open>2^31\<close>
  likewise for \<open>int\<close>.
\<close>

theorem C10_integer_constructor_bounds:
  "cast_long (PyInt x) =
     (if - (2 ^ 127) \<le> x \<and> x < 2 ^ 127 then Inr x else Inl (XPathError ''FORG0001''))
   \<and> cast_int (PyInt x) =
     (if - (2 ^ 63) \<le> x \<and> x < 2 ^ 63 then Inr x else Inl (XPathError ''FORG0001''))
   \<and> long_validator (PyInt x) = (- (2 ^ 63) \<le> x \<and> x < 2 ^ 63)
   \<and> int_validator (PyInt x) = (- (2 ^ 31) \<le> x \<and> x < 2 ^ 31)
   \<and> (long_validator (PyInt x) \<longrightarrow> cast_long (PyInt x) = Inr x)
   \<and> (int_validator (PyInt x) \<longrightarrow> cast_int (PyInt x) = Inr x)
   \<and> cast_long (PyInt (2 ^ 63)) = Inr (2 ^ 63) \<and> \<not> long_validator (PyInt (2 ^ 63))
   \<and> cast_int (PyInt (2 ^ 31)) = Inr (2 ^ 31) \<and> \<not> int_validator (PyInt (2 ^ 31))"
  by (auto simp add: cast_long_def cast_int_def cast_to_integer_PyInt)

theorem C10_integer_constructor_bounds_witness:
  "cast_long (PyInt (2 ^ 63)) = Inr (2 ^ 63) \<and> \<not> long_validator (PyInt (2 ^ 63))
   \<and> cast_long (PyInt 5) = Inr 5 \<and> long_validator (PyInt 5)
   \<and> cast_int (PyInt 5) = Inr 5 \<and> int_validator (PyInt 5)
   \<and> cast_long (PyInt (2 ^ 127)) = Inl (XPathError ''FORG0001'')
   \<and> cast_int (PyInt (- (2 ^ 63) - 1)) = Inl (XPathError ''FORG0001'')"
  using C10_integer_constructor_bounds [of "2 ^ 63"] C10_integer_constructor_bounds [of 5]
    C10_integer_constructor_bounds [of "2 ^ 127"] C10_integer_constructor_bounds [of "- (2 ^ 63) - 1"]
  by simp

end
